theory Spec2Isabelle
  imports Main "HOL-Library.Word" "HOL-Library.Sublist"
begin

unbundle bit_operations_syntax

section \<open>Data model\<close>

text \<open>
  The development embeds \<^verbatim>\<open>lib/calib/calib_verify.c\<close> and
  \<^verbatim>\<open>lib/calib/calib_secureboot.c\<close>. A nullable C pointer is an \<open>option\<close>
  (\<open>None\<close> is \<^verbatim>\<open>NULL\<close>, \<open>Some x\<close> points to an object whose content is \<open>x\<close>);
  a byte buffer is a list of bytes; an output parameter is passed in with its content
  at entry and returned with its content at exit.
\<close>

type_synonym byte = "8 word"

text \<open>
  \<^verbatim>\<open>ATCA_STATUS\<close>: the enumerators the two files name, and one constructor for
  every other member of the enumeration (the collaborators may return any of them).
\<close>

datatype ATCA_STATUS =
    ATCA_SUCCESS
  | ATCA_CHECKMAC_VERIFY_FAILED
  | ATCA_BAD_PARAM
  | ATCA_INVALID_SIZE
  | ATCA_ALLOC_FAILURE
  | ATCA_STATUS_OTHER nat

text \<open>\<^verbatim>\<open>ATCADeviceType\<close>: the files only compare the tag against \<^verbatim>\<open>ATECC608\<close>.\<close>

datatype ATCADeviceType = ATECC608 | ATCA_DEV_OTHER nat

text \<open>
  The device context; \<open>devtype\<close> stands for
  \<^verbatim>\<open>device->mIface.mIfaceCFG->devtype\<close>, the only part the files read.
\<close>

record atca_device =
  devtype :: ATCADeviceType

text \<open>\<^verbatim>\<open>ATCAPacket\<close>, with the fields the command layer reads and writes.\<close>

record ATCAPacket =
  txsize :: byte
  opcode :: byte
  param1 :: byte
  param2 :: "16 word"
  data :: "byte list"

subsection \<open>Constants of the headers\<close>

text \<open>
  Modelled from the spec: the fixed sizes in bytes, which the specification lists in its
  section on external interfaces (digest 32, signature 64, public key 64, MAC 32,
  other data 19); the header that defines the macros is not among the sources.
\<close>

definition ATCA_SIG_SIZE :: nat where "ATCA_SIG_SIZE = 64"
definition ATCA_PUB_KEY_SIZE :: nat where "ATCA_PUB_KEY_SIZE = 64"
definition VERIFY_OTHER_DATA_SIZE :: nat where "VERIFY_OTHER_DATA_SIZE = 19"
definition SECUREBOOT_DIGEST_SIZE :: nat where "SECUREBOOT_DIGEST_SIZE = 32"
definition SECUREBOOT_SIGNATURE_SIZE :: nat where "SECUREBOOT_SIGNATURE_SIZE = 64"
definition SECUREBOOT_MAC_SIZE :: nat where "SECUREBOOT_MAC_SIZE = 32"
definition MAC_SIZE :: nat where "MAC_SIZE = 32"

text \<open>
  The build configuration: the compile-time capacity \<^verbatim>\<open>CA_MAX_PACKET_SIZE\<close>, the
  minimal command size, the length of the array \<^verbatim>\<open>ATCAPacket.data\<close>, and the
  response layout. Their header is not among the sources, so they are parameters of
  every function below.
\<close>

record build_config =
  CA_MAX_PACKET_SIZE :: nat
  ATCA_CMD_SIZE_MIN :: nat
  sizeof_packet_data :: nat
  sizeof_temp_key :: nat
  ATCA_COUNT_IDX :: nat
  ATCA_RSP_DATA_IDX :: nat
  ATCA_PACKET_OVERHEAD :: nat
  SECUREBOOT_RSP_SIZE_MAC :: nat

text \<open>The mode bytes, flags and addresses of the command header, parameters likewise.\<close>

record mode_consts =
  VERIFY_MODE_MASK :: byte
  VERIFY_MODE_STORED :: byte
  VERIFY_MODE_EXTERNAL :: byte
  VERIFY_MODE_VALIDATE :: byte
  VERIFY_MODE_INVALIDATE :: byte
  VERIFY_MODE_SOURCE_TEMPKEY :: byte
  VERIFY_MODE_SOURCE_MSGDIGBUF :: byte
  VERIFY_MODE_MAC_FLAG :: byte
  VERIFY_KEY_P256 :: "16 word"
  NONCE_MODE_TARGET_TEMPKEY :: byte
  NONCE_MODE_TARGET_MSGDIGBUF :: byte
  NONCE_MODE_SEED_UPDATE :: byte
  SECUREBOOT_MODE_ENC_MAC_FLAG :: byte
  ATCA_ZONE_CONFIG :: byte
  SECUREBOOTCONFIG_OFFSET :: nat

subsection \<open>Parameter blocks of the host-side functions\<close>

text \<open>
  The structures of \<^verbatim>\<open>host/atca_host.h\<close> with the members the two files set. A
  pointer member to an input buffer holds the buffer's content; a pointer member to an
  output buffer is the function's result instead.
\<close>

record atca_nonce_in_out =
  nonce_mode :: byte
  nonce_zero :: "16 word"
  nonce_num_in :: "byte list"
  nonce_rand_out :: "byte list"
  nonce_temp_key :: "byte list"

record atca_secureboot_enc_in_out =
  enc_io_key :: "byte list"
  enc_temp_key :: "byte list"
  enc_digest :: "byte list"

record atca_secureboot_mac_in_out =
  sbmac_mode :: byte
  sbmac_param2 :: "16 word"
  sbmac_secure_boot_config :: "16 word"
  sbmac_hashed_key :: "byte list"
  sbmac_digest :: "byte list"
  sbmac_signature :: "byte list option"

record atca_verify_mac_in_out =
  vmac_mode :: byte
  vmac_key_id :: "16 word"
  vmac_signature :: "byte list"
  vmac_msg_dig_buf :: "byte list"
  vmac_io_key :: "byte list"
  vmac_temp_key :: "byte list option"
  vmac_sn :: "byte list option"

subsection \<open>Collaborators and the observable history\<close>

text \<open>
  Everything the two files call and do not define: the packet allocator, the command
  builders \<^verbatim>\<open>atVerify\<close> and \<^verbatim>\<open>atSecureBoot\<close>, the command executor, the
  Nonce and Read commands, and the host-side hash functions. The device-facing ones read
  and change the state \<open>'w\<close> of the outside world; the others are functions of their
  arguments.
\<close>

record 'w collaborators =
  calib_packet_alloc :: "'w \<Rightarrow> bool \<times> 'w"
  calib_packet_free :: "bool \<Rightarrow> 'w \<Rightarrow> 'w"
  atcab_get_device_type_ext :: "atca_device option \<Rightarrow> ATCADeviceType"
  atVerify :: "ATCADeviceType \<Rightarrow> ATCAPacket \<Rightarrow> ATCA_STATUS \<times> ATCAPacket"
  atSecureBoot :: "ATCADeviceType \<Rightarrow> ATCAPacket \<Rightarrow> ATCA_STATUS \<times> ATCAPacket"
  atca_execute_command ::
    "ATCAPacket \<Rightarrow> atca_device option \<Rightarrow> 'w \<Rightarrow> (ATCA_STATUS \<times> ATCAPacket) \<times> 'w"
  calib_nonce_load ::
    "atca_device option \<Rightarrow> byte \<Rightarrow> byte list \<Rightarrow> nat \<Rightarrow> 'w \<Rightarrow> ATCA_STATUS \<times> 'w"
  calib_nonce_base ::
    "atca_device option \<Rightarrow> byte \<Rightarrow> 16 word \<Rightarrow> byte list \<Rightarrow> 'w
       \<Rightarrow> (ATCA_STATUS \<times> byte list) \<times> 'w"
  calib_read_bytes_zone ::
    "atca_device option \<Rightarrow> byte \<Rightarrow> 16 word \<Rightarrow> nat \<Rightarrow> nat \<Rightarrow> 'w
       \<Rightarrow> (ATCA_STATUS \<times> byte list) \<times> 'w"
  atcah_nonce :: "atca_nonce_in_out \<Rightarrow> ATCA_STATUS \<times> byte list"
  atcah_secureboot_enc ::
    "atca_secureboot_enc_in_out \<Rightarrow> ATCA_STATUS \<times> byte list \<times> byte list"
  atcah_secureboot_mac :: "atca_secureboot_mac_in_out \<Rightarrow> ATCA_STATUS \<times> byte list"
  atcah_verify_mac :: "atca_verify_mac_in_out \<Rightarrow> ATCA_STATUS \<times> byte list"

text \<open>
  The history records, in program order, each call of a collaborator with the arguments
  it received and each store through \<^verbatim>\<open>is_verified\<close>.
\<close>

datatype event =
    Call_calib_packet_alloc
  | Call_calib_packet_free bool
  | Call_atVerify ATCADeviceType ATCAPacket
  | Call_atSecureBoot ATCADeviceType ATCAPacket
  | Call_atca_execute_command ATCAPacket
  | Call_calib_nonce_load byte "byte list" nat
  | Call_calib_nonce_base byte "16 word" "byte list"
  | Call_calib_read_bytes_zone byte "16 word" nat nat
  | Call_atcah_nonce atca_nonce_in_out
  | Call_atcah_secureboot_enc atca_secureboot_enc_in_out
  | Call_atcah_secureboot_mac atca_secureboot_mac_in_out
  | Call_atcah_verify_mac atca_verify_mac_in_out
  | Store_is_verified bool

record 'w state =
  world :: 'w
  events :: "event list"

definition log_event :: "event \<Rightarrow> 'w state \<Rightarrow> 'w state" where
  "log_event e st = st\<lparr>events := events st @ [e]\<rparr>"

text \<open>
  \<^verbatim>\<open>memcpy(&dst[off], src, n)\<close>. C defines it only when \<open>off + n \<le> length dst\<close>
  and \<open>n \<le> length src\<close>; the theorems on buffer contents state these sizes.
\<close>

definition memcpy_at :: "byte list \<Rightarrow> nat \<Rightarrow> byte list \<Rightarrow> nat \<Rightarrow> byte list" where
  "memcpy_at dst off src n = take off dst @ take n src @ drop (off + n) dst"

text \<open>\<^verbatim>\<open>memset(packet, 0x00, sizeof(ATCAPacket))\<close>\<close>

definition memset_packet :: "build_config \<Rightarrow> ATCAPacket" where
  "memset_packet B =
     \<lparr>txsize = 0, opcode = 0, param1 = 0, param2 = 0,
      data = replicate (sizeof_packet_data B) 0\<rparr>"

text \<open>\<^verbatim>\<open>memcmp(a, b, n) == 0\<close>\<close>

definition memcmp_eq :: "byte list \<Rightarrow> byte list \<Rightarrow> nat \<Rightarrow> bool" where
  "memcmp_eq a b n \<longleftrightarrow> take n a = take n b"

subsection \<open>Calls of the collaborators\<close>

definition do_packet_alloc :: "'w collaborators \<Rightarrow> 'w state \<Rightarrow> bool \<times> 'w state" where
  "do_packet_alloc E st =
     (case calib_packet_alloc E (world st) of
        (ok, w) \<Rightarrow> (ok, \<lparr>world = w, events = events st @ [Call_calib_packet_alloc]\<rparr>))"

definition do_packet_free :: "'w collaborators \<Rightarrow> bool \<Rightarrow> 'w state \<Rightarrow> 'w state" where
  "do_packet_free E allocated st =
     \<lparr>world = calib_packet_free E allocated (world st),
      events = events st @ [Call_calib_packet_free allocated]\<rparr>"

definition do_atVerify ::
  "'w collaborators \<Rightarrow> ATCADeviceType \<Rightarrow> ATCAPacket \<Rightarrow> 'w state
     \<Rightarrow> (ATCA_STATUS \<times> ATCAPacket) \<times> 'w state" where
  "do_atVerify E dt packet st = (atVerify E dt packet, log_event (Call_atVerify dt packet) st)"

definition do_atSecureBoot ::
  "'w collaborators \<Rightarrow> ATCADeviceType \<Rightarrow> ATCAPacket \<Rightarrow> 'w state
     \<Rightarrow> (ATCA_STATUS \<times> ATCAPacket) \<times> 'w state" where
  "do_atSecureBoot E dt packet st =
     (atSecureBoot E dt packet, log_event (Call_atSecureBoot dt packet) st)"

definition do_execute_command ::
  "'w collaborators \<Rightarrow> ATCAPacket \<Rightarrow> atca_device option \<Rightarrow> 'w state
     \<Rightarrow> (ATCA_STATUS \<times> ATCAPacket) \<times> 'w state" where
  "do_execute_command E packet device st =
     (case atca_execute_command E packet device (world st) of
        (r, w) \<Rightarrow> (r, \<lparr>world = w, events = events st @ [Call_atca_execute_command packet]\<rparr>))"

definition do_nonce_load ::
  "'w collaborators \<Rightarrow> atca_device option \<Rightarrow> byte \<Rightarrow> byte list \<Rightarrow> nat \<Rightarrow> 'w state
     \<Rightarrow> ATCA_STATUS \<times> 'w state" where
  "do_nonce_load E device target buf n st =
     (case calib_nonce_load E device target buf n (world st) of
        (r, w) \<Rightarrow> (r, \<lparr>world = w, events = events st @ [Call_calib_nonce_load target buf n]\<rparr>))"

definition do_nonce_base ::
  "'w collaborators \<Rightarrow> atca_device option \<Rightarrow> byte \<Rightarrow> 16 word \<Rightarrow> byte list \<Rightarrow> 'w state
     \<Rightarrow> (ATCA_STATUS \<times> byte list) \<times> 'w state" where
  "do_nonce_base E device m z n st =
     (case calib_nonce_base E device m z n (world st) of
        (r, w) \<Rightarrow> (r, \<lparr>world = w, events = events st @ [Call_calib_nonce_base m z n]\<rparr>))"

definition do_read_bytes_zone ::
  "'w collaborators \<Rightarrow> atca_device option \<Rightarrow> byte \<Rightarrow> 16 word \<Rightarrow> nat \<Rightarrow> nat \<Rightarrow> 'w state
     \<Rightarrow> (ATCA_STATUS \<times> byte list) \<times> 'w state" where
  "do_read_bytes_zone E device zone slot off n st =
     (case calib_read_bytes_zone E device zone slot off n (world st) of
        (r, w) \<Rightarrow>
          (r, \<lparr>world = w, events = events st @ [Call_calib_read_bytes_zone zone slot off n]\<rparr>))"

definition do_atcah_nonce ::
  "'w collaborators \<Rightarrow> atca_nonce_in_out \<Rightarrow> 'w state \<Rightarrow> (ATCA_STATUS \<times> byte list) \<times> 'w state"
  where
  "do_atcah_nonce E p st = (atcah_nonce E p, log_event (Call_atcah_nonce p) st)"

definition do_atcah_secureboot_enc ::
  "'w collaborators \<Rightarrow> atca_secureboot_enc_in_out \<Rightarrow> 'w state
     \<Rightarrow> (ATCA_STATUS \<times> byte list \<times> byte list) \<times> 'w state" where
  "do_atcah_secureboot_enc E p st =
     (atcah_secureboot_enc E p, log_event (Call_atcah_secureboot_enc p) st)"

definition do_atcah_secureboot_mac ::
  "'w collaborators \<Rightarrow> atca_secureboot_mac_in_out \<Rightarrow> 'w state
     \<Rightarrow> (ATCA_STATUS \<times> byte list) \<times> 'w state" where
  "do_atcah_secureboot_mac E p st =
     (atcah_secureboot_mac E p, log_event (Call_atcah_secureboot_mac p) st)"

definition do_atcah_verify_mac ::
  "'w collaborators \<Rightarrow> atca_verify_mac_in_out \<Rightarrow> 'w state
     \<Rightarrow> (ATCA_STATUS \<times> byte list) \<times> 'w state" where
  "do_atcah_verify_mac E p st = (atcah_verify_mac E p, log_event (Call_atcah_verify_mac p) st)"

text \<open>\<^verbatim>\<open>*is_verified = b\<close>: the new content of the cell, and the store in the history.\<close>

definition store_is_verified :: "bool \<Rightarrow> 'w state \<Rightarrow> bool option \<times> 'w state" where
  "store_is_verified b st = (Some b, log_event (Store_is_verified b) st)"

section \<open>The Verify command\<close>

text \<open>
  \<^verbatim>\<open>calib_verify\<close> (calib_verify.c, lines 71-161). The result is the returned
  status, the content of the caller's \<^verbatim>\<open>mac\<close> buffer at exit, and the state.
  \<open>size_status\<close> is the value the two capacity checks store in \<^verbatim>\<open>status\<close>:
  neither check leaves the \<^verbatim>\<open>do { } while (false)\<close> block, and every path
  after them assigns \<^verbatim>\<open>status\<close> again before it is returned.
\<close>

definition calib_verify ::
  "build_config \<Rightarrow> mode_consts \<Rightarrow> 'w collaborators \<Rightarrow> atca_device option \<Rightarrow> byte \<Rightarrow> 16 word
     \<Rightarrow> byte list option \<Rightarrow> byte list option \<Rightarrow> byte list option \<Rightarrow> byte list option
     \<Rightarrow> 'w state \<Rightarrow> (ATCA_STATUS \<times> byte list option) \<times> 'w state" where
  "calib_verify B K E device mode key_id signature public_key other_data mac st =
     (let verify_mode = mode AND VERIFY_MODE_MASK K in
      if device = None \<or> (verify_mode = VERIFY_MODE_EXTERNAL K \<and> public_key = None)
         \<or> signature = None
      then ((ATCA_BAD_PARAM, mac), do_packet_free E False st)
      else if (verify_mode = VERIFY_MODE_VALIDATE K \<or> verify_mode = VERIFY_MODE_INVALIDATE K)
              \<and> other_data = None
      then ((ATCA_BAD_PARAM, mac), do_packet_free E False st)
      else
        let size_status =
              (if CA_MAX_PACKET_SIZE B < ATCA_CMD_SIZE_MIN B + ATCA_SIG_SIZE + ATCA_PUB_KEY_SIZE
                  \<and> verify_mode = VERIFY_MODE_EXTERNAL K
               then Some ATCA_INVALID_SIZE else None);
            size_status =
              (if CA_MAX_PACKET_SIZE B < ATCA_CMD_SIZE_MIN B + ATCA_SIG_SIZE + VERIFY_OTHER_DATA_SIZE
                  \<and> (verify_mode = VERIFY_MODE_VALIDATE K \<or> verify_mode = VERIFY_MODE_INVALIDATE K)
               then Some ATCA_INVALID_SIZE else size_status);
            (allocated, st) = do_packet_alloc E st
        in
        if \<not> allocated then ((ATCA_ALLOC_FAILURE, mac), do_packet_free E False st)
        else
          let packet = memset_packet B;
              packet = packet\<lparr>param1 := mode\<rparr>;
              packet = packet\<lparr>param2 := key_id\<rparr>;
              packet = packet\<lparr>data := memcpy_at (data packet) 0 (the signature) ATCA_SIG_SIZE\<rparr>;
              packet =
                (if verify_mode = VERIFY_MODE_EXTERNAL K
                 then packet\<lparr>data := memcpy_at (data packet) ATCA_SIG_SIZE (the public_key)
                                         ATCA_PUB_KEY_SIZE\<rparr>
                 else packet);
              packet =
                (if verify_mode = VERIFY_MODE_VALIDATE K \<or> verify_mode = VERIFY_MODE_INVALIDATE K
                 then packet\<lparr>data := memcpy_at (data packet) ATCA_SIG_SIZE (the other_data)
                                         VERIFY_OTHER_DATA_SIZE\<rparr>
                 else packet);
              ((status, packet), st) =
                do_atVerify E (atcab_get_device_type_ext E device) packet st
          in
          if status \<noteq> ATCA_SUCCESS then ((status, mac), do_packet_free E True st)
          else
            let ((status, packet), st) = do_execute_command E packet device st in
            if status \<noteq> ATCA_SUCCESS then ((status, mac), do_packet_free E True st)
            else
              let mac =
                    (if mac \<noteq> None
                        \<and> unat (data packet ! ATCA_COUNT_IDX B) \<ge> ATCA_PACKET_OVERHEAD B + MAC_SIZE
                     then Some (memcpy_at (the mac) 0
                                  (drop (ATCA_RSP_DATA_IDX B) (data packet)) MAC_SIZE)
                     else mac)
              in ((status, mac), do_packet_free E True st))"

section \<open>The SecureBoot command\<close>

text \<open>
  \<^verbatim>\<open>calib_secureboot\<close> (calib_secureboot.c, lines 56-120). As in
  \<^verbatim>\<open>calib_verify\<close>, the capacity check stores its status and goes on.
\<close>

definition calib_secureboot ::
  "build_config \<Rightarrow> 'w collaborators \<Rightarrow> atca_device option \<Rightarrow> byte \<Rightarrow> 16 word
     \<Rightarrow> byte list option \<Rightarrow> byte list option \<Rightarrow> byte list option
     \<Rightarrow> 'w state \<Rightarrow> (ATCA_STATUS \<times> byte list option) \<times> 'w state" where
  "calib_secureboot B E device mode param2' digest signature mac st =
     (if device = None \<or> digest = None
      then ((ATCA_BAD_PARAM, mac), do_packet_free E False st)
      else
        let size_status =
              (if CA_MAX_PACKET_SIZE B
                    < ATCA_CMD_SIZE_MIN B + SECUREBOOT_DIGEST_SIZE + SECUREBOOT_SIGNATURE_SIZE
                  \<and> signature \<noteq> None
               then Some ATCA_INVALID_SIZE else None);
            (allocated, st) = do_packet_alloc E st
        in
        if \<not> allocated then ((ATCA_ALLOC_FAILURE, mac), do_packet_free E False st)
        else
          let packet = memset_packet B;
              packet = packet\<lparr>param1 := mode\<rparr>;
              packet = packet\<lparr>param2 := param2'\<rparr>;
              packet = packet\<lparr>data := memcpy_at (data packet) 0 (the digest)
                                      SECUREBOOT_DIGEST_SIZE\<rparr>;
              packet =
                (if signature \<noteq> None
                 then packet\<lparr>data := memcpy_at (data packet) SECUREBOOT_DIGEST_SIZE
                                         (the signature) SECUREBOOT_SIGNATURE_SIZE\<rparr>
                 else packet);
              ((status, packet), st) =
                do_atSecureBoot E (atcab_get_device_type_ext E device) packet st
          in
          if status \<noteq> ATCA_SUCCESS then ((status, mac), do_packet_free E True st)
          else
            let ((status, packet), st) = do_execute_command E packet device st in
            if status \<noteq> ATCA_SUCCESS then ((status, mac), do_packet_free E True st)
            else
              let mac =
                    (if mac \<noteq> None
                        \<and> unat (data packet ! ATCA_COUNT_IDX B) \<ge> SECUREBOOT_RSP_SIZE_MAC B
                     then Some (memcpy_at (the mac) 0
                                  (drop (ATCA_RSP_DATA_IDX B) (data packet)) SECUREBOOT_MAC_SIZE)
                     else mac)
              in ((status, mac), do_packet_free E True st))"

text \<open>
  \<^verbatim>\<open>calib_secureboot_mac\<close> (calib_secureboot.c, lines 140-244). The result is the
  status and the content of \<^verbatim>\<open>*is_verified\<close> at exit. \<open>mac_uninit\<close> is the
  indeterminate content of the local array \<^verbatim>\<open>mac\<close> at entry: the array is passed
  to \<^verbatim>\<open>calib_secureboot\<close> as it is, and compared afterwards. Each parameter
  block is shown with the content its pointer members have when the block is used.
\<close>

definition calib_secureboot_mac ::
  "build_config \<Rightarrow> mode_consts \<Rightarrow> 'w collaborators \<Rightarrow> atca_device option \<Rightarrow> byte
     \<Rightarrow> byte list option \<Rightarrow> byte list option \<Rightarrow> byte list option \<Rightarrow> byte list option
     \<Rightarrow> bool option \<Rightarrow> byte list \<Rightarrow> 'w state \<Rightarrow> (ATCA_STATUS \<times> bool option) \<times> 'w state" where
  "calib_secureboot_mac B K E device mode digest signature num_in io_key is_verified mac_uninit st =
     (if is_verified = None \<or> digest = None \<or> num_in = None \<or> io_key = None
      then ((ATCA_BAD_PARAM, is_verified), st)
      else
        let (is_verified, st) = store_is_verified False st;
            tempkey = replicate (sizeof_temp_key B) 0;
            ((status, rand_out), st) =
              do_nonce_base E device (NONCE_MODE_SEED_UPDATE K) 0 (the num_in) st
        in
        if ATCA_SUCCESS \<noteq> status then ((status, is_verified), st)
        else
          let nonce_params =
                \<lparr>nonce_mode = NONCE_MODE_SEED_UPDATE K, nonce_zero = 0,
                 nonce_num_in = the num_in, nonce_rand_out = rand_out,
                 nonce_temp_key = tempkey\<rparr>;
              ((status, tempkey), st) = do_atcah_nonce E nonce_params st
          in
          if ATCA_SUCCESS \<noteq> status then ((status, is_verified), st)
          else
            let sboot_enc_params =
                  \<lparr>enc_io_key = the io_key, enc_temp_key = tempkey, enc_digest = the digest\<rparr>;
                ((status, key, digest_enc), st) = do_atcah_secureboot_enc E sboot_enc_params st
            in
            if ATCA_SUCCESS \<noteq> status then ((status, is_verified), st)
            else
              let sboot_mac_params =
                    \<lparr>sbmac_mode = mode OR SECUREBOOT_MODE_ENC_MAC_FLAG K, sbmac_param2 = 0,
                     sbmac_secure_boot_config = 0, sbmac_hashed_key = key,
                     sbmac_digest = the digest, sbmac_signature = signature\<rparr>;
                  ((status, mac), st) =
                    calib_secureboot B E device (sbmac_mode sboot_mac_params)
                      (sbmac_param2 sboot_mac_params) (Some digest_enc) signature
                      (Some mac_uninit) st
              in
              if ATCA_SUCCESS \<noteq> status
              then
                (if ATCA_CHECKMAC_VERIFY_FAILED = status
                 then let (is_verified, st) = store_is_verified False st
                      in ((ATCA_SUCCESS, is_verified), st)
                 else ((status, is_verified), st))
              else
                let ((status, buf), st) =
                      do_read_bytes_zone E device (ATCA_ZONE_CONFIG K) 0
                        (SECUREBOOTCONFIG_OFFSET K) 2 st
                in
                if ATCA_SUCCESS \<noteq> status then ((status, is_verified), st)
                else
                  let sboot_mac_params =
                        sboot_mac_params\<lparr>sbmac_secure_boot_config :=
                          ucast (buf ! 0) OR push_bit 8 (ucast (buf ! 1))\<rparr>;
                      ((status, host_mac), st) = do_atcah_secureboot_mac E sboot_mac_params st
                  in
                  if ATCA_SUCCESS \<noteq> status then ((status, is_verified), st)
                  else
                    let (is_verified, st) =
                          store_is_verified (memcmp_eq host_mac (the mac) SECUREBOOT_MAC_SIZE) st
                    in ((status, is_verified), st))"

section \<open>Verify with a verification MAC\<close>

text \<open>
  \<^verbatim>\<open>calib_verify_extern_stored_mac\<close> (calib_verify.c, lines 194-252). Both halves
  of the local \<^verbatim>\<open>msg_dig_buf[64]\<close> are written before it is read; \<open>mac_uninit\<close>
  is the indeterminate content of the local \<^verbatim>\<open>mac\<close>.
\<close>

definition calib_verify_extern_stored_mac ::
  "build_config \<Rightarrow> mode_consts \<Rightarrow> 'w collaborators \<Rightarrow> atca_device option \<Rightarrow> byte \<Rightarrow> 16 word
     \<Rightarrow> byte list option \<Rightarrow> byte list option \<Rightarrow> byte list option \<Rightarrow> byte list option
     \<Rightarrow> byte list option \<Rightarrow> bool option \<Rightarrow> byte list \<Rightarrow> 'w state
     \<Rightarrow> (ATCA_STATUS \<times> bool option) \<times> 'w state" where
  "calib_verify_extern_stored_mac B K E device mode key_id message signature public_key num_in
       io_key is_verified mac_uninit st =
     (if is_verified = None \<or> signature = None \<or> message = None \<or> num_in = None
         \<or> io_key = None
         \<or> (mode AND VERIFY_MODE_MASK K = VERIFY_MODE_EXTERNAL K \<and> public_key = None)
      then ((ATCA_BAD_PARAM, is_verified), st)
      else
        let (is_verified, st) = store_is_verified False st;
            msg_dig_buf = take 32 (the message) @ take 32 (the num_in);
            (status, st) =
              do_nonce_load E device (NONCE_MODE_TARGET_MSGDIGBUF K) msg_dig_buf 64 st
        in
        if status \<noteq> ATCA_SUCCESS then ((status, is_verified), st)
        else
          let verify_mac_params =
                \<lparr>vmac_mode = mode OR VERIFY_MODE_SOURCE_MSGDIGBUF K OR VERIFY_MODE_MAC_FLAG K,
                 vmac_key_id = key_id, vmac_signature = the signature,
                 vmac_msg_dig_buf = msg_dig_buf, vmac_io_key = the io_key,
                 vmac_temp_key = None, vmac_sn = None\<rparr>;
              ((status, host_mac), st) = do_atcah_verify_mac E verify_mac_params st
          in
          if ATCA_SUCCESS \<noteq> status then ((status, is_verified), st)
          else
            let ((status, mac), st) =
                  calib_verify B K E device (vmac_mode verify_mac_params)
                    (vmac_key_id verify_mac_params) signature public_key None
                    (Some mac_uninit) st
            in
            if ATCA_SUCCESS \<noteq> status
            then
              (if status = ATCA_CHECKMAC_VERIFY_FAILED
               then ((ATCA_SUCCESS, is_verified), st)
               else ((status, is_verified), st))
            else
              let (is_verified, st) =
                    store_is_verified (memcmp_eq host_mac (the mac) MAC_SIZE) st
              in ((status, is_verified), st))"

definition calib_verify_extern_mac ::
  "build_config \<Rightarrow> mode_consts \<Rightarrow> 'w collaborators \<Rightarrow> atca_device option
     \<Rightarrow> byte list option \<Rightarrow> byte list option \<Rightarrow> byte list option \<Rightarrow> byte list option
     \<Rightarrow> byte list option \<Rightarrow> bool option \<Rightarrow> byte list \<Rightarrow> 'w state
     \<Rightarrow> (ATCA_STATUS \<times> bool option) \<times> 'w state" where
  "calib_verify_extern_mac B K E device message signature public_key num_in io_key is_verified
       mac_uninit st =
     calib_verify_extern_stored_mac B K E device (VERIFY_MODE_EXTERNAL K) (VERIFY_KEY_P256 K)
       message signature public_key num_in io_key is_verified mac_uninit st"

definition calib_verify_stored_mac ::
  "build_config \<Rightarrow> mode_consts \<Rightarrow> 'w collaborators \<Rightarrow> atca_device option
     \<Rightarrow> byte list option \<Rightarrow> byte list option \<Rightarrow> 16 word \<Rightarrow> byte list option
     \<Rightarrow> byte list option \<Rightarrow> bool option \<Rightarrow> byte list \<Rightarrow> 'w state
     \<Rightarrow> (ATCA_STATUS \<times> bool option) \<times> 'w state" where
  "calib_verify_stored_mac B K E device message signature key_id num_in io_key is_verified
       mac_uninit st =
     calib_verify_extern_stored_mac B K E device (VERIFY_MODE_STORED K) key_id
       message signature None num_in io_key is_verified mac_uninit st"

section \<open>The wrappers of Verify\<close>

text \<open>
  The tail common to the five wrappers, written out in each of them in the source:
  \<^verbatim>\<open>*is_verified = (status == ATCA_SUCCESS); if (status == ATCA_CHECKMAC_VERIFY_FAILED) status = ATCA_SUCCESS;\<close>
\<close>

definition verify_result ::
  "ATCA_STATUS \<Rightarrow> 'w state \<Rightarrow> (ATCA_STATUS \<times> bool option) \<times> 'w state" where
  "verify_result status st =
     (let (is_verified, st) = store_is_verified (status = ATCA_SUCCESS) st;
          status = (if status = ATCA_CHECKMAC_VERIFY_FAILED then ATCA_SUCCESS else status)
      in ((status, is_verified), st))"

text \<open>\<^verbatim>\<open>calib_verify_extern\<close> (calib_verify.c, lines 331-370)\<close>

definition calib_verify_extern ::
  "build_config \<Rightarrow> mode_consts \<Rightarrow> 'w collaborators \<Rightarrow> atca_device option
     \<Rightarrow> byte list option \<Rightarrow> byte list option \<Rightarrow> byte list option \<Rightarrow> bool option
     \<Rightarrow> 'w state \<Rightarrow> (ATCA_STATUS \<times> bool option) \<times> 'w state" where
  "calib_verify_extern B K E device message signature public_key is_verified st =
     (let nonce_target = NONCE_MODE_TARGET_TEMPKEY K;
          verify_source = VERIFY_MODE_SOURCE_TEMPKEY K
      in
      if device = None \<or> is_verified = None \<or> signature = None \<or> message = None
         \<or> public_key = None
      then ((ATCA_BAD_PARAM, is_verified), st)
      else
        let (is_verified, st) = store_is_verified False st;
            (nonce_target, verify_source) =
              (if ATECC608 = devtype (the device)
               then (NONCE_MODE_TARGET_MSGDIGBUF K, VERIFY_MODE_SOURCE_MSGDIGBUF K)
               else (nonce_target, verify_source));
            (status, st) = do_nonce_load E device nonce_target (the message) 32 st
        in
        if status \<noteq> ATCA_SUCCESS then ((status, is_verified), st)
        else
          let ((status, _), st) =
                calib_verify B K E device (VERIFY_MODE_EXTERNAL K OR verify_source)
                  (VERIFY_KEY_P256 K) signature public_key None None st
          in verify_result status st)"

text \<open>\<^verbatim>\<open>calib_verify_stored\<close> (calib_verify.c, lines 392-430)\<close>

definition calib_verify_stored ::
  "build_config \<Rightarrow> mode_consts \<Rightarrow> 'w collaborators \<Rightarrow> atca_device option
     \<Rightarrow> byte list option \<Rightarrow> byte list option \<Rightarrow> 16 word \<Rightarrow> bool option
     \<Rightarrow> 'w state \<Rightarrow> (ATCA_STATUS \<times> bool option) \<times> 'w state" where
  "calib_verify_stored B K E device message signature key_id is_verified st =
     (let nonce_target = NONCE_MODE_TARGET_TEMPKEY K;
          verify_source = VERIFY_MODE_SOURCE_TEMPKEY K
      in
      if device = None \<or> is_verified = None \<or> signature = None \<or> message = None
      then ((ATCA_BAD_PARAM, is_verified), st)
      else
        let (is_verified, st) = store_is_verified False st;
            (nonce_target, verify_source) =
              (if ATECC608 = devtype (the device)
               then (NONCE_MODE_TARGET_MSGDIGBUF K, VERIFY_MODE_SOURCE_MSGDIGBUF K)
               else (nonce_target, verify_source));
            (status, st) = do_nonce_load E device nonce_target (the message) 32 st
        in
        if status \<noteq> ATCA_SUCCESS then ((status, is_verified), st)
        else
          let ((status, _), st) =
                calib_verify B K E device (VERIFY_MODE_STORED K OR verify_source)
                  key_id signature None None None st
          in verify_result status st)"

text \<open>\<^verbatim>\<open>calib_verify_stored_with_tempkey\<close> (calib_verify.c, lines 451-475)\<close>

definition calib_verify_stored_with_tempkey ::
  "build_config \<Rightarrow> mode_consts \<Rightarrow> 'w collaborators \<Rightarrow> atca_device option
     \<Rightarrow> byte list option \<Rightarrow> 16 word \<Rightarrow> bool option
     \<Rightarrow> 'w state \<Rightarrow> (ATCA_STATUS \<times> bool option) \<times> 'w state" where
  "calib_verify_stored_with_tempkey B K E device signature key_id is_verified st =
     (let verify_source = VERIFY_MODE_SOURCE_TEMPKEY K
      in
      if device = None \<or> is_verified = None \<or> signature = None
      then ((ATCA_BAD_PARAM, is_verified), st)
      else
        let (is_verified, st) = store_is_verified False st;
            ((status, _), st) =
              calib_verify B K E device (VERIFY_MODE_STORED K OR verify_source)
                key_id signature None None None st
        in verify_result status st)"

text \<open>\<^verbatim>\<open>calib_verify_validate\<close> (calib_verify.c, lines 497-515)\<close>

definition calib_verify_validate ::
  "build_config \<Rightarrow> mode_consts \<Rightarrow> 'w collaborators \<Rightarrow> atca_device option \<Rightarrow> 16 word
     \<Rightarrow> byte list option \<Rightarrow> byte list option \<Rightarrow> bool option
     \<Rightarrow> 'w state \<Rightarrow> (ATCA_STATUS \<times> bool option) \<times> 'w state" where
  "calib_verify_validate B K E device key_id signature other_data is_verified st =
     (if device = None \<or> signature = None \<or> other_data = None \<or> is_verified = None
      then ((ATCA_BAD_PARAM, is_verified), st)
      else
        let ((status, _), st) =
              calib_verify B K E device (VERIFY_MODE_VALIDATE K) key_id signature None
                other_data None st
        in verify_result status st)"

text \<open>\<^verbatim>\<open>calib_verify_invalidate\<close> (calib_verify.c, lines 535-553)\<close>

definition calib_verify_invalidate ::
  "build_config \<Rightarrow> mode_consts \<Rightarrow> 'w collaborators \<Rightarrow> atca_device option \<Rightarrow> 16 word
     \<Rightarrow> byte list option \<Rightarrow> byte list option \<Rightarrow> bool option
     \<Rightarrow> 'w state \<Rightarrow> (ATCA_STATUS \<times> bool option) \<times> 'w state" where
  "calib_verify_invalidate B K E device key_id signature other_data is_verified st =
     (if device = None \<or> signature = None \<or> other_data = None \<or> is_verified = None
      then ((ATCA_BAD_PARAM, is_verified), st)
      else
        let ((status, _), st) =
              calib_verify B K E device (VERIFY_MODE_INVALIDATE K) key_id signature None
                other_data None st
        in verify_result status st)"

section \<open>Notions used to state the properties\<close>

text \<open>The argument checks of \<^verbatim>\<open>calib_verify\<close> (lines 82-93) all pass.\<close>

definition verify_args_ok ::
  "mode_consts \<Rightarrow> atca_device option \<Rightarrow> byte \<Rightarrow> byte list option \<Rightarrow> byte list option
     \<Rightarrow> byte list option \<Rightarrow> bool" where
  "verify_args_ok K device mode signature public_key other_data \<longleftrightarrow>
     device \<noteq> None \<and> signature \<noteq> None
     \<and> \<not> (mode AND VERIFY_MODE_MASK K = VERIFY_MODE_EXTERNAL K \<and> public_key = None)
     \<and> \<not> ((mode AND VERIFY_MODE_MASK K = VERIFY_MODE_VALIDATE K
             \<or> mode AND VERIFY_MODE_MASK K = VERIFY_MODE_INVALIDATE K) \<and> other_data = None)"

text \<open>The packet \<^verbatim>\<open>calib_verify\<close> has built when it calls \<^verbatim>\<open>atVerify\<close> (lines 123-137).\<close>

definition verify_packet ::
  "build_config \<Rightarrow> mode_consts \<Rightarrow> byte \<Rightarrow> 16 word \<Rightarrow> byte list option \<Rightarrow> byte list option
     \<Rightarrow> byte list option \<Rightarrow> ATCAPacket" where
  "verify_packet B K mode key_id signature public_key other_data =
     (let verify_mode = mode AND VERIFY_MODE_MASK K;
          packet = memset_packet B;
          packet = packet\<lparr>param1 := mode\<rparr>;
          packet = packet\<lparr>param2 := key_id\<rparr>;
          packet = packet\<lparr>data := memcpy_at (data packet) 0 (the signature) ATCA_SIG_SIZE\<rparr>;
          packet =
            (if verify_mode = VERIFY_MODE_EXTERNAL K
             then packet\<lparr>data := memcpy_at (data packet) ATCA_SIG_SIZE (the public_key)
                                     ATCA_PUB_KEY_SIZE\<rparr>
             else packet)
      in
      if verify_mode = VERIFY_MODE_VALIDATE K \<or> verify_mode = VERIFY_MODE_INVALIDATE K
      then packet\<lparr>data := memcpy_at (data packet) ATCA_SIG_SIZE (the other_data)
                              VERIFY_OTHER_DATA_SIZE\<rparr>
      else packet)"

text \<open>The packet \<^verbatim>\<open>calib_secureboot\<close> has built when it calls \<^verbatim>\<open>atSecureBoot\<close> (lines 87-97).\<close>

definition secureboot_packet ::
  "build_config \<Rightarrow> byte \<Rightarrow> 16 word \<Rightarrow> byte list option \<Rightarrow> byte list option \<Rightarrow> ATCAPacket" where
  "secureboot_packet B mode param2' digest signature =
     (let packet = memset_packet B;
          packet = packet\<lparr>param1 := mode\<rparr>;
          packet = packet\<lparr>param2 := param2'\<rparr>;
          packet = packet\<lparr>data := memcpy_at (data packet) 0 (the digest)
                                  SECUREBOOT_DIGEST_SIZE\<rparr>
      in
      if signature \<noteq> None
      then packet\<lparr>data := memcpy_at (data packet) SECUREBOOT_DIGEST_SIZE
                              (the signature) SECUREBOOT_SIGNATURE_SIZE\<rparr>
      else packet)"

text \<open>
  The copy of the MAC out of a response (calib_verify.c, lines 152-155, and
  calib_secureboot.c, lines 111-114), for a response size \<open>rsp_size\<close>.
\<close>

definition mac_out ::
  "build_config \<Rightarrow> nat \<Rightarrow> nat \<Rightarrow> ATCAPacket \<Rightarrow> byte list option \<Rightarrow> byte list option" where
  "mac_out B rsp_size n packet mac =
     (if mac \<noteq> None \<and> unat (data packet ! ATCA_COUNT_IDX B) \<ge> rsp_size
      then Some (memcpy_at (the mac) 0 (drop (ATCA_RSP_DATA_IDX B) (data packet)) n)
      else mac)"

text \<open>The events a run has added to the history.\<close>

definition new_events :: "'w state \<Rightarrow> 'w state \<Rightarrow> event list" where
  "new_events st st' = drop (length (events st)) (events st')"


text \<open>Whether the command executor is called in a history.\<close>

fun executor_called :: "event list \<Rightarrow> bool" where
  "executor_called [] = False"
| "executor_called (Call_atca_execute_command p # es) = True"
| "executor_called (e # es) = executor_called es"

text \<open>The values stored through \<^verbatim>\<open>is_verified\<close> in a history, in order.\<close>

fun stores :: "event list \<Rightarrow> bool list" where
  "stores [] = []"
| "stores (Store_is_verified b # es) = b # stores es"
| "stores (e # es) = stores es"

text \<open>
  The first thing a run does is to store false through \<^verbatim>\<open>is_verified\<close>: \<open>st\<close> is
  the state at entry, \<open>r\<close> the result of the entry point.
\<close>

definition cleared_first ::
  "'w state \<Rightarrow> (ATCA_STATUS \<times> bool option) \<times> 'w state \<Rightarrow> bool" where
  "cleared_first st r \<longleftrightarrow> prefix (events st @ [Store_is_verified False]) (events (snd r))"

text \<open>
  A status other than success comes with \<^verbatim>\<open>*is_verified\<close> false; and
  \<^verbatim>\<open>*is_verified\<close> true comes with the status success and was stored by the last
  thing the run did.
\<close>

definition verified_only_on_success :: "(ATCA_STATUS \<times> bool option) \<times> 'w state \<Rightarrow> bool" where
  "verified_only_on_success r \<longleftrightarrow>
     (fst (fst r) \<noteq> ATCA_SUCCESS \<longrightarrow> snd (fst r) = Some False)
     \<and> (snd (fst r) = Some True \<longrightarrow>
          fst (fst r) = ATCA_SUCCESS \<and> last (events (snd r)) = Store_is_verified True)"

section \<open>Concrete instances\<close>

text \<open>
  The instances at which the properties are evaluated. \<open>header_consts\<close> has the values
  of the command header of the Microchip distribution, and \<open>default_config\<close> its default
  capacity of 198 bytes with a data array of 192 bytes. The general theorems hold for
  every value of these constants; only the evaluations at concrete inputs use them.
\<close>

definition header_consts :: mode_consts where
  "header_consts =
     \<lparr>VERIFY_MODE_MASK = 0x07, VERIFY_MODE_STORED = 0x00, VERIFY_MODE_EXTERNAL = 0x02,
      VERIFY_MODE_VALIDATE = 0x03, VERIFY_MODE_INVALIDATE = 0x07,
      VERIFY_MODE_SOURCE_TEMPKEY = 0x00, VERIFY_MODE_SOURCE_MSGDIGBUF = 0x20,
      VERIFY_MODE_MAC_FLAG = 0x80, VERIFY_KEY_P256 = 0x0004,
      NONCE_MODE_TARGET_TEMPKEY = 0x00, NONCE_MODE_TARGET_MSGDIGBUF = 0x40,
      NONCE_MODE_SEED_UPDATE = 0x00, SECUREBOOT_MODE_ENC_MAC_FLAG = 0x80,
      ATCA_ZONE_CONFIG = 0x00, SECUREBOOTCONFIG_OFFSET = 70\<rparr>"

definition default_config :: build_config where
  "default_config =
     \<lparr>CA_MAX_PACKET_SIZE = 198, ATCA_CMD_SIZE_MIN = 7, sizeof_packet_data = 192,
      sizeof_temp_key = 68, ATCA_COUNT_IDX = 0, ATCA_RSP_DATA_IDX = 1,
      ATCA_PACKET_OVERHEAD = 3, SECUREBOOT_RSP_SIZE_MAC = 35\<rparr>"

text \<open>
  Two builds with a reduced capacity: 134 bytes, one less than the External mode of Verify
  needs (7 + 64 + 64), and 102 bytes, one less than SecureBoot with a signature needs
  (7 + 32 + 64). The data array has the capacity less the 6 bytes of the packet header.
\<close>

definition verify_small_config :: build_config where
  "verify_small_config =
     \<lparr>CA_MAX_PACKET_SIZE = 134, ATCA_CMD_SIZE_MIN = 7, sizeof_packet_data = 128,
      sizeof_temp_key = 68, ATCA_COUNT_IDX = 0, ATCA_RSP_DATA_IDX = 1,
      ATCA_PACKET_OVERHEAD = 3, SECUREBOOT_RSP_SIZE_MAC = 35\<rparr>"

definition secureboot_small_config :: build_config where
  "secureboot_small_config =
     \<lparr>CA_MAX_PACKET_SIZE = 102, ATCA_CMD_SIZE_MIN = 7, sizeof_packet_data = 96,
      sizeof_temp_key = 68, ATCA_COUNT_IDX = 0, ATCA_RSP_DATA_IDX = 1,
      ATCA_PACKET_OVERHEAD = 3, SECUREBOOT_RSP_SIZE_MAC = 35\<rparr>"

text \<open>
  Collaborators that all succeed, but for the executor: it answers with the status \<open>s\<close>
  and the response bytes \<open>rsp\<close>, and counts its invocations in the world state.
\<close>

definition stub_collaborators :: "ATCA_STATUS \<Rightarrow> byte list \<Rightarrow> nat collaborators" where
  "stub_collaborators s rsp =
     \<lparr>calib_packet_alloc = (\<lambda>w. (True, w)),
      calib_packet_free = (\<lambda>allocated w. w),
      atcab_get_device_type_ext =
        (\<lambda>device. case device of None \<Rightarrow> ATCA_DEV_OTHER 0 | Some d \<Rightarrow> devtype d),
      atVerify = (\<lambda>dt packet. (ATCA_SUCCESS, packet)),
      atSecureBoot = (\<lambda>dt packet. (ATCA_SUCCESS, packet)),
      atca_execute_command = (\<lambda>packet device w. ((s, packet\<lparr>data := rsp\<rparr>), Suc w)),
      calib_nonce_load = (\<lambda>device target buf n w. (ATCA_SUCCESS, w)),
      calib_nonce_base = (\<lambda>device m z n w. ((ATCA_SUCCESS, replicate 32 0x11), w)),
      calib_read_bytes_zone = (\<lambda>device zone slot off n w. ((ATCA_SUCCESS, replicate n 0x01), w)),
      atcah_nonce = (\<lambda>p. (ATCA_SUCCESS, replicate 68 0x22)),
      atcah_secureboot_enc = (\<lambda>p. (ATCA_SUCCESS, replicate 32 0x33, replicate 32 0x44)),
      atcah_secureboot_mac = (\<lambda>p. (ATCA_SUCCESS, replicate 32 0x55)),
      atcah_verify_mac = (\<lambda>p. (ATCA_SUCCESS, replicate 32 0x55))\<rparr>"

definition initial_state :: "nat state" where
  "initial_state = \<lparr>world = 0, events = []\<rparr>"

definition device_608 :: atca_device where
  "device_608 = \<lparr>devtype = ATECC608\<rparr>"

definition device_508 :: atca_device where
  "device_508 = \<lparr>devtype = ATCA_DEV_OTHER 508\<rparr>"

text \<open>A response of 35 bytes (count, 32 bytes 0x55 of MAC, CRC) in a 192-byte array.\<close>

definition mac_response :: "byte list" where
  "mac_response = 35 # replicate 32 0x55 @ replicate 159 0"

text \<open>A response of 4 bytes (count, status byte, CRC) in an array of \<open>n\<close> bytes.\<close>

definition short_response :: "nat \<Rightarrow> byte list" where
  "short_response n = 4 # replicate (n - 1) 0"

section \<open>Properties\<close>

subsection \<open>The paths of calib_verify and calib_secureboot\<close>


lemma calib_verify_rejected:
  assumes "\<not> verify_args_ok K device mode signature public_key other_data"
  shows "calib_verify B K E device mode key_id signature public_key other_data mac st
         = ((ATCA_BAD_PARAM, mac), do_packet_free E False st)"
proof (cases "device = None
         \<or> (mode AND VERIFY_MODE_MASK K = VERIFY_MODE_EXTERNAL K \<and> public_key = None)
         \<or> signature = None")
  case True
  show ?thesis unfolding calib_verify_def Let_def using True by (rule if_P)
next
  case False
  with assms have b: "(mode AND VERIFY_MODE_MASK K = VERIFY_MODE_VALIDATE K
      \<or> mode AND VERIFY_MODE_MASK K = VERIFY_MODE_INVALIDATE K) \<and> other_data = None"
    by (auto simp: verify_args_ok_def)
  show ?thesis unfolding calib_verify_def Let_def
    by (simp only: False if_False, rule if_P [OF b])
qed

lemma calib_verify_accepted:
  assumes "verify_args_ok K device mode signature public_key other_data"
  shows "calib_verify B K E device mode key_id signature public_key other_data mac st =
     (case do_packet_alloc E st of (allocated, st1) \<Rightarrow>
        if \<not> allocated then ((ATCA_ALLOC_FAILURE, mac), do_packet_free E False st1)
        else
          case do_atVerify E (atcab_get_device_type_ext E device)
                 (verify_packet B K mode key_id signature public_key other_data) st1 of
            ((status, packet), st2) \<Rightarrow>
              if status \<noteq> ATCA_SUCCESS then ((status, mac), do_packet_free E True st2)
              else
                case do_execute_command E packet device st2 of
                  ((status, packet), st3) \<Rightarrow>
                    if status \<noteq> ATCA_SUCCESS then ((status, mac), do_packet_free E True st3)
                    else ((status, mac_out B (ATCA_PACKET_OVERHEAD B + MAC_SIZE) MAC_SIZE packet mac),
                          do_packet_free E True st3))"
proof -
  have a: "\<not> (device = None
                \<or> (mode AND VERIFY_MODE_MASK K = VERIFY_MODE_EXTERNAL K \<and> public_key = None)
                \<or> signature = None)"
    using assms by (auto simp: verify_args_ok_def)
  have b: "\<not> ((mode AND VERIFY_MODE_MASK K = VERIFY_MODE_VALIDATE K
                 \<or> mode AND VERIFY_MODE_MASK K = VERIFY_MODE_INVALIDATE K) \<and> other_data = None)"
    using assms by (auto simp: verify_args_ok_def)
  show ?thesis
    unfolding calib_verify_def verify_packet_def mac_out_def Let_def
    by (simp only: a b if_False split_def)
qed

lemma calib_secureboot_rejected:
  assumes "device = None \<or> digest = None"
  shows "calib_secureboot B E device mode param2' digest signature mac st
         = ((ATCA_BAD_PARAM, mac), do_packet_free E False st)"
  unfolding calib_secureboot_def using assms by (rule if_P)

lemma calib_secureboot_accepted:
  assumes "device \<noteq> None" "digest \<noteq> None"
  shows "calib_secureboot B E device mode param2' digest signature mac st =
     (case do_packet_alloc E st of (allocated, st1) \<Rightarrow>
        if \<not> allocated then ((ATCA_ALLOC_FAILURE, mac), do_packet_free E False st1)
        else
          case do_atSecureBoot E (atcab_get_device_type_ext E device)
                 (secureboot_packet B mode param2' digest signature) st1 of
            ((status, packet), st2) \<Rightarrow>
              if status \<noteq> ATCA_SUCCESS then ((status, mac), do_packet_free E True st2)
              else
                case do_execute_command E packet device st2 of
                  ((status, packet), st3) \<Rightarrow>
                    if status \<noteq> ATCA_SUCCESS then ((status, mac), do_packet_free E True st3)
                    else ((status, mac_out B (SECUREBOOT_RSP_SIZE_MAC B) SECUREBOOT_MAC_SIZE packet mac),
                          do_packet_free E True st3))"
proof -
  have a: "\<not> (device = None \<or> digest = None)" using assms by blast
  show ?thesis
    unfolding calib_secureboot_def secureboot_packet_def mac_out_def Let_def
    by (simp only: a if_False split_def)
qed

subsection \<open>The history only grows\<close>

lemma events_log_event: "events (log_event e st) = events st @ [e]"
  by (simp add: log_event_def)

lemma events_do_packet_alloc:
  "events (snd (do_packet_alloc E st)) = events st @ [Call_calib_packet_alloc]"
  by (simp add: do_packet_alloc_def split_def)

lemma events_do_packet_free:
  "events (do_packet_free E a st) = events st @ [Call_calib_packet_free a]"
  by (simp add: do_packet_free_def)

lemma events_do_atVerify:
  "events (snd (do_atVerify E dt p st)) = events st @ [Call_atVerify dt p]"
  by (simp add: do_atVerify_def events_log_event)

lemma events_do_atSecureBoot:
  "events (snd (do_atSecureBoot E dt p st)) = events st @ [Call_atSecureBoot dt p]"
  by (simp add: do_atSecureBoot_def events_log_event)

lemma events_do_execute_command:
  "events (snd (do_execute_command E p d st)) = events st @ [Call_atca_execute_command p]"
  by (simp add: do_execute_command_def split_def)

lemma events_do_nonce_load:
  "events (snd (do_nonce_load E d t b n st)) = events st @ [Call_calib_nonce_load t b n]"
  by (simp add: do_nonce_load_def split_def)

lemma events_do_nonce_base:
  "events (snd (do_nonce_base E d m z n st)) = events st @ [Call_calib_nonce_base m z n]"
  by (simp add: do_nonce_base_def split_def)

lemma events_do_read_bytes_zone:
  "events (snd (do_read_bytes_zone E d z s off n st))
     = events st @ [Call_calib_read_bytes_zone z s off n]"
  by (simp add: do_read_bytes_zone_def split_def)

lemma events_do_atcah_nonce:
  "events (snd (do_atcah_nonce E p st)) = events st @ [Call_atcah_nonce p]"
  by (simp add: do_atcah_nonce_def events_log_event)

lemma events_do_atcah_secureboot_enc:
  "events (snd (do_atcah_secureboot_enc E p st)) = events st @ [Call_atcah_secureboot_enc p]"
  by (simp add: do_atcah_secureboot_enc_def events_log_event)

lemma events_do_atcah_secureboot_mac:
  "events (snd (do_atcah_secureboot_mac E p st)) = events st @ [Call_atcah_secureboot_mac p]"
  by (simp add: do_atcah_secureboot_mac_def events_log_event)

lemma events_do_atcah_verify_mac:
  "events (snd (do_atcah_verify_mac E p st)) = events st @ [Call_atcah_verify_mac p]"
  by (simp add: do_atcah_verify_mac_def events_log_event)

lemma events_store_is_verified:
  "events (snd (store_is_verified b st)) = events st @ [Store_is_verified b]"
  by (simp add: store_is_verified_def events_log_event)

lemmas events_simps =
  events_log_event events_do_packet_alloc events_do_packet_free events_do_atVerify
  events_do_atSecureBoot events_do_execute_command events_do_nonce_load events_do_nonce_base
  events_do_read_bytes_zone events_do_atcah_nonce events_do_atcah_secureboot_enc
  events_do_atcah_secureboot_mac events_do_atcah_verify_mac events_store_is_verified

lemma prefix_events_calib_verify:
  "prefix (events st)
     (events (snd (calib_verify B K E device mode key_id signature public_key other_data mac st)))"
proof (cases "verify_args_ok K device mode signature public_key other_data")
  case False
  then show ?thesis by (simp add: calib_verify_rejected events_simps)
next
  case True
  then show ?thesis
    by (simp add: calib_verify_accepted split_def events_simps)
qed

lemma prefix_events_calib_secureboot:
  "prefix (events st)
     (events (snd (calib_secureboot B E device mode param2' digest signature mac st)))"
proof (cases "device = None \<or> digest = None")
  case True
  then show ?thesis by (simp add: calib_secureboot_rejected events_simps)
next
  case False
  then show ?thesis
    by (simp add: calib_secureboot_accepted split_def events_simps)
qed


subsection \<open>Evaluation at the concrete instances\<close>

lemmas stub_simps =
  stub_collaborators_def do_packet_alloc_def do_packet_free_def do_atVerify_def
  do_atSecureBoot_def do_execute_command_def do_nonce_load_def do_nonce_base_def
  do_read_bytes_zone_def do_atcah_nonce_def do_atcah_secureboot_enc_def
  do_atcah_secureboot_mac_def do_atcah_verify_mac_def store_is_verified_def log_event_def
  initial_state_def

subsection \<open>The capacity has no effect\<close>

text \<open>
  The status stored by the capacity checks is never read: the result of both functions is
  the same for every value of \<^verbatim>\<open>CA_MAX_PACKET_SIZE\<close>.
\<close>

lemma packets_ignore_capacity:
  "verify_packet (B\<lparr>CA_MAX_PACKET_SIZE := n\<rparr>) K mode key_id signature public_key other_data
     = verify_packet B K mode key_id signature public_key other_data"
  "secureboot_packet (B\<lparr>CA_MAX_PACKET_SIZE := n\<rparr>) mode p2 digest signature
     = secureboot_packet B mode p2 digest signature"
  "mac_out (B\<lparr>CA_MAX_PACKET_SIZE := n\<rparr>) sz len packet mac = mac_out B sz len packet mac"
  "ATCA_PACKET_OVERHEAD (B\<lparr>CA_MAX_PACKET_SIZE := n\<rparr>) = ATCA_PACKET_OVERHEAD B"
  "SECUREBOOT_RSP_SIZE_MAC (B\<lparr>CA_MAX_PACKET_SIZE := n\<rparr>) = SECUREBOOT_RSP_SIZE_MAC B"
  by (simp_all add: verify_packet_def secureboot_packet_def memset_packet_def mac_out_def)

lemma calib_verify_ignores_capacity:
  "calib_verify (B\<lparr>CA_MAX_PACKET_SIZE := n\<rparr>) K E device mode key_id signature public_key
     other_data mac st
   = calib_verify B K E device mode key_id signature public_key other_data mac st"
proof (cases "verify_args_ok K device mode signature public_key other_data")
  case False
  then show ?thesis by (simp add: calib_verify_rejected)
next
  case True
  show ?thesis
    unfolding calib_verify_accepted [OF True] packets_ignore_capacity by (rule refl)
qed

lemma calib_secureboot_ignores_capacity:
  "calib_secureboot (B\<lparr>CA_MAX_PACKET_SIZE := n\<rparr>) E device mode p2 digest signature mac st
   = calib_secureboot B E device mode p2 digest signature mac st"
proof (cases "device = None \<or> digest = None")
  case True
  then show ?thesis by (simp add: calib_secureboot_rejected)
next
  case False
  then have ok: "device \<noteq> None" "digest \<noteq> None" by simp_all
  show ?thesis
    unfolding calib_secureboot_accepted [OF ok] packets_ignore_capacity by (rule refl)
qed

section \<open>The claims\<close>

text \<open>
  C1. The claim: when the compile-time capacity is too small for the payload of the
  requested mode, \<^verbatim>\<open>calib_verify\<close> (and \<^verbatim>\<open>calib_secureboot\<close> with a signature)
  returns \<^verbatim>\<open>ATCA_INVALID_SIZE\<close> and the executor is never invoked. The code stores
  the status and goes on: at a capacity of 134 bytes, External mode, \<^verbatim>\<open>calib_verify\<close>
  returns the executor's \<^verbatim>\<open>ATCA_SUCCESS\<close> and the executor has been invoked once; at
  a capacity of 102 bytes and with a signature, so does \<^verbatim>\<open>calib_secureboot\<close>.
\<close>

theorem capacity_check_does_not_reject:
  "CA_MAX_PACKET_SIZE verify_small_config
     < ATCA_CMD_SIZE_MIN verify_small_config + ATCA_SIG_SIZE + ATCA_PUB_KEY_SIZE
   \<and> fst (calib_verify verify_small_config header_consts
            (stub_collaborators ATCA_SUCCESS (short_response 128))
            (Some device_608) 0x02 4 (Some (replicate 64 0xAA)) (Some (replicate 64 0xBB))
            None None initial_state)
       = (ATCA_SUCCESS, None)
   \<and> world (snd (calib_verify verify_small_config header_consts
            (stub_collaborators ATCA_SUCCESS (short_response 128))
            (Some device_608) 0x02 4 (Some (replicate 64 0xAA)) (Some (replicate 64 0xBB))
            None None initial_state)) = 1
   \<and> CA_MAX_PACKET_SIZE secureboot_small_config
       < ATCA_CMD_SIZE_MIN secureboot_small_config + SECUREBOOT_DIGEST_SIZE
           + SECUREBOOT_SIGNATURE_SIZE
   \<and> fst (calib_secureboot secureboot_small_config
            (stub_collaborators ATCA_SUCCESS (short_response 96))
            (Some device_608) 0x05 0 (Some (replicate 32 0xDD)) (Some (replicate 64 0xAA))
            None initial_state)
       = (ATCA_SUCCESS, None)
   \<and> world (snd (calib_secureboot secureboot_small_config
            (stub_collaborators ATCA_SUCCESS (short_response 96))
            (Some device_608) 0x05 0 (Some (replicate 32 0xDD)) (Some (replicate 64 0xAA))
            None initial_state)) = 1"
proof -
  have ok: "verify_args_ok header_consts (Some device_608) 0x02 (Some (replicate 64 0xAA))
              (Some (replicate 64 0xBB)) None"
    by (simp add: verify_args_ok_def header_consts_def)
  show ?thesis
    by (simp add: calib_verify_accepted [OF ok] calib_secureboot_accepted stub_simps mac_out_def
          verify_small_config_def secureboot_small_config_def ATCA_SIG_SIZE_def
          ATCA_PUB_KEY_SIZE_def SECUREBOOT_DIGEST_SIZE_def SECUREBOOT_SIGNATURE_SIZE_def)
qed


text \<open>
  C3. In \<^verbatim>\<open>calib_verify\<close>, a masked mode External without public key, or a masked
  mode Validate or Invalidate without other data, returns \<^verbatim>\<open>ATCA_BAD_PARAM\<close> with
  the \<^verbatim>\<open>mac\<close> buffer unchanged, and the only collaborator called is the release of
  the (null) packet: no packet is allocated or built, and the executor is not invoked. In
  Stored mode, with the device and the signature present and neither extra input, the
  call passes the argument checks and goes on to allocate the packet.
\<close>

theorem calib_verify_mode_inputs:
  "((mode AND VERIFY_MODE_MASK K = VERIFY_MODE_EXTERNAL K \<and> public_key = None)
      \<or> ((mode AND VERIFY_MODE_MASK K = VERIFY_MODE_VALIDATE K
            \<or> mode AND VERIFY_MODE_MASK K = VERIFY_MODE_INVALIDATE K) \<and> other_data = None)
     \<longrightarrow> fst (calib_verify B K E device mode key_id signature public_key other_data mac st)
           = (ATCA_BAD_PARAM, mac)
         \<and> new_events st
             (snd (calib_verify B K E device mode key_id signature public_key other_data mac st))
           = [Call_calib_packet_free False])
   \<and> (mode AND VERIFY_MODE_MASK K = VERIFY_MODE_STORED K
        \<and> VERIFY_MODE_STORED K \<noteq> VERIFY_MODE_EXTERNAL K
        \<and> VERIFY_MODE_STORED K \<noteq> VERIFY_MODE_VALIDATE K
        \<and> VERIFY_MODE_STORED K \<noteq> VERIFY_MODE_INVALIDATE K
        \<and> device \<noteq> None \<and> signature \<noteq> None
     \<longrightarrow> prefix (events st @ [Call_calib_packet_alloc])
           (events (snd (calib_verify B K E device mode key_id signature None None mac st))))"
proof (intro conjI impI)
  assume a: "(mode AND VERIFY_MODE_MASK K = VERIFY_MODE_EXTERNAL K \<and> public_key = None)
      \<or> ((mode AND VERIFY_MODE_MASK K = VERIFY_MODE_VALIDATE K
            \<or> mode AND VERIFY_MODE_MASK K = VERIFY_MODE_INVALIDATE K) \<and> other_data = None)"
  then have n: "\<not> verify_args_ok K device mode signature public_key other_data"
    by (auto simp: verify_args_ok_def)
  show "fst (calib_verify B K E device mode key_id signature public_key other_data mac st)
           = (ATCA_BAD_PARAM, mac)"
    by (simp add: calib_verify_rejected [OF n])
  show "new_events st
             (snd (calib_verify B K E device mode key_id signature public_key other_data mac st))
           = [Call_calib_packet_free False]"
    by (simp add: calib_verify_rejected [OF n] new_events_def events_do_packet_free)
next
  assume a: "mode AND VERIFY_MODE_MASK K = VERIFY_MODE_STORED K
        \<and> VERIFY_MODE_STORED K \<noteq> VERIFY_MODE_EXTERNAL K
        \<and> VERIFY_MODE_STORED K \<noteq> VERIFY_MODE_VALIDATE K
        \<and> VERIFY_MODE_STORED K \<noteq> VERIFY_MODE_INVALIDATE K
        \<and> device \<noteq> None \<and> signature \<noteq> None"
  then have ok: "verify_args_ok K device mode signature None None"
    by (simp add: verify_args_ok_def)
  show "prefix (events st @ [Call_calib_packet_alloc])
           (events (snd (calib_verify B K E device mode key_id signature None None mac st)))"
    by (simp add: calib_verify_accepted [OF ok] split_def events_simps)
qed

theorem calib_verify_mode_inputs_witness:
  "fst (calib_verify default_config header_consts (stub_collaborators ATCA_SUCCESS mac_response)
          (Some device_608) 0x02 4 (Some (replicate 64 0xAA)) None None None initial_state)
     = (ATCA_BAD_PARAM, None)
   \<and> fst (calib_verify default_config header_consts (stub_collaborators ATCA_SUCCESS mac_response)
          (Some device_608) 0x03 4 (Some (replicate 64 0xAA)) None None None initial_state)
     = (ATCA_BAD_PARAM, None)
   \<and> prefix [Call_calib_packet_alloc]
       (events (snd (calib_verify default_config header_consts
          (stub_collaborators ATCA_SUCCESS mac_response)
          (Some device_608) 0x20 4 (Some (replicate 64 0xAA)) None None None initial_state)))"
  using calib_verify_mode_inputs [of "0x02" header_consts None None default_config
           "stub_collaborators ATCA_SUCCESS mac_response" "Some device_608" 4
           "Some (replicate 64 0xAA)" None initial_state]
        calib_verify_mode_inputs [of "0x03" header_consts None None default_config
           "stub_collaborators ATCA_SUCCESS mac_response" "Some device_608" 4
           "Some (replicate 64 0xAA)" None initial_state]
        calib_verify_mode_inputs [of "0x20" header_consts None None default_config
           "stub_collaborators ATCA_SUCCESS mac_response" "Some device_608" 4
           "Some (replicate 64 0xAA)" None initial_state]
  by (simp add: header_consts_def initial_state_def)

lemma memcpy_at_zero: "memcpy_at dst 0 src n = take n src @ drop n dst"
  by (simp add: memcpy_at_def)

lemma verify_packet_fields:
  "param1 (verify_packet B K mode key_id signature public_key other_data) = mode"
  "param2 (verify_packet B K mode key_id signature public_key other_data) = key_id"
  "txsize (verify_packet B K mode key_id signature public_key other_data) = 0"
  "opcode (verify_packet B K mode key_id signature public_key other_data) = 0"
  by (simp_all add: verify_packet_def memset_packet_def Let_def)

lemma verify_packet_data:
  assumes "length sg = 64" "128 \<le> sizeof_packet_data B"
    and "VERIFY_MODE_EXTERNAL K \<noteq> VERIFY_MODE_VALIDATE K"
    and "VERIFY_MODE_EXTERNAL K \<noteq> VERIFY_MODE_INVALIDATE K"
    and "mode AND VERIFY_MODE_MASK K = VERIFY_MODE_EXTERNAL K \<longrightarrow> length (the public_key) = 64"
    and "mode AND VERIFY_MODE_MASK K = VERIFY_MODE_VALIDATE K
           \<or> mode AND VERIFY_MODE_MASK K = VERIFY_MODE_INVALIDATE K
         \<longrightarrow> length (the other_data) = 19"
  shows "data (verify_packet B K mode key_id (Some sg) public_key other_data) =
     sg @ (if mode AND VERIFY_MODE_MASK K = VERIFY_MODE_EXTERNAL K
           then the public_key @ replicate (sizeof_packet_data B - 128) 0
           else if mode AND VERIFY_MODE_MASK K = VERIFY_MODE_VALIDATE K
                   \<or> mode AND VERIFY_MODE_MASK K = VERIFY_MODE_INVALIDATE K
           then the other_data @ replicate (sizeof_packet_data B - 83) 0
           else replicate (sizeof_packet_data B - 64) 0)"
  using assms
  by (auto simp add: verify_packet_def memset_packet_def Let_def memcpy_at_def
        ATCA_SIG_SIZE_def ATCA_PUB_KEY_SIZE_def VERIFY_OTHER_DATA_SIZE_def)

lemma secureboot_packet_fields:
  "param1 (secureboot_packet B mode p2 digest signature) = mode"
  "param2 (secureboot_packet B mode p2 digest signature) = p2"
  "txsize (secureboot_packet B mode p2 digest signature) = 0"
  "opcode (secureboot_packet B mode p2 digest signature) = 0"
  by (simp_all add: secureboot_packet_def memset_packet_def Let_def)

lemma secureboot_packet_data:
  assumes "length dg = 32" "96 \<le> sizeof_packet_data B"
    and "signature \<noteq> None \<longrightarrow> length (the signature) = 64"
  shows "data (secureboot_packet B mode p2 (Some dg) signature) =
     dg @ (if signature \<noteq> None
           then the signature @ replicate (sizeof_packet_data B - 96) 0
           else replicate (sizeof_packet_data B - 32) 0)"
  using assms
  by (auto simp add: secureboot_packet_def memset_packet_def Let_def memcpy_at_def
        SECUREBOOT_DIGEST_SIZE_def SECUREBOOT_SIGNATURE_SIZE_def)

lemma packet_eqI:
  "txsize p = a \<Longrightarrow> opcode p = b \<Longrightarrow> param1 p = c \<Longrightarrow> param2 p = d \<Longrightarrow> data p = e
     \<Longrightarrow> p = \<lparr>txsize = a, opcode = b, param1 = c, param2 = d, data = e\<rparr>"
  by (cases p) simp

lemma prefix_events_verify_accepted:
  assumes "verify_args_ok K device mode signature public_key other_data"
    and "do_packet_alloc E st = (True, st1)"
  shows "prefix (events st1 @ [Call_atVerify (atcab_get_device_type_ext E device)
                    (verify_packet B K mode key_id signature public_key other_data)])
           (events (snd (calib_verify B K E device mode key_id signature public_key other_data
                           mac st)))"
  using assms(2)
  by (simp add: calib_verify_accepted [OF assms(1)] split_def events_simps)

lemma prefix_events_secureboot_accepted:
  assumes "device \<noteq> None" "digest \<noteq> None"
    and "do_packet_alloc E st = (True, st1)"
  shows "prefix (events st1 @ [Call_atSecureBoot (atcab_get_device_type_ext E device)
                    (secureboot_packet B mode p2 digest signature)])
           (events (snd (calib_secureboot B E device mode p2 digest signature mac st)))"
  using assms(3)
  by (simp add: calib_secureboot_accepted [OF assms(1,2)] split_def events_simps)

text \<open>
  C4. When \<^verbatim>\<open>calib_verify\<close> has passed its argument checks and allocated the
  packet, the packet it hands to \<^verbatim>\<open>atVerify\<close> has \<open>param1\<close> equal to the mode
  byte, \<open>param2\<close> equal to the key identifier, and as payload the 64-byte signature,
  followed from offset 64 by the 64-byte public key when the masked mode is External, or by
  the 19 bytes of other data when the masked mode is Validate or Invalidate, and zero
  bytes everywhere else. (The data array holds at least 128 bytes, and the header gives
  External a value other than Validate and Invalidate.)
\<close>

theorem calib_verify_packet_layout:
  assumes "verify_args_ok K device mode (Some sg) public_key other_data"
    and "do_packet_alloc E st = (True, st1)"
    and "length sg = 64" and "128 \<le> sizeof_packet_data B"
    and "VERIFY_MODE_EXTERNAL K \<noteq> VERIFY_MODE_VALIDATE K"
    and "VERIFY_MODE_EXTERNAL K \<noteq> VERIFY_MODE_INVALIDATE K"
    and "mode AND VERIFY_MODE_MASK K = VERIFY_MODE_EXTERNAL K \<longrightarrow> length (the public_key) = 64"
    and "mode AND VERIFY_MODE_MASK K = VERIFY_MODE_VALIDATE K
           \<or> mode AND VERIFY_MODE_MASK K = VERIFY_MODE_INVALIDATE K
         \<longrightarrow> length (the other_data) = 19"
  shows "prefix
     (events st1 @
      [Call_atVerify (atcab_get_device_type_ext E device)
         \<lparr>txsize = 0, opcode = 0, param1 = mode, param2 = key_id,
          data = sg @
            (if mode AND VERIFY_MODE_MASK K = VERIFY_MODE_EXTERNAL K
             then the public_key @ replicate (sizeof_packet_data B - 128) 0
             else if mode AND VERIFY_MODE_MASK K = VERIFY_MODE_VALIDATE K
                     \<or> mode AND VERIFY_MODE_MASK K = VERIFY_MODE_INVALIDATE K
             then the other_data @ replicate (sizeof_packet_data B - 83) 0
             else replicate (sizeof_packet_data B - 64) 0)\<rparr>])
     (events (snd (calib_verify B K E device mode key_id (Some sg) public_key other_data mac st)))"
proof -
  have eq: "verify_packet B K mode key_id (Some sg) public_key other_data =
         \<lparr>txsize = 0, opcode = 0, param1 = mode, param2 = key_id,
          data = sg @
            (if mode AND VERIFY_MODE_MASK K = VERIFY_MODE_EXTERNAL K
             then the public_key @ replicate (sizeof_packet_data B - 128) 0
             else if mode AND VERIFY_MODE_MASK K = VERIFY_MODE_VALIDATE K
                     \<or> mode AND VERIFY_MODE_MASK K = VERIFY_MODE_INVALIDATE K
             then the other_data @ replicate (sizeof_packet_data B - 83) 0
             else replicate (sizeof_packet_data B - 64) 0)\<rparr>"
    by (rule packet_eqI) (rule verify_packet_fields verify_packet_data [OF assms(3-8)])+
  show ?thesis
    using prefix_events_verify_accepted [OF assms(1,2), of B key_id mac] unfolding eq .
qed

theorem calib_verify_packet_layout_witness:
  "prefix
     [Call_calib_packet_alloc,
      Call_atVerify ATECC608
         \<lparr>txsize = 0, opcode = 0, param1 = 0x22, param2 = 4,
          data = replicate 64 0xAA @ replicate 64 0xBB @ replicate 64 0\<rparr>]
     (events (snd (calib_verify default_config header_consts
        (stub_collaborators ATCA_SUCCESS mac_response) (Some device_608) 0x22 4
        (Some (replicate 64 0xAA)) (Some (replicate 64 0xBB)) None None initial_state)))
   \<and> prefix
     [Call_calib_packet_alloc,
      Call_atVerify ATECC608
         \<lparr>txsize = 0, opcode = 0, param1 = 0x03, param2 = 9,
          data = replicate 64 0xAA @ replicate 19 0xCC @ replicate 109 0\<rparr>]
     (events (snd (calib_verify default_config header_consts
        (stub_collaborators ATCA_SUCCESS mac_response) (Some device_608) 0x03 9
        (Some (replicate 64 0xAA)) None (Some (replicate 19 0xCC)) None initial_state)))"
  using calib_verify_packet_layout [of header_consts "Some device_608" "0x22"
          "replicate 64 0xAA" "Some (replicate 64 0xBB)" None
          "stub_collaborators ATCA_SUCCESS mac_response" initial_state
          "\<lparr>world = 0, events = [Call_calib_packet_alloc]\<rparr>" default_config 4 None]
        calib_verify_packet_layout [of header_consts "Some device_608" "0x03"
          "replicate 64 0xAA" None "Some (replicate 19 0xCC)"
          "stub_collaborators ATCA_SUCCESS mac_response" initial_state
          "\<lparr>world = 0, events = [Call_calib_packet_alloc]\<rparr>" default_config 9 None]
  by (simp add: verify_args_ok_def header_consts_def default_config_def stub_simps device_608_def)

text \<open>
  C5. When \<^verbatim>\<open>calib_secureboot\<close> has allocated the packet, the packet it hands to
  \<^verbatim>\<open>atSecureBoot\<close> starts with the caller's 32-byte digest; with a signature the
  payload is the digest followed by the 64-byte signature (96 bytes) and zero beyond;
  without a signature it is the digest alone, and every byte beyond it is still zero.
\<close>

theorem calib_secureboot_packet_layout:
  assumes "device \<noteq> None"
    and "do_packet_alloc E st = (True, st1)"
    and "length dg = 32" and "96 \<le> sizeof_packet_data B"
    and "signature \<noteq> None \<longrightarrow> length (the signature) = 64"
  shows "prefix
     (events st1 @
      [Call_atSecureBoot (atcab_get_device_type_ext E device)
         \<lparr>txsize = 0, opcode = 0, param1 = mode, param2 = p2,
          data = dg @
            (if signature \<noteq> None
             then the signature @ replicate (sizeof_packet_data B - 96) 0
             else replicate (sizeof_packet_data B - 32) 0)\<rparr>])
     (events (snd (calib_secureboot B E device mode p2 (Some dg) signature mac st)))"
proof -
  have eq: "secureboot_packet B mode p2 (Some dg) signature =
         \<lparr>txsize = 0, opcode = 0, param1 = mode, param2 = p2,
          data = dg @
            (if signature \<noteq> None
             then the signature @ replicate (sizeof_packet_data B - 96) 0
             else replicate (sizeof_packet_data B - 32) 0)\<rparr>"
    by (rule packet_eqI) (rule secureboot_packet_fields secureboot_packet_data [OF assms(3-5)])+
  have dg: "Some dg \<noteq> None" by simp
  show ?thesis
    using prefix_events_secureboot_accepted [OF assms(1) dg assms(2), of B mode p2 signature mac]
    unfolding eq .
qed

theorem calib_secureboot_packet_layout_witness:
  "prefix
     [Call_calib_packet_alloc,
      Call_atSecureBoot ATECC608
         \<lparr>txsize = 0, opcode = 0, param1 = 0x06, param2 = 0,
          data = replicate 32 0xDD @ replicate 160 0\<rparr>]
     (events (snd (calib_secureboot default_config
        (stub_collaborators ATCA_SUCCESS mac_response) (Some device_608) 0x06 0
        (Some (replicate 32 0xDD)) None None initial_state)))
   \<and> prefix
     [Call_calib_packet_alloc,
      Call_atSecureBoot ATECC608
         \<lparr>txsize = 0, opcode = 0, param1 = 0x05, param2 = 0,
          data = replicate 32 0xDD @ replicate 64 0xAA @ replicate 96 0\<rparr>]
     (events (snd (calib_secureboot default_config
        (stub_collaborators ATCA_SUCCESS mac_response) (Some device_608) 0x05 0
        (Some (replicate 32 0xDD)) (Some (replicate 64 0xAA)) None initial_state)))"
  using calib_secureboot_packet_layout [of "Some device_608"
          "stub_collaborators ATCA_SUCCESS mac_response" initial_state
          "\<lparr>world = 0, events = [Call_calib_packet_alloc]\<rparr>" "replicate 32 0xDD"
          default_config None "0x06" 0 None]
        calib_secureboot_packet_layout [of "Some device_608"
          "stub_collaborators ATCA_SUCCESS mac_response" initial_state
          "\<lparr>world = 0, events = [Call_calib_packet_alloc]\<rparr>" "replicate 32 0xDD"
          default_config "Some (replicate 64 0xAA)" "0x05" 0 None]
  by (simp add: default_config_def stub_simps device_608_def)

lemma calib_verify_failure_keeps_mac:
  "fst (fst (calib_verify B K E device mode key_id signature public_key other_data mac st))
     \<noteq> ATCA_SUCCESS
   \<Longrightarrow> snd (fst (calib_verify B K E device mode key_id signature public_key other_data mac st))
       = mac"
proof (cases "verify_args_ok K device mode signature public_key other_data")
  case False
  then show ?thesis by (simp add: calib_verify_rejected)
next
  case True
  assume "fst (fst (calib_verify B K E device mode key_id signature public_key other_data mac st))
     \<noteq> ATCA_SUCCESS"
  then show ?thesis
    by (simp add: calib_verify_accepted [OF True] split_def split: if_splits)
qed

lemma calib_secureboot_failure_keeps_mac:
  "fst (fst (calib_secureboot B E device mode p2 digest signature mac st)) \<noteq> ATCA_SUCCESS
   \<Longrightarrow> snd (fst (calib_secureboot B E device mode p2 digest signature mac st)) = mac"
proof (cases "device = None \<or> digest = None")
  case True
  then show ?thesis by (simp add: calib_secureboot_rejected)
next
  case False
  then have ok: "device \<noteq> None" "digest \<noteq> None" by simp_all
  assume "fst (fst (calib_secureboot B E device mode p2 digest signature mac st)) \<noteq> ATCA_SUCCESS"
  then show ?thesis
    by (simp add: calib_secureboot_accepted [OF ok] split_def split: if_splits)
qed

lemma calib_verify_executed:
  assumes "verify_args_ok K device mode signature public_key other_data"
    and "do_packet_alloc E st = (True, st1)"
    and "do_atVerify E (atcab_get_device_type_ext E device)
           (verify_packet B K mode key_id signature public_key other_data) st1
         = ((ATCA_SUCCESS, cmd), st2)"
    and "do_execute_command E cmd device st2 = ((s, rsp), st3)"
  shows "calib_verify B K E device mode key_id signature public_key other_data mac st =
     (if s \<noteq> ATCA_SUCCESS then ((s, mac), do_packet_free E True st3)
      else ((s, mac_out B (ATCA_PACKET_OVERHEAD B + MAC_SIZE) MAC_SIZE rsp mac),
            do_packet_free E True st3))"
  by (simp add: calib_verify_accepted [OF assms(1)] assms(2-4))

lemma calib_secureboot_executed:
  assumes "device \<noteq> None" "digest \<noteq> None"
    and "do_packet_alloc E st = (True, st1)"
    and "do_atSecureBoot E (atcab_get_device_type_ext E device)
           (secureboot_packet B mode p2 digest signature) st1
         = ((ATCA_SUCCESS, cmd), st2)"
    and "do_execute_command E cmd device st2 = ((s, rsp), st3)"
  shows "calib_secureboot B E device mode p2 digest signature mac st =
     (if s \<noteq> ATCA_SUCCESS then ((s, mac), do_packet_free E True st3)
      else ((s, mac_out B (SECUREBOOT_RSP_SIZE_MAC B) SECUREBOOT_MAC_SIZE rsp mac),
            do_packet_free E True st3))"
  by (simp add: calib_secureboot_accepted [OF assms(1,2)] assms(3-5))

lemma mac_out_copy:
  "mac_out B sz 32 rsp mac =
     (if mac \<noteq> None \<and> sz \<le> unat (data rsp ! ATCA_COUNT_IDX B)
      then Some (take 32 (drop (ATCA_RSP_DATA_IDX B) (data rsp)) @ drop 32 (the mac))
      else mac)"
  by (simp add: mac_out_def memcpy_at_def)

text \<open>
  C7. In \<^verbatim>\<open>calib_verify\<close> and \<^verbatim>\<open>calib_secureboot\<close>: whenever the returned
  status is not \<^verbatim>\<open>ATCA_SUCCESS\<close> the caller's \<^verbatim>\<open>mac\<close> buffer is unchanged; and
  when the command was built and executed with success, the function returns that
  \<^verbatim>\<open>ATCA_SUCCESS\<close>, and the \<^verbatim>\<open>mac\<close> buffer has its first 32 bytes replaced by
  the 32 bytes at the data index of the response exactly when the caller passed a
  non-null \<^verbatim>\<open>mac\<close> and the count byte of the response is at least the size of a
  response with a MAC (\<^verbatim>\<open>ATCA_PACKET_OVERHEAD + MAC_SIZE\<close> for Verify,
  \<^verbatim>\<open>SECUREBOOT_RSP_SIZE_MAC\<close> for SecureBoot); otherwise it is unchanged.
\<close>

theorem mac_written_only_from_mac_response:
  "(fst (fst (calib_verify B K E device mode key_id signature public_key other_data mac st))
       \<noteq> ATCA_SUCCESS
     \<longrightarrow> snd (fst (calib_verify B K E device mode key_id signature public_key other_data mac st))
           = mac)
   \<and> (verify_args_ok K device mode signature public_key other_data
       \<and> do_packet_alloc E st = (True, st1)
       \<and> do_atVerify E (atcab_get_device_type_ext E device)
            (verify_packet B K mode key_id signature public_key other_data) st1
          = ((ATCA_SUCCESS, cmd), st2)
       \<and> do_execute_command E cmd device st2 = ((ATCA_SUCCESS, rsp), st3)
     \<longrightarrow> fst (calib_verify B K E device mode key_id signature public_key other_data mac st)
           = (ATCA_SUCCESS,
              if mac \<noteq> None \<and> ATCA_PACKET_OVERHEAD B + 32 \<le> unat (data rsp ! ATCA_COUNT_IDX B)
              then Some (take 32 (drop (ATCA_RSP_DATA_IDX B) (data rsp)) @ drop 32 (the mac))
              else mac))
   \<and> (fst (fst (calib_secureboot B E device mode p2 digest signature mac st)) \<noteq> ATCA_SUCCESS
     \<longrightarrow> snd (fst (calib_secureboot B E device mode p2 digest signature mac st)) = mac)
   \<and> (device \<noteq> None \<and> digest \<noteq> None
       \<and> do_packet_alloc E st = (True, st1)
       \<and> do_atSecureBoot E (atcab_get_device_type_ext E device)
            (secureboot_packet B mode p2 digest signature) st1
          = ((ATCA_SUCCESS, cmd'), st2')
       \<and> do_execute_command E cmd' device st2' = ((ATCA_SUCCESS, rsp'), st3')
     \<longrightarrow> fst (calib_secureboot B E device mode p2 digest signature mac st)
           = (ATCA_SUCCESS,
              if mac \<noteq> None \<and> SECUREBOOT_RSP_SIZE_MAC B \<le> unat (data rsp' ! ATCA_COUNT_IDX B)
              then Some (take 32 (drop (ATCA_RSP_DATA_IDX B) (data rsp')) @ drop 32 (the mac))
              else mac))"
proof (intro conjI impI)
  assume "fst (fst (calib_verify B K E device mode key_id signature public_key other_data mac st))
       \<noteq> ATCA_SUCCESS"
  then show "snd (fst (calib_verify B K E device mode key_id signature public_key other_data mac st))
           = mac"
    by (rule calib_verify_failure_keeps_mac)
next
  assume a: "verify_args_ok K device mode signature public_key other_data
       \<and> do_packet_alloc E st = (True, st1)
       \<and> do_atVerify E (atcab_get_device_type_ext E device)
            (verify_packet B K mode key_id signature public_key other_data) st1
          = ((ATCA_SUCCESS, cmd), st2)
       \<and> do_execute_command E cmd device st2 = ((ATCA_SUCCESS, rsp), st3)"
  have "calib_verify B K E device mode key_id signature public_key other_data mac st =
     ((ATCA_SUCCESS, mac_out B (ATCA_PACKET_OVERHEAD B + MAC_SIZE) MAC_SIZE rsp mac),
            do_packet_free E True st3)"
    using a calib_verify_executed [of K device mode signature public_key other_data E st st1 B
        key_id cmd st2 ATCA_SUCCESS rsp st3 mac] by simp
  then show "fst (calib_verify B K E device mode key_id signature public_key other_data mac st)
           = (ATCA_SUCCESS,
              if mac \<noteq> None \<and> ATCA_PACKET_OVERHEAD B + 32 \<le> unat (data rsp ! ATCA_COUNT_IDX B)
              then Some (take 32 (drop (ATCA_RSP_DATA_IDX B) (data rsp)) @ drop 32 (the mac))
              else mac)"
    by (simp add: MAC_SIZE_def mac_out_copy)
next
  assume "fst (fst (calib_secureboot B E device mode p2 digest signature mac st)) \<noteq> ATCA_SUCCESS"
  then show "snd (fst (calib_secureboot B E device mode p2 digest signature mac st)) = mac"
    by (rule calib_secureboot_failure_keeps_mac)
next
  assume a: "device \<noteq> None \<and> digest \<noteq> None
       \<and> do_packet_alloc E st = (True, st1)
       \<and> do_atSecureBoot E (atcab_get_device_type_ext E device)
            (secureboot_packet B mode p2 digest signature) st1
          = ((ATCA_SUCCESS, cmd'), st2')
       \<and> do_execute_command E cmd' device st2' = ((ATCA_SUCCESS, rsp'), st3')"
  have "calib_secureboot B E device mode p2 digest signature mac st =
     ((ATCA_SUCCESS, mac_out B (SECUREBOOT_RSP_SIZE_MAC B) SECUREBOOT_MAC_SIZE rsp' mac),
            do_packet_free E True st3')"
    using a calib_secureboot_executed [of device digest E st st1 B mode p2 signature cmd' st2'
        ATCA_SUCCESS rsp' st3' mac] by simp
  then show "fst (calib_secureboot B E device mode p2 digest signature mac st)
           = (ATCA_SUCCESS,
              if mac \<noteq> None \<and> SECUREBOOT_RSP_SIZE_MAC B \<le> unat (data rsp' ! ATCA_COUNT_IDX B)
              then Some (take 32 (drop (ATCA_RSP_DATA_IDX B) (data rsp')) @ drop 32 (the mac))
              else mac)"
    by (simp add: SECUREBOOT_MAC_SIZE_def mac_out_copy)
qed

theorem mac_written_only_from_mac_response_witness:
  "fst (calib_verify default_config header_consts (stub_collaborators ATCA_SUCCESS mac_response)
         (Some device_608) 0xA0 4 (Some (replicate 64 0xAA)) None None
         (Some (replicate 32 0)) initial_state)
     = (ATCA_SUCCESS, Some (replicate 32 0x55))
   \<and> fst (calib_verify default_config header_consts
         (stub_collaborators (ATCA_STATUS_OTHER 1) mac_response)
         (Some device_608) 0xA0 4 (Some (replicate 64 0xAA)) None None
         (Some (replicate 32 0)) initial_state)
     = (ATCA_STATUS_OTHER 1, Some (replicate 32 0))
   \<and> fst (calib_secureboot default_config (stub_collaborators ATCA_SUCCESS mac_response)
         (Some device_608) 0x86 0 (Some (replicate 32 0xDD)) None
         (Some (replicate 32 0)) initial_state)
     = (ATCA_SUCCESS, Some (replicate 32 0x55))
   \<and> fst (calib_secureboot default_config
         (stub_collaborators (ATCA_STATUS_OTHER 1) mac_response)
         (Some device_608) 0x86 0 (Some (replicate 32 0xDD)) None
         (Some (replicate 32 0)) initial_state)
     = (ATCA_STATUS_OTHER 1, Some (replicate 32 0))"
proof -
  let ?vp = "verify_packet default_config header_consts 0xA0 4 (Some (replicate 64 0xAA)) None None"
  let ?sp = "secureboot_packet default_config 0x86 0 (Some (replicate 32 0xDD)) None"
  note ok = mac_written_only_from_mac_response
    [where B = default_config and K = header_consts
       and E = "stub_collaborators ATCA_SUCCESS mac_response" and device = "Some device_608"
       and mode = "0xA0" and key_id = 4 and signature = "Some (replicate 64 0xAA)"
       and public_key = None and other_data = None and mac = "Some (replicate 32 0)"
       and st = initial_state
       and ?st1.0 = "\<lparr>world = 0, events = [Call_calib_packet_alloc]\<rparr>"
       and cmd = ?vp
       and ?st2.0 = "\<lparr>world = 0, events = [Call_calib_packet_alloc, Call_atVerify ATECC608 ?vp]\<rparr>"
       and rsp = "?vp\<lparr>data := mac_response\<rparr>"
       and ?st3.0 = "\<lparr>world = 1, events = [Call_calib_packet_alloc, Call_atVerify ATECC608 ?vp,
                         Call_atca_execute_command ?vp]\<rparr>"
       and ?p2.0 = 0 and digest = "Some (replicate 32 0xDD)"]
  note ok2 = mac_written_only_from_mac_response
    [where B = default_config and K = header_consts
       and E = "stub_collaborators ATCA_SUCCESS mac_response" and device = "Some device_608"
       and mode = "0x86" and signature = None and mac = "Some (replicate 32 0)"
       and st = initial_state
       and ?st1.0 = "\<lparr>world = 0, events = [Call_calib_packet_alloc]\<rparr>"
       and ?p2.0 = 0 and digest = "Some (replicate 32 0xDD)"
       and cmd' = ?sp
       and st2' = "\<lparr>world = 0, events = [Call_calib_packet_alloc, Call_atSecureBoot ATECC608 ?sp]\<rparr>"
       and rsp' = "?sp\<lparr>data := mac_response\<rparr>"
       and st3' = "\<lparr>world = 1, events = [Call_calib_packet_alloc, Call_atSecureBoot ATECC608 ?sp,
                         Call_atca_execute_command ?sp]\<rparr>"]
  note bad = mac_written_only_from_mac_response
    [where B = default_config and K = header_consts
       and E = "stub_collaborators (ATCA_STATUS_OTHER 1) mac_response"
       and device = "Some device_608"
       and mode = "0xA0" and key_id = 4 and signature = "Some (replicate 64 0xAA)"
       and public_key = None and other_data = None and mac = "Some (replicate 32 0)"
       and st = initial_state]
  note bad2 = mac_written_only_from_mac_response
    [where B = default_config
       and E = "stub_collaborators (ATCA_STATUS_OTHER 1) mac_response"
       and device = "Some device_608"
       and mode = "0x86" and signature = None and mac = "Some (replicate 32 0)"
       and st = initial_state and ?p2.0 = 0 and digest = "Some (replicate 32 0xDD)"]
  have vok: "verify_args_ok header_consts (Some device_608) 0xA0 (Some (replicate 64 0xAA)) None None"
    by (simp add: verify_args_ok_def header_consts_def)
  have s1: "fst (fst (calib_verify default_config header_consts
         (stub_collaborators (ATCA_STATUS_OTHER 1) mac_response)
         (Some device_608) 0xA0 4 (Some (replicate 64 0xAA)) None None
         (Some (replicate 32 0)) initial_state)) = ATCA_STATUS_OTHER 1"
    by (simp add: calib_verify_accepted [OF vok] stub_simps)
  have s2: "fst (fst (calib_secureboot default_config
         (stub_collaborators (ATCA_STATUS_OTHER 1) mac_response)
         (Some device_608) 0x86 0 (Some (replicate 32 0xDD)) None
         (Some (replicate 32 0)) initial_state)) = ATCA_STATUS_OTHER 1"
    by (simp add: calib_secureboot_accepted stub_simps)
  have c1: "fst (calib_verify default_config header_consts (stub_collaborators ATCA_SUCCESS mac_response)
         (Some device_608) 0xA0 4 (Some (replicate 64 0xAA)) None None
         (Some (replicate 32 0)) initial_state)
     = (ATCA_SUCCESS, Some (replicate 32 0x55))"
    using ok vok by (simp add: stub_simps device_608_def default_config_def mac_response_def)
  have c3: "fst (calib_secureboot default_config (stub_collaborators ATCA_SUCCESS mac_response)
         (Some device_608) 0x86 0 (Some (replicate 32 0xDD)) None
         (Some (replicate 32 0)) initial_state)
     = (ATCA_SUCCESS, Some (replicate 32 0x55))"
    using ok2 by (simp add: stub_simps device_608_def default_config_def mac_response_def)
  have c2: "fst (calib_verify default_config header_consts
         (stub_collaborators (ATCA_STATUS_OTHER 1) mac_response)
         (Some device_608) 0xA0 4 (Some (replicate 64 0xAA)) None None
         (Some (replicate 32 0)) initial_state)
     = (ATCA_STATUS_OTHER 1, Some (replicate 32 0))"
    using bad s1 by (simp add: prod_eq_iff)
  have c4: "fst (calib_secureboot default_config
         (stub_collaborators (ATCA_STATUS_OTHER 1) mac_response)
         (Some device_608) 0x86 0 (Some (replicate 32 0xDD)) None
         (Some (replicate 32 0)) initial_state)
     = (ATCA_STATUS_OTHER 1, Some (replicate 32 0))"
    using bad2 s2 by (simp add: prod_eq_iff)
  from c1 c2 c3 c4 show ?thesis by blast
qed

subsection \<open>SecureBoot without a signature\<close>

text \<open>
  C9. The claim: a call of \<^verbatim>\<open>calib_secureboot\<close> without a signature in a mode other
  than FullStore is rejected with BadParameter or InvalidSize before the executor is
  invoked. \<^verbatim>\<open>calib_secureboot\<close> never looks at the mode: with collaborators that
  succeed, the calls without a signature in the modes 0x05 and 0x06 (at most one of which
  is FullStore) both reach the executor and return its \<^verbatim>\<open>ATCA_SUCCESS\<close>.
\<close>

theorem secureboot_without_signature_counterexample:
  "fst (calib_secureboot default_config (stub_collaborators ATCA_SUCCESS (short_response 192))
          (Some device_608) 0x05 0 (Some (replicate 32 0xDD)) None None initial_state)
     = (ATCA_SUCCESS, None)
   \<and> executor_called (events (snd
        (calib_secureboot default_config (stub_collaborators ATCA_SUCCESS (short_response 192))
          (Some device_608) 0x05 0 (Some (replicate 32 0xDD)) None None initial_state)))
   \<and> fst (calib_secureboot default_config (stub_collaborators ATCA_SUCCESS (short_response 192))
          (Some device_608) 0x06 0 (Some (replicate 32 0xDD)) None None initial_state)
     = (ATCA_SUCCESS, None)
   \<and> executor_called (events (snd
        (calib_secureboot default_config (stub_collaborators ATCA_SUCCESS (short_response 192))
          (Some device_608) 0x06 0 (Some (replicate 32 0xDD)) None None initial_state)))"
  by (simp add: calib_secureboot_accepted stub_simps mac_out_def)

text \<open>
  C9, as amended. Without a signature and whatever the mode, \<^verbatim>\<open>calib_secureboot\<close>
  returns before the executor is invoked in three cases only: a null device or digest
  (\<^verbatim>\<open>ATCA_BAD_PARAM\<close>, nothing allocated), a failed allocation
  (\<^verbatim>\<open>ATCA_ALLOC_FAILURE\<close>), and a status other than success from
  \<^verbatim>\<open>atSecureBoot\<close>, which is returned as it is. In every other case the executor is
  invoked on the packet \<^verbatim>\<open>atSecureBoot\<close> has completed, and its status is returned.
\<close>

theorem secureboot_without_signature:
  "(device = None \<or> digest = None
     \<longrightarrow> fst (fst (calib_secureboot B E device mode p2 digest None mac st)) = ATCA_BAD_PARAM
         \<and> new_events st (snd (calib_secureboot B E device mode p2 digest None mac st))
             = [Call_calib_packet_free False])
   \<and> (device \<noteq> None \<and> digest \<noteq> None \<and> do_packet_alloc E st = (False, st1)
     \<longrightarrow> fst (fst (calib_secureboot B E device mode p2 digest None mac st)) = ATCA_ALLOC_FAILURE
         \<and> new_events st (snd (calib_secureboot B E device mode p2 digest None mac st))
             = [Call_calib_packet_alloc, Call_calib_packet_free False])
   \<and> (device \<noteq> None \<and> digest \<noteq> None \<and> do_packet_alloc E st = (True, st1)
       \<and> do_atSecureBoot E (atcab_get_device_type_ext E device)
            (secureboot_packet B mode p2 digest None) st1 = ((s, cmd), st2)
       \<and> s \<noteq> ATCA_SUCCESS
     \<longrightarrow> fst (fst (calib_secureboot B E device mode p2 digest None mac st)) = s
         \<and> new_events st (snd (calib_secureboot B E device mode p2 digest None mac st))
             = [Call_calib_packet_alloc,
                Call_atSecureBoot (atcab_get_device_type_ext E device)
                  (secureboot_packet B mode p2 digest None),
                Call_calib_packet_free True])
   \<and> (device \<noteq> None \<and> digest \<noteq> None \<and> do_packet_alloc E st = (True, st1)
       \<and> do_atSecureBoot E (atcab_get_device_type_ext E device)
            (secureboot_packet B mode p2 digest None) st1 = ((ATCA_SUCCESS, cmd), st2)
     \<longrightarrow> fst (fst (calib_secureboot B E device mode p2 digest None mac st))
           = fst (fst (do_execute_command E cmd device st2))
         \<and> new_events st (snd (calib_secureboot B E device mode p2 digest None mac st))
             = [Call_calib_packet_alloc,
                Call_atSecureBoot (atcab_get_device_type_ext E device)
                  (secureboot_packet B mode p2 digest None),
                Call_atca_execute_command cmd,
                Call_calib_packet_free True])"
proof (intro conjI impI)
  assume a: "device = None \<or> digest = None"
  show "fst (fst (calib_secureboot B E device mode p2 digest None mac st)) = ATCA_BAD_PARAM"
    by (simp add: calib_secureboot_rejected [OF a])
  show "new_events st (snd (calib_secureboot B E device mode p2 digest None mac st))
             = [Call_calib_packet_free False]"
    by (simp add: calib_secureboot_rejected [OF a] new_events_def events_simps)
next
  assume a: "device \<noteq> None \<and> digest \<noteq> None \<and> do_packet_alloc E st = (False, st1)"
  then have ok: "device \<noteq> None" "digest \<noteq> None" by simp_all
  have e: "events st1 = events st @ [Call_calib_packet_alloc]"
    using a events_do_packet_alloc [of E st] by simp
  show "fst (fst (calib_secureboot B E device mode p2 digest None mac st)) = ATCA_ALLOC_FAILURE"
    using a by (simp add: calib_secureboot_accepted [OF ok])
  show "new_events st (snd (calib_secureboot B E device mode p2 digest None mac st))
             = [Call_calib_packet_alloc, Call_calib_packet_free False]"
    using a by (simp add: calib_secureboot_accepted [OF ok] new_events_def events_simps e)
next
  assume a: "device \<noteq> None \<and> digest \<noteq> None \<and> do_packet_alloc E st = (True, st1)
       \<and> do_atSecureBoot E (atcab_get_device_type_ext E device)
            (secureboot_packet B mode p2 digest None) st1 = ((s, cmd), st2)
       \<and> s \<noteq> ATCA_SUCCESS"
  then have ok: "device \<noteq> None" "digest \<noteq> None" by simp_all
  have e: "events st1 = events st @ [Call_calib_packet_alloc]"
    using a events_do_packet_alloc [of E st] by simp
  have e2: "events st2 = events st1 @ [Call_atSecureBoot (atcab_get_device_type_ext E device)
                  (secureboot_packet B mode p2 digest None)]"
    using a events_do_atSecureBoot [of E "atcab_get_device_type_ext E device"
        "secureboot_packet B mode p2 digest None" st1] by simp
  show "fst (fst (calib_secureboot B E device mode p2 digest None mac st)) = s"
    using a by (simp add: calib_secureboot_accepted [OF ok])
  show "new_events st (snd (calib_secureboot B E device mode p2 digest None mac st))
             = [Call_calib_packet_alloc,
                Call_atSecureBoot (atcab_get_device_type_ext E device)
                  (secureboot_packet B mode p2 digest None),
                Call_calib_packet_free True]"
    using a by (simp add: calib_secureboot_accepted [OF ok] new_events_def events_simps e e2)
next
  assume a: "device \<noteq> None \<and> digest \<noteq> None \<and> do_packet_alloc E st = (True, st1)
       \<and> do_atSecureBoot E (atcab_get_device_type_ext E device)
            (secureboot_packet B mode p2 digest None) st1 = ((ATCA_SUCCESS, cmd), st2)"
  then have ok: "device \<noteq> None" "digest \<noteq> None" by simp_all
  have e: "events st1 = events st @ [Call_calib_packet_alloc]"
    using a events_do_packet_alloc [of E st] by simp
  have e2: "events st2 = events st1 @ [Call_atSecureBoot (atcab_get_device_type_ext E device)
                  (secureboot_packet B mode p2 digest None)]"
    using a events_do_atSecureBoot [of E "atcab_get_device_type_ext E device"
        "secureboot_packet B mode p2 digest None" st1] by simp
  show "fst (fst (calib_secureboot B E device mode p2 digest None mac st))
           = fst (fst (do_execute_command E cmd device st2))"
    using a by (simp add: calib_secureboot_accepted [OF ok] split_def)
  show "new_events st (snd (calib_secureboot B E device mode p2 digest None mac st))
             = [Call_calib_packet_alloc,
                Call_atSecureBoot (atcab_get_device_type_ext E device)
                  (secureboot_packet B mode p2 digest None),
                Call_atca_execute_command cmd,
                Call_calib_packet_free True]"
    using a by (simp add: calib_secureboot_accepted [OF ok] new_events_def events_simps e e2 split_def)
qed


theorem secureboot_without_signature_witness:
  "fst (fst (calib_secureboot default_config (stub_collaborators ATCA_SUCCESS (short_response 192))
          None 0x05 0 (Some (replicate 32 0xDD)) None None initial_state)) = ATCA_BAD_PARAM
   \<and> fst (fst (calib_secureboot default_config
          ((stub_collaborators ATCA_SUCCESS (short_response 192))
             \<lparr>calib_packet_alloc := (\<lambda>w. (False, w))\<rparr>)
          (Some device_608) 0x05 0 (Some (replicate 32 0xDD)) None None initial_state))
       = ATCA_ALLOC_FAILURE
   \<and> fst (fst (calib_secureboot default_config
          ((stub_collaborators ATCA_SUCCESS (short_response 192))
             \<lparr>atSecureBoot := (\<lambda>dt p. (ATCA_BAD_PARAM, p))\<rparr>)
          (Some device_608) 0x01 0 (Some (replicate 32 0xDD)) None None initial_state))
       = ATCA_BAD_PARAM
   \<and> new_events initial_state
        (snd (calib_secureboot default_config (stub_collaborators ATCA_SUCCESS (short_response 192))
          (Some device_608) 0x05 0 (Some (replicate 32 0xDD)) None None initial_state))
       = [Call_calib_packet_alloc,
          Call_atSecureBoot ATECC608
            (secureboot_packet default_config 0x05 0 (Some (replicate 32 0xDD)) None),
          Call_atca_execute_command
            (secureboot_packet default_config 0x05 0 (Some (replicate 32 0xDD)) None),
          Call_calib_packet_free True]"
proof -
  let ?sp = "secureboot_packet default_config 0x05 0 (Some (replicate 32 0xDD)) None"
  let ?sp1 = "secureboot_packet default_config 0x01 0 (Some (replicate 32 0xDD)) None"
  let ?E = "stub_collaborators ATCA_SUCCESS (short_response 192)"
  have c1: "fst (fst (calib_secureboot default_config ?E
          None 0x05 0 (Some (replicate 32 0xDD)) None None initial_state)) = ATCA_BAD_PARAM"
    using secureboot_without_signature [where device = None and B = default_config
        and E = ?E and mode = "0x05" and ?p2.0 = 0 and digest = "Some (replicate 32 0xDD)"
        and mac = None and st = initial_state]
    by simp
  have c2: "fst (fst (calib_secureboot default_config
          (?E\<lparr>calib_packet_alloc := (\<lambda>w. (False, w))\<rparr>)
          (Some device_608) 0x05 0 (Some (replicate 32 0xDD)) None None initial_state))
       = ATCA_ALLOC_FAILURE"
    using secureboot_without_signature [where device = "Some device_608" and B = default_config
        and E = "?E\<lparr>calib_packet_alloc := (\<lambda>w. (False, w))\<rparr>"
        and mode = "0x05" and ?p2.0 = 0 and digest = "Some (replicate 32 0xDD)"
        and mac = None and st = initial_state
        and ?st1.0 = "\<lparr>world = 0, events = [Call_calib_packet_alloc]\<rparr>"]
    by (simp add: stub_simps)
  have c3: "fst (fst (calib_secureboot default_config
          (?E\<lparr>atSecureBoot := (\<lambda>dt p. (ATCA_BAD_PARAM, p))\<rparr>)
          (Some device_608) 0x01 0 (Some (replicate 32 0xDD)) None None initial_state))
       = ATCA_BAD_PARAM"
    using secureboot_without_signature [where device = "Some device_608" and B = default_config
        and E = "?E\<lparr>atSecureBoot := (\<lambda>dt p. (ATCA_BAD_PARAM, p))\<rparr>"
        and mode = "0x01" and ?p2.0 = 0 and digest = "Some (replicate 32 0xDD)"
        and mac = None and st = initial_state
        and ?st1.0 = "\<lparr>world = 0, events = [Call_calib_packet_alloc]\<rparr>"
        and s = ATCA_BAD_PARAM and cmd = ?sp1
        and ?st2.0 = "\<lparr>world = 0, events = [Call_calib_packet_alloc,
                         Call_atSecureBoot ATECC608 ?sp1]\<rparr>"]
    by (simp add: stub_simps device_608_def)
  have c4: "new_events initial_state
        (snd (calib_secureboot default_config ?E
          (Some device_608) 0x05 0 (Some (replicate 32 0xDD)) None None initial_state))
       = [Call_calib_packet_alloc, Call_atSecureBoot ATECC608 ?sp,
          Call_atca_execute_command ?sp, Call_calib_packet_free True]"
    using secureboot_without_signature [where device = "Some device_608" and B = default_config
        and E = ?E and mode = "0x05" and ?p2.0 = 0 and digest = "Some (replicate 32 0xDD)"
        and mac = None and st = initial_state
        and ?st1.0 = "\<lparr>world = 0, events = [Call_calib_packet_alloc]\<rparr>"
        and cmd = ?sp
        and ?st2.0 = "\<lparr>world = 0, events = [Call_calib_packet_alloc,
                         Call_atSecureBoot ATECC608 ?sp]\<rparr>"]
    by (simp add: stub_simps device_608_def)
  from c1 c2 c3 c4 show ?thesis by blast
qed

subsection \<open>The wrappers of Verify\<close>

lemma verify_result_eq:
  "verify_result s st =
     ((if s = ATCA_CHECKMAC_VERIFY_FAILED then ATCA_SUCCESS else s, Some (s = ATCA_SUCCESS)),
      log_event (Store_is_verified (s = ATCA_SUCCESS)) st)"
  by (simp add: verify_result_def store_is_verified_def)

lemma prefix_events_after_calib_verify:
  "prefix xs (events st) \<Longrightarrow>
   prefix xs (events (snd (calib_verify B K E device mode key_id signature public_key other_data
                             mac st)))"
  by (rule prefix_order.trans [OF _ prefix_events_calib_verify])

lemma prefix_events_after_calib_secureboot:
  "prefix xs (events st) \<Longrightarrow>
   prefix xs (events (snd (calib_secureboot B E device mode p2 digest signature mac st)))"
  by (rule prefix_order.trans [OF _ prefix_events_calib_secureboot])

lemma prefix_events_after_verify_result:
  "prefix xs (events st) \<Longrightarrow> prefix xs (events (snd (verify_result s st)))"
  by (simp add: verify_result_eq events_simps prefix_prefix)

lemma calib_verify_extern_accepted:
  assumes "device \<noteq> None" "is_verified \<noteq> None" "signature \<noteq> None" "message \<noteq> None"
    "public_key \<noteq> None"
  shows "calib_verify_extern B K E device message signature public_key is_verified st =
    (case do_nonce_load E device
            (if ATECC608 = devtype (the device) then NONCE_MODE_TARGET_MSGDIGBUF K
             else NONCE_MODE_TARGET_TEMPKEY K)
            (the message) 32 (snd (store_is_verified False st)) of
       (status, st1) \<Rightarrow>
         if status \<noteq> ATCA_SUCCESS then ((status, Some False), st1)
         else
           verify_result
             (fst (fst (calib_verify B K E device
                (VERIFY_MODE_EXTERNAL K OR
                   (if ATECC608 = devtype (the device) then VERIFY_MODE_SOURCE_MSGDIGBUF K
                    else VERIFY_MODE_SOURCE_TEMPKEY K))
                (VERIFY_KEY_P256 K) signature public_key None None st1)))
             (snd (calib_verify B K E device
                (VERIFY_MODE_EXTERNAL K OR
                   (if ATECC608 = devtype (the device) then VERIFY_MODE_SOURCE_MSGDIGBUF K
                    else VERIFY_MODE_SOURCE_TEMPKEY K))
                (VERIFY_KEY_P256 K) signature public_key None None st1)))"
  by (simp add: calib_verify_extern_def Let_def split_def store_is_verified_def assms)

lemma calib_verify_stored_accepted:
  assumes "device \<noteq> None" "is_verified \<noteq> None" "signature \<noteq> None" "message \<noteq> None"
  shows "calib_verify_stored B K E device message signature key_id is_verified st =
    (case do_nonce_load E device
            (if ATECC608 = devtype (the device) then NONCE_MODE_TARGET_MSGDIGBUF K
             else NONCE_MODE_TARGET_TEMPKEY K)
            (the message) 32 (snd (store_is_verified False st)) of
       (status, st1) \<Rightarrow>
         if status \<noteq> ATCA_SUCCESS then ((status, Some False), st1)
         else
           verify_result
             (fst (fst (calib_verify B K E device
                (VERIFY_MODE_STORED K OR
                   (if ATECC608 = devtype (the device) then VERIFY_MODE_SOURCE_MSGDIGBUF K
                    else VERIFY_MODE_SOURCE_TEMPKEY K))
                key_id signature None None None st1)))
             (snd (calib_verify B K E device
                (VERIFY_MODE_STORED K OR
                   (if ATECC608 = devtype (the device) then VERIFY_MODE_SOURCE_MSGDIGBUF K
                    else VERIFY_MODE_SOURCE_TEMPKEY K))
                key_id signature None None None st1)))"
  by (simp add: calib_verify_stored_def Let_def split_def store_is_verified_def assms)

lemma calib_verify_stored_with_tempkey_accepted:
  assumes "device \<noteq> None" "is_verified \<noteq> None" "signature \<noteq> None"
  shows "calib_verify_stored_with_tempkey B K E device signature key_id is_verified st =
     verify_result
       (fst (fst (calib_verify B K E device
          (VERIFY_MODE_STORED K OR VERIFY_MODE_SOURCE_TEMPKEY K) key_id signature None None None
          (snd (store_is_verified False st)))))
       (snd (calib_verify B K E device
          (VERIFY_MODE_STORED K OR VERIFY_MODE_SOURCE_TEMPKEY K) key_id signature None None None
          (snd (store_is_verified False st))))"
  by (simp add: calib_verify_stored_with_tempkey_def Let_def split_def store_is_verified_def assms)

lemma calib_verify_validate_accepted:
  assumes "device \<noteq> None" "signature \<noteq> None" "other_data \<noteq> None" "is_verified \<noteq> None"
  shows "calib_verify_validate B K E device key_id signature other_data is_verified st =
     verify_result
       (fst (fst (calib_verify B K E device (VERIFY_MODE_VALIDATE K) key_id signature None
                    other_data None st)))
       (snd (calib_verify B K E device (VERIFY_MODE_VALIDATE K) key_id signature None
                    other_data None st))"
  by (simp add: calib_verify_validate_def Let_def split_def assms)

lemma calib_verify_invalidate_accepted:
  assumes "device \<noteq> None" "signature \<noteq> None" "other_data \<noteq> None" "is_verified \<noteq> None"
  shows "calib_verify_invalidate B K E device key_id signature other_data is_verified st =
     verify_result
       (fst (fst (calib_verify B K E device (VERIFY_MODE_INVALIDATE K) key_id signature None
                    other_data None st)))
       (snd (calib_verify B K E device (VERIFY_MODE_INVALIDATE K) key_id signature None
                    other_data None st))"
  by (simp add: calib_verify_invalidate_def Let_def split_def assms)

text \<open>
  C8. A call of \<^verbatim>\<open>calib_verify_extern\<close> or \<^verbatim>\<open>calib_verify_stored\<close> with non-null
  arguments first clears \<^verbatim>\<open>*is_verified\<close> and loads the 32-byte message with
  \<^verbatim>\<open>calib_nonce_load\<close>: into the message digest buffer when the device is an
  ATECC608, into TempKey for every other device. When the load has succeeded the wrapper
  delegates to \<^verbatim>\<open>calib_verify\<close> in the state the load has left, with the mode
  External (and \<^verbatim>\<open>VERIFY_KEY_P256\<close>) or Stored (and the caller's key slot) combined
  with the message digest buffer as source on an ATECC608 and TempKey otherwise; what it
  returns is the tail \<open>verify_result\<close> applied to the status of that call.
\<close>

theorem message_loaded_by_device_variant:
  "(device = Some d \<and> is_verified \<noteq> None \<and> signature \<noteq> None \<and> message = Some m
      \<and> public_key \<noteq> None
     \<longrightarrow> prefix
           (events st @
            [Store_is_verified False,
             Call_calib_nonce_load
               (if ATECC608 = devtype d then NONCE_MODE_TARGET_MSGDIGBUF K
                else NONCE_MODE_TARGET_TEMPKEY K) m 32])
           (events (snd (calib_verify_extern B K E device message signature public_key
                           is_verified st)))
         \<and> (do_nonce_load E device
               (if ATECC608 = devtype d then NONCE_MODE_TARGET_MSGDIGBUF K
                else NONCE_MODE_TARGET_TEMPKEY K) m 32 (snd (store_is_verified False st))
             = (ATCA_SUCCESS, st1)
            \<longrightarrow> calib_verify_extern B K E device message signature public_key is_verified st
                = verify_result
                    (fst (fst (calib_verify B K E device
                       (VERIFY_MODE_EXTERNAL K OR
                          (if ATECC608 = devtype d then VERIFY_MODE_SOURCE_MSGDIGBUF K
                           else VERIFY_MODE_SOURCE_TEMPKEY K))
                       (VERIFY_KEY_P256 K) signature public_key None None st1)))
                    (snd (calib_verify B K E device
                       (VERIFY_MODE_EXTERNAL K OR
                          (if ATECC608 = devtype d then VERIFY_MODE_SOURCE_MSGDIGBUF K
                           else VERIFY_MODE_SOURCE_TEMPKEY K))
                       (VERIFY_KEY_P256 K) signature public_key None None st1))))
   \<and> (device = Some d \<and> is_verified \<noteq> None \<and> signature \<noteq> None \<and> message = Some m
     \<longrightarrow> prefix
           (events st @
            [Store_is_verified False,
             Call_calib_nonce_load
               (if ATECC608 = devtype d then NONCE_MODE_TARGET_MSGDIGBUF K
                else NONCE_MODE_TARGET_TEMPKEY K) m 32])
           (events (snd (calib_verify_stored B K E device message signature key_id
                           is_verified st)))
         \<and> (do_nonce_load E device
               (if ATECC608 = devtype d then NONCE_MODE_TARGET_MSGDIGBUF K
                else NONCE_MODE_TARGET_TEMPKEY K) m 32 (snd (store_is_verified False st))
             = (ATCA_SUCCESS, st1)
            \<longrightarrow> calib_verify_stored B K E device message signature key_id is_verified st
                = verify_result
                    (fst (fst (calib_verify B K E device
                       (VERIFY_MODE_STORED K OR
                          (if ATECC608 = devtype d then VERIFY_MODE_SOURCE_MSGDIGBUF K
                           else VERIFY_MODE_SOURCE_TEMPKEY K))
                       key_id signature None None None st1)))
                    (snd (calib_verify B K E device
                       (VERIFY_MODE_STORED K OR
                          (if ATECC608 = devtype d then VERIFY_MODE_SOURCE_MSGDIGBUF K
                           else VERIFY_MODE_SOURCE_TEMPKEY K))
                       key_id signature None None None st1))))"
proof (intro conjI impI)
  assume a: "device = Some d \<and> is_verified \<noteq> None \<and> signature \<noteq> None \<and> message = Some m
      \<and> public_key \<noteq> None"
  then have ok: "device \<noteq> None" "is_verified \<noteq> None" "signature \<noteq> None" "message \<noteq> None"
    "public_key \<noteq> None" by simp_all
  show "prefix
           (events st @
            [Store_is_verified False,
             Call_calib_nonce_load
               (if ATECC608 = devtype d then NONCE_MODE_TARGET_MSGDIGBUF K
                else NONCE_MODE_TARGET_TEMPKEY K) m 32])
           (events (snd (calib_verify_extern B K E device message signature public_key
                           is_verified st)))"
    using a
    by (auto simp add: calib_verify_extern_accepted split_def events_simps
          intro!: prefix_events_after_verify_result prefix_events_after_calib_verify)
  assume l: "do_nonce_load E device
               (if ATECC608 = devtype d then NONCE_MODE_TARGET_MSGDIGBUF K
                else NONCE_MODE_TARGET_TEMPKEY K) m 32 (snd (store_is_verified False st))
             = (ATCA_SUCCESS, st1)"
  show "calib_verify_extern B K E device message signature public_key is_verified st
                = verify_result
                    (fst (fst (calib_verify B K E device
                       (VERIFY_MODE_EXTERNAL K OR
                          (if ATECC608 = devtype d then VERIFY_MODE_SOURCE_MSGDIGBUF K
                           else VERIFY_MODE_SOURCE_TEMPKEY K))
                       (VERIFY_KEY_P256 K) signature public_key None None st1)))
                    (snd (calib_verify B K E device
                       (VERIFY_MODE_EXTERNAL K OR
                          (if ATECC608 = devtype d then VERIFY_MODE_SOURCE_MSGDIGBUF K
                           else VERIFY_MODE_SOURCE_TEMPKEY K))
                       (VERIFY_KEY_P256 K) signature public_key None None st1))"
    using a l by (simp add: calib_verify_extern_accepted)
next
  assume a: "device = Some d \<and> is_verified \<noteq> None \<and> signature \<noteq> None \<and> message = Some m"
  then have ok: "device \<noteq> None" "is_verified \<noteq> None" "signature \<noteq> None" "message \<noteq> None"
    by simp_all
  show "prefix
           (events st @
            [Store_is_verified False,
             Call_calib_nonce_load
               (if ATECC608 = devtype d then NONCE_MODE_TARGET_MSGDIGBUF K
                else NONCE_MODE_TARGET_TEMPKEY K) m 32])
           (events (snd (calib_verify_stored B K E device message signature key_id
                           is_verified st)))"
    using a
    by (auto simp add: calib_verify_stored_accepted split_def events_simps
          intro!: prefix_events_after_verify_result prefix_events_after_calib_verify)
  assume l: "do_nonce_load E device
               (if ATECC608 = devtype d then NONCE_MODE_TARGET_MSGDIGBUF K
                else NONCE_MODE_TARGET_TEMPKEY K) m 32 (snd (store_is_verified False st))
             = (ATCA_SUCCESS, st1)"
  show "calib_verify_stored B K E device message signature key_id is_verified st
                = verify_result
                    (fst (fst (calib_verify B K E device
                       (VERIFY_MODE_STORED K OR
                          (if ATECC608 = devtype d then VERIFY_MODE_SOURCE_MSGDIGBUF K
                           else VERIFY_MODE_SOURCE_TEMPKEY K))
                       key_id signature None None None st1)))
                    (snd (calib_verify B K E device
                       (VERIFY_MODE_STORED K OR
                          (if ATECC608 = devtype d then VERIFY_MODE_SOURCE_MSGDIGBUF K
                           else VERIFY_MODE_SOURCE_TEMPKEY K))
                       key_id signature None None None st1))"
    using a l by (simp add: calib_verify_stored_accepted)
qed


theorem message_loaded_by_device_variant_witness:
  "prefix [Store_is_verified False, Call_calib_nonce_load 0x40 (replicate 32 0xEE) 32]
     (events (snd (calib_verify_extern default_config header_consts
        (stub_collaborators ATCA_SUCCESS (short_response 192)) (Some device_608)
        (Some (replicate 32 0xEE)) (Some (replicate 64 0xAA)) (Some (replicate 64 0xBB))
        (Some True) initial_state)))
   \<and> fst (calib_verify_extern default_config header_consts
        (stub_collaborators ATCA_SUCCESS (short_response 192)) (Some device_608)
        (Some (replicate 32 0xEE)) (Some (replicate 64 0xAA)) (Some (replicate 64 0xBB))
        (Some True) initial_state)
       = (ATCA_SUCCESS, Some True)
   \<and> prefix [Store_is_verified False, Call_calib_nonce_load 0x00 (replicate 32 0xEE) 32]
     (events (snd (calib_verify_stored default_config header_consts
        (stub_collaborators ATCA_SUCCESS (short_response 192)) (Some device_508)
        (Some (replicate 32 0xEE)) (Some (replicate 64 0xAA)) 9
        (Some True) initial_state)))
   \<and> fst (calib_verify_stored default_config header_consts
        (stub_collaborators ATCA_SUCCESS (short_response 192)) (Some device_508)
        (Some (replicate 32 0xEE)) (Some (replicate 64 0xAA)) 9
        (Some True) initial_state)
       = (ATCA_SUCCESS, Some True)"
proof -
  let ?E = "stub_collaborators ATCA_SUCCESS (short_response 192)"
  note x = message_loaded_by_device_variant
    [where device = "Some device_608" and d = device_608 and is_verified = "Some True"
       and signature = "Some (replicate 64 0xAA)" and message = "Some (replicate 32 0xEE)"
       and m = "replicate 32 0xEE" and public_key = "Some (replicate 64 0xBB)" and key_id = 9
       and st = initial_state and K = header_consts and B = default_config and E = ?E
       and ?st1.0 = "\<lparr>world = 0, events = [Store_is_verified False,
                        Call_calib_nonce_load 0x40 (replicate 32 0xEE) 32]\<rparr>"]
  note y = message_loaded_by_device_variant
    [where device = "Some device_508" and d = device_508 and is_verified = "Some True"
       and signature = "Some (replicate 64 0xAA)" and message = "Some (replicate 32 0xEE)"
       and m = "replicate 32 0xEE" and key_id = 9 and public_key = "Some (replicate 64 0xBB)"
       and st = initial_state and K = header_consts and B = default_config and E = ?E
       and ?st1.0 = "\<lparr>world = 0, events = [Store_is_verified False,
                        Call_calib_nonce_load 0x00 (replicate 32 0xEE) 32]\<rparr>"]
  have hx: "do_nonce_load ?E (Some device_608) 0x40 (replicate 32 0xEE) 32
              (snd (store_is_verified False initial_state))
            = (ATCA_SUCCESS, \<lparr>world = 0, events = [Store_is_verified False,
                        Call_calib_nonce_load 0x40 (replicate 32 0xEE) 32]\<rparr>)"
    by (simp add: stub_simps)
  have hy: "do_nonce_load ?E (Some device_508) 0x00 (replicate 32 0xEE) 32
              (snd (store_is_verified False initial_state))
            = (ATCA_SUCCESS, \<lparr>world = 0, events = [Store_is_verified False,
                        Call_calib_nonce_load 0x00 (replicate 32 0xEE) 32]\<rparr>)"
    by (simp add: stub_simps)
  have vx: "fst (fst (calib_verify default_config header_consts ?E (Some device_608) 0x22 4
              (Some (replicate 64 0xAA)) (Some (replicate 64 0xBB)) None None
              \<lparr>world = 0, events = [Store_is_verified False,
                        Call_calib_nonce_load 0x40 (replicate 32 0xEE) 32]\<rparr>)) = ATCA_SUCCESS"
    by (simp add: calib_verify_accepted verify_args_ok_def header_consts_def stub_simps)
  have vy: "fst (fst (calib_verify default_config header_consts ?E (Some device_508) 0x00 9
              (Some (replicate 64 0xAA)) None None None
              \<lparr>world = 0, events = [Store_is_verified False,
                        Call_calib_nonce_load 0x00 (replicate 32 0xEE) 32]\<rparr>)) = ATCA_SUCCESS"
    by (simp add: calib_verify_accepted verify_args_ok_def header_consts_def stub_simps)
  have kx: "NONCE_MODE_TARGET_MSGDIGBUF header_consts = 0x40"
    "NONCE_MODE_TARGET_TEMPKEY header_consts = 0x00"
    "VERIFY_MODE_EXTERNAL header_consts OR VERIFY_MODE_SOURCE_MSGDIGBUF header_consts = 0x22"
    "VERIFY_MODE_STORED header_consts OR VERIFY_MODE_SOURCE_TEMPKEY header_consts = 0x00"
    "VERIFY_KEY_P256 header_consts = 4"
    by (simp_all add: header_consts_def)
  have c1: "prefix [Store_is_verified False, Call_calib_nonce_load 0x40 (replicate 32 0xEE) 32]
     (events (snd (calib_verify_extern default_config header_consts ?E (Some device_608)
        (Some (replicate 32 0xEE)) (Some (replicate 64 0xAA)) (Some (replicate 64 0xBB))
        (Some True) initial_state)))"
    using x [THEN conjunct1] by (simp add: kx device_608_def initial_state_def)
  have c2: "fst (calib_verify_extern default_config header_consts ?E (Some device_608)
        (Some (replicate 32 0xEE)) (Some (replicate 64 0xAA)) (Some (replicate 64 0xBB))
        (Some True) initial_state)
       = (ATCA_SUCCESS, Some True)"
    using x [THEN conjunct1] hx vx by (simp add: kx device_608_def verify_result_eq)
  have c3: "prefix [Store_is_verified False, Call_calib_nonce_load 0x00 (replicate 32 0xEE) 32]
     (events (snd (calib_verify_stored default_config header_consts ?E (Some device_508)
        (Some (replicate 32 0xEE)) (Some (replicate 64 0xAA)) 9
        (Some True) initial_state)))"
    using y [THEN conjunct2] by (simp add: kx device_508_def initial_state_def)
  have c4: "fst (calib_verify_stored default_config header_consts ?E (Some device_508)
        (Some (replicate 32 0xEE)) (Some (replicate 64 0xAA)) 9
        (Some True) initial_state)
       = (ATCA_SUCCESS, Some True)"
    using y [THEN conjunct2] hy vy by (simp add: kx device_508_def verify_result_eq)
  from c1 c2 c3 c4 show ?thesis by blast
qed

subsection \<open>The steps of the MAC-checking entry points\<close>

lemma calib_secureboot_mac_steps:
  assumes "is_verified \<noteq> None" "digest \<noteq> None" "num_in \<noteq> None" "io_key \<noteq> None"
    and "do_nonce_base E device (NONCE_MODE_SEED_UPDATE K) 0 (the num_in)
           (log_event (Store_is_verified False) st) = ((s1, rand_out), sa)"
    and "do_atcah_nonce E
           \<lparr>nonce_mode = NONCE_MODE_SEED_UPDATE K, nonce_zero = 0, nonce_num_in = the num_in,
            nonce_rand_out = rand_out, nonce_temp_key = replicate (sizeof_temp_key B) 0\<rparr> sa
         = ((s2, tempkey), sb)"
    and "do_atcah_secureboot_enc E
           \<lparr>enc_io_key = the io_key, enc_temp_key = tempkey, enc_digest = the digest\<rparr> sb
         = ((s3, key, digest_enc), sc)"
    and "calib_secureboot B E device (mode OR SECUREBOOT_MODE_ENC_MAC_FLAG K) 0
           (Some digest_enc) signature (Some mac_uninit) sc = ((s4, mac), sd)"
    and "do_read_bytes_zone E device (ATCA_ZONE_CONFIG K) 0 (SECUREBOOTCONFIG_OFFSET K) 2 sd
         = ((s5, buf), se)"
    and "do_atcah_secureboot_mac E
           \<lparr>sbmac_mode = mode OR SECUREBOOT_MODE_ENC_MAC_FLAG K, sbmac_param2 = 0,
            sbmac_secure_boot_config = ucast (buf ! 0) OR push_bit 8 (ucast (buf ! 1)),
            sbmac_hashed_key = key, sbmac_digest = the digest, sbmac_signature = signature\<rparr> se
         = ((s6, host_mac), sf)"
  shows "calib_secureboot_mac B K E device mode digest signature num_in io_key is_verified
           mac_uninit st =
     (if ATCA_SUCCESS \<noteq> s1 then ((s1, Some False), sa)
      else if ATCA_SUCCESS \<noteq> s2 then ((s2, Some False), sb)
      else if ATCA_SUCCESS \<noteq> s3 then ((s3, Some False), sc)
      else if ATCA_SUCCESS \<noteq> s4
      then (if ATCA_CHECKMAC_VERIFY_FAILED = s4
            then ((ATCA_SUCCESS, Some False), log_event (Store_is_verified False) sd)
            else ((s4, Some False), sd))
      else if ATCA_SUCCESS \<noteq> s5 then ((s5, Some False), se)
      else if ATCA_SUCCESS \<noteq> s6 then ((s6, Some False), sf)
      else ((ATCA_SUCCESS, Some (memcmp_eq host_mac (the mac) SECUREBOOT_MAC_SIZE)),
            log_event (Store_is_verified (memcmp_eq host_mac (the mac) SECUREBOOT_MAC_SIZE)) sf))"
  unfolding calib_secureboot_mac_def Let_def store_is_verified_def
  by (simp add: assms del: One_nat_def)

lemma calib_verify_extern_stored_mac_steps:
  assumes "is_verified \<noteq> None" "signature \<noteq> None" "message \<noteq> None" "num_in \<noteq> None"
    "io_key \<noteq> None"
    "\<not> (mode AND VERIFY_MODE_MASK K = VERIFY_MODE_EXTERNAL K \<and> public_key = None)"
    and "do_nonce_load E device (NONCE_MODE_TARGET_MSGDIGBUF K)
           (take 32 (the message) @ take 32 (the num_in)) 64
           (log_event (Store_is_verified False) st) = (s1, sa)"
    and "do_atcah_verify_mac E
           \<lparr>vmac_mode = mode OR VERIFY_MODE_SOURCE_MSGDIGBUF K OR VERIFY_MODE_MAC_FLAG K,
            vmac_key_id = key_id, vmac_signature = the signature,
            vmac_msg_dig_buf = take 32 (the message) @ take 32 (the num_in),
            vmac_io_key = the io_key, vmac_temp_key = None, vmac_sn = None\<rparr> sa
         = ((s2, host_mac), sb)"
    and "calib_verify B K E device
           (mode OR VERIFY_MODE_SOURCE_MSGDIGBUF K OR VERIFY_MODE_MAC_FLAG K) key_id
           signature public_key None (Some mac_uninit) sb = ((s3, mac), sc)"
  shows "calib_verify_extern_stored_mac B K E device mode key_id message signature public_key
           num_in io_key is_verified mac_uninit st =
     (if s1 \<noteq> ATCA_SUCCESS then ((s1, Some False), sa)
      else if ATCA_SUCCESS \<noteq> s2 then ((s2, Some False), sb)
      else if ATCA_SUCCESS \<noteq> s3
      then (if s3 = ATCA_CHECKMAC_VERIFY_FAILED then ((ATCA_SUCCESS, Some False), sc)
            else ((s3, Some False), sc))
      else ((ATCA_SUCCESS, Some (memcmp_eq host_mac (the mac) MAC_SIZE)),
            log_event (Store_is_verified (memcmp_eq host_mac (the mac) MAC_SIZE)) sc))"
  unfolding calib_verify_extern_stored_mac_def Let_def store_is_verified_def
  by (simp add: assms)


text \<open>
  C2. For each of \<^verbatim>\<open>calib_secureboot_mac\<close>, \<^verbatim>\<open>calib_verify_extern_stored_mac\<close>,
  \<^verbatim>\<open>calib_verify_extern\<close>, \<^verbatim>\<open>calib_verify_stored\<close>,
  \<^verbatim>\<open>calib_verify_stored_with_tempkey\<close>, \<^verbatim>\<open>calib_verify_validate\<close> and
  \<^verbatim>\<open>calib_verify_invalidate\<close>: when the null checks pass, the steps before the
  command succeed, and the underlying command (\<^verbatim>\<open>calib_secureboot\<close> or
  \<^verbatim>\<open>calib_verify\<close>) returns a status \<open>s\<close> other than success, the entry point
  returns \<^verbatim>\<open>ATCA_SUCCESS\<close> if \<open>s\<close> is \<^verbatim>\<open>ATCA_CHECKMAC_VERIFY_FAILED\<close> and
  \<open>s\<close> unchanged otherwise, and \<^verbatim>\<open>*is_verified\<close> is false in both cases.
\<close>

theorem verification_mismatch_is_success:
  assumes ns: "s \<noteq> ATCA_SUCCESS"
  shows
  "(is_verified \<noteq> None \<and> digest \<noteq> None \<and> num_in \<noteq> None \<and> io_key \<noteq> None
      \<and> do_nonce_base E device (NONCE_MODE_SEED_UPDATE K) 0 (the num_in)
            (log_event (Store_is_verified False) st) = ((ATCA_SUCCESS, rand_out), sa)
      \<and> do_atcah_nonce E
            \<lparr>nonce_mode = NONCE_MODE_SEED_UPDATE K, nonce_zero = 0, nonce_num_in = the num_in,
             nonce_rand_out = rand_out, nonce_temp_key = replicate (sizeof_temp_key B) 0\<rparr> sa
          = ((ATCA_SUCCESS, tempkey), sb)
      \<and> do_atcah_secureboot_enc E
            \<lparr>enc_io_key = the io_key, enc_temp_key = tempkey, enc_digest = the digest\<rparr> sb
          = ((ATCA_SUCCESS, key, digest_enc), sc)
      \<and> fst (fst (calib_secureboot B E device (mode OR SECUREBOOT_MODE_ENC_MAC_FLAG K) 0
                     (Some digest_enc) signature (Some mac_uninit) sc)) = s
     \<longrightarrow> fst (calib_secureboot_mac B K E device mode digest signature num_in io_key is_verified
                mac_uninit st)
           = (if s = ATCA_CHECKMAC_VERIFY_FAILED then ATCA_SUCCESS else s, Some False))
   \<and> (is_verified \<noteq> None \<and> signature \<noteq> None \<and> message \<noteq> None \<and> num_in \<noteq> None
      \<and> io_key \<noteq> None
      \<and> \<not> (mode AND VERIFY_MODE_MASK K = VERIFY_MODE_EXTERNAL K \<and> public_key = None)
      \<and> do_nonce_load E device (NONCE_MODE_TARGET_MSGDIGBUF K)
            (take 32 (the message) @ take 32 (the num_in)) 64
            (log_event (Store_is_verified False) st) = (ATCA_SUCCESS, ta)
      \<and> do_atcah_verify_mac E
            \<lparr>vmac_mode = mode OR VERIFY_MODE_SOURCE_MSGDIGBUF K OR VERIFY_MODE_MAC_FLAG K,
             vmac_key_id = key_id, vmac_signature = the signature,
             vmac_msg_dig_buf = take 32 (the message) @ take 32 (the num_in),
             vmac_io_key = the io_key, vmac_temp_key = None, vmac_sn = None\<rparr> ta
          = ((ATCA_SUCCESS, host_mac), tb)
      \<and> fst (fst (calib_verify B K E device
                     (mode OR VERIFY_MODE_SOURCE_MSGDIGBUF K OR VERIFY_MODE_MAC_FLAG K) key_id
                     signature public_key None (Some mac_uninit) tb)) = s
     \<longrightarrow> fst (calib_verify_extern_stored_mac B K E device mode key_id message signature
                public_key num_in io_key is_verified mac_uninit st)
           = (if s = ATCA_CHECKMAC_VERIFY_FAILED then ATCA_SUCCESS else s, Some False))
   \<and> (device \<noteq> None \<and> is_verified \<noteq> None \<and> signature \<noteq> None \<and> message \<noteq> None
      \<and> public_key \<noteq> None
      \<and> do_nonce_load E device
            (if ATECC608 = devtype (the device) then NONCE_MODE_TARGET_MSGDIGBUF K
             else NONCE_MODE_TARGET_TEMPKEY K)
            (the message) 32 (log_event (Store_is_verified False) st) = (ATCA_SUCCESS, ua)
      \<and> fst (fst (calib_verify B K E device
                     (VERIFY_MODE_EXTERNAL K OR
                        (if ATECC608 = devtype (the device) then VERIFY_MODE_SOURCE_MSGDIGBUF K
                         else VERIFY_MODE_SOURCE_TEMPKEY K))
                     (VERIFY_KEY_P256 K) signature public_key None None ua)) = s
     \<longrightarrow> fst (calib_verify_extern B K E device message signature public_key is_verified st)
           = (if s = ATCA_CHECKMAC_VERIFY_FAILED then ATCA_SUCCESS else s, Some False))
   \<and> (device \<noteq> None \<and> is_verified \<noteq> None \<and> signature \<noteq> None \<and> message \<noteq> None
      \<and> do_nonce_load E device
            (if ATECC608 = devtype (the device) then NONCE_MODE_TARGET_MSGDIGBUF K
             else NONCE_MODE_TARGET_TEMPKEY K)
            (the message) 32 (log_event (Store_is_verified False) st) = (ATCA_SUCCESS, ua)
      \<and> fst (fst (calib_verify B K E device
                     (VERIFY_MODE_STORED K OR
                        (if ATECC608 = devtype (the device) then VERIFY_MODE_SOURCE_MSGDIGBUF K
                         else VERIFY_MODE_SOURCE_TEMPKEY K))
                     key_id signature None None None ua)) = s
     \<longrightarrow> fst (calib_verify_stored B K E device message signature key_id is_verified st)
           = (if s = ATCA_CHECKMAC_VERIFY_FAILED then ATCA_SUCCESS else s, Some False))
   \<and> (device \<noteq> None \<and> is_verified \<noteq> None \<and> signature \<noteq> None
      \<and> fst (fst (calib_verify B K E device
                     (VERIFY_MODE_STORED K OR VERIFY_MODE_SOURCE_TEMPKEY K) key_id signature
                     None None None (log_event (Store_is_verified False) st))) = s
     \<longrightarrow> fst (calib_verify_stored_with_tempkey B K E device signature key_id is_verified st)
           = (if s = ATCA_CHECKMAC_VERIFY_FAILED then ATCA_SUCCESS else s, Some False))
   \<and> (device \<noteq> None \<and> signature \<noteq> None \<and> other_data \<noteq> None \<and> is_verified \<noteq> None
      \<and> fst (fst (calib_verify B K E device (VERIFY_MODE_VALIDATE K) key_id signature None
                     other_data None st)) = s
     \<longrightarrow> fst (calib_verify_validate B K E device key_id signature other_data is_verified st)
           = (if s = ATCA_CHECKMAC_VERIFY_FAILED then ATCA_SUCCESS else s, Some False))
   \<and> (device \<noteq> None \<and> signature \<noteq> None \<and> other_data \<noteq> None \<and> is_verified \<noteq> None
      \<and> fst (fst (calib_verify B K E device (VERIFY_MODE_INVALIDATE K) key_id signature None
                     other_data None st)) = s
     \<longrightarrow> fst (calib_verify_invalidate B K E device key_id signature other_data is_verified st)
           = (if s = ATCA_CHECKMAC_VERIFY_FAILED then ATCA_SUCCESS else s, Some False))"
proof (intro conjI impI)
  assume a: "is_verified \<noteq> None \<and> digest \<noteq> None \<and> num_in \<noteq> None \<and> io_key \<noteq> None
      \<and> do_nonce_base E device (NONCE_MODE_SEED_UPDATE K) 0 (the num_in)
            (log_event (Store_is_verified False) st) = ((ATCA_SUCCESS, rand_out), sa)
      \<and> do_atcah_nonce E
            \<lparr>nonce_mode = NONCE_MODE_SEED_UPDATE K, nonce_zero = 0, nonce_num_in = the num_in,
             nonce_rand_out = rand_out, nonce_temp_key = replicate (sizeof_temp_key B) 0\<rparr> sa
          = ((ATCA_SUCCESS, tempkey), sb)
      \<and> do_atcah_secureboot_enc E
            \<lparr>enc_io_key = the io_key, enc_temp_key = tempkey, enc_digest = the digest\<rparr> sb
          = ((ATCA_SUCCESS, key, digest_enc), sc)
      \<and> fst (fst (calib_secureboot B E device (mode OR SECUREBOOT_MODE_ENC_MAC_FLAG K) 0
                     (Some digest_enc) signature (Some mac_uninit) sc)) = s"
  obtain mac sd where q4: "calib_secureboot B E device (mode OR SECUREBOOT_MODE_ENC_MAC_FLAG K) 0
           (Some digest_enc) signature (Some mac_uninit) sc = ((s, mac), sd)"
    using a by (cases "calib_secureboot B E device (mode OR SECUREBOOT_MODE_ENC_MAC_FLAG K) 0
           (Some digest_enc) signature (Some mac_uninit) sc") auto
  obtain s5 buf se where q5: "do_read_bytes_zone E device (ATCA_ZONE_CONFIG K) 0
           (SECUREBOOTCONFIG_OFFSET K) 2 sd = ((s5, buf), se)"
    by (cases "do_read_bytes_zone E device (ATCA_ZONE_CONFIG K) 0
           (SECUREBOOTCONFIG_OFFSET K) 2 sd") auto
  obtain s6 host_mac sf where q6: "do_atcah_secureboot_mac E
           \<lparr>sbmac_mode = mode OR SECUREBOOT_MODE_ENC_MAC_FLAG K, sbmac_param2 = 0,
            sbmac_secure_boot_config = ucast (buf ! 0) OR push_bit 8 (ucast (buf ! 1)),
            sbmac_hashed_key = key, sbmac_digest = the digest, sbmac_signature = signature\<rparr> se
         = ((s6, host_mac), sf)"
    by (cases "do_atcah_secureboot_mac E
           \<lparr>sbmac_mode = mode OR SECUREBOOT_MODE_ENC_MAC_FLAG K, sbmac_param2 = 0,
            sbmac_secure_boot_config = ucast (buf ! 0) OR push_bit 8 (ucast (buf ! 1)),
            sbmac_hashed_key = key, sbmac_digest = the digest, sbmac_signature = signature\<rparr> se")
      auto
  from a have n: "is_verified \<noteq> None" "digest \<noteq> None" "num_in \<noteq> None" "io_key \<noteq> None"
    by simp_all
  show "fst (calib_secureboot_mac B K E device mode digest signature num_in io_key is_verified
                mac_uninit st)
           = (if s = ATCA_CHECKMAC_VERIFY_FAILED then ATCA_SUCCESS else s, Some False)"
    using ns a by (simp add: calib_secureboot_mac_steps [OF n _ _ _ q4 q5 q6] eq_commute [of _ s])
next
  assume a: "is_verified \<noteq> None \<and> signature \<noteq> None \<and> message \<noteq> None \<and> num_in \<noteq> None
      \<and> io_key \<noteq> None
      \<and> \<not> (mode AND VERIFY_MODE_MASK K = VERIFY_MODE_EXTERNAL K \<and> public_key = None)
      \<and> do_nonce_load E device (NONCE_MODE_TARGET_MSGDIGBUF K)
            (take 32 (the message) @ take 32 (the num_in)) 64
            (log_event (Store_is_verified False) st) = (ATCA_SUCCESS, ta)
      \<and> do_atcah_verify_mac E
            \<lparr>vmac_mode = mode OR VERIFY_MODE_SOURCE_MSGDIGBUF K OR VERIFY_MODE_MAC_FLAG K,
             vmac_key_id = key_id, vmac_signature = the signature,
             vmac_msg_dig_buf = take 32 (the message) @ take 32 (the num_in),
             vmac_io_key = the io_key, vmac_temp_key = None, vmac_sn = None\<rparr> ta
          = ((ATCA_SUCCESS, host_mac), tb)
      \<and> fst (fst (calib_verify B K E device
                     (mode OR VERIFY_MODE_SOURCE_MSGDIGBUF K OR VERIFY_MODE_MAC_FLAG K) key_id
                     signature public_key None (Some mac_uninit) tb)) = s"
  obtain mac tc where q3: "calib_verify B K E device
           (mode OR VERIFY_MODE_SOURCE_MSGDIGBUF K OR VERIFY_MODE_MAC_FLAG K) key_id
           signature public_key None (Some mac_uninit) tb = ((s, mac), tc)"
    using a by (cases "calib_verify B K E device
           (mode OR VERIFY_MODE_SOURCE_MSGDIGBUF K OR VERIFY_MODE_MAC_FLAG K) key_id
           signature public_key None (Some mac_uninit) tb") auto
  from a have n: "is_verified \<noteq> None" "signature \<noteq> None" "message \<noteq> None" "num_in \<noteq> None"
    "io_key \<noteq> None"
    "\<not> (mode AND VERIFY_MODE_MASK K = VERIFY_MODE_EXTERNAL K \<and> public_key = None)"
    by simp_all
  show "fst (calib_verify_extern_stored_mac B K E device mode key_id message signature
                public_key num_in io_key is_verified mac_uninit st)
           = (if s = ATCA_CHECKMAC_VERIFY_FAILED then ATCA_SUCCESS else s, Some False)"
    using ns a
    by (simp add: calib_verify_extern_stored_mac_steps [OF n _ _ q3] eq_commute [of _ s])
next
  assume a: "device \<noteq> None \<and> is_verified \<noteq> None \<and> signature \<noteq> None \<and> message \<noteq> None
      \<and> public_key \<noteq> None
      \<and> do_nonce_load E device
            (if ATECC608 = devtype (the device) then NONCE_MODE_TARGET_MSGDIGBUF K
             else NONCE_MODE_TARGET_TEMPKEY K)
            (the message) 32 (log_event (Store_is_verified False) st) = (ATCA_SUCCESS, ua)
      \<and> fst (fst (calib_verify B K E device
                     (VERIFY_MODE_EXTERNAL K OR
                        (if ATECC608 = devtype (the device) then VERIFY_MODE_SOURCE_MSGDIGBUF K
                         else VERIFY_MODE_SOURCE_TEMPKEY K))
                     (VERIFY_KEY_P256 K) signature public_key None None ua)) = s"
  show "fst (calib_verify_extern B K E device message signature public_key is_verified st)
           = (if s = ATCA_CHECKMAC_VERIFY_FAILED then ATCA_SUCCESS else s, Some False)"
    using ns a by (simp add: calib_verify_extern_accepted store_is_verified_def verify_result_eq)
next
  assume a: "device \<noteq> None \<and> is_verified \<noteq> None \<and> signature \<noteq> None \<and> message \<noteq> None
      \<and> do_nonce_load E device
            (if ATECC608 = devtype (the device) then NONCE_MODE_TARGET_MSGDIGBUF K
             else NONCE_MODE_TARGET_TEMPKEY K)
            (the message) 32 (log_event (Store_is_verified False) st) = (ATCA_SUCCESS, ua)
      \<and> fst (fst (calib_verify B K E device
                     (VERIFY_MODE_STORED K OR
                        (if ATECC608 = devtype (the device) then VERIFY_MODE_SOURCE_MSGDIGBUF K
                         else VERIFY_MODE_SOURCE_TEMPKEY K))
                     key_id signature None None None ua)) = s"
  show "fst (calib_verify_stored B K E device message signature key_id is_verified st)
           = (if s = ATCA_CHECKMAC_VERIFY_FAILED then ATCA_SUCCESS else s, Some False)"
    using ns a by (simp add: calib_verify_stored_accepted store_is_verified_def verify_result_eq)
next
  assume a: "device \<noteq> None \<and> is_verified \<noteq> None \<and> signature \<noteq> None
      \<and> fst (fst (calib_verify B K E device
                     (VERIFY_MODE_STORED K OR VERIFY_MODE_SOURCE_TEMPKEY K) key_id signature
                     None None None (log_event (Store_is_verified False) st))) = s"
  show "fst (calib_verify_stored_with_tempkey B K E device signature key_id is_verified st)
           = (if s = ATCA_CHECKMAC_VERIFY_FAILED then ATCA_SUCCESS else s, Some False)"
    using ns a by (simp add: calib_verify_stored_with_tempkey_accepted store_is_verified_def verify_result_eq)
next
  assume a: "device \<noteq> None \<and> signature \<noteq> None \<and> other_data \<noteq> None \<and> is_verified \<noteq> None
      \<and> fst (fst (calib_verify B K E device (VERIFY_MODE_VALIDATE K) key_id signature None
                     other_data None st)) = s"
  show "fst (calib_verify_validate B K E device key_id signature other_data is_verified st)
           = (if s = ATCA_CHECKMAC_VERIFY_FAILED then ATCA_SUCCESS else s, Some False)"
    using ns a by (simp add: calib_verify_validate_accepted store_is_verified_def verify_result_eq)
next
  assume a: "device \<noteq> None \<and> signature \<noteq> None \<and> other_data \<noteq> None \<and> is_verified \<noteq> None
      \<and> fst (fst (calib_verify B K E device (VERIFY_MODE_INVALIDATE K) key_id signature None
                     other_data None st)) = s"
  show "fst (calib_verify_invalidate B K E device key_id signature other_data is_verified st)
           = (if s = ATCA_CHECKMAC_VERIFY_FAILED then ATCA_SUCCESS else s, Some False)"
    using ns a by (simp add: calib_verify_invalidate_accepted store_is_verified_def verify_result_eq)
qed


lemmas eval_simps =
  calib_verify_accepted calib_secureboot_accepted verify_args_ok_def header_consts_def
  default_config_def device_608_def device_508_def stub_simps mac_out_def verify_result_eq
  verify_packet_def secureboot_packet_def memset_packet_def memcpy_at_def memcmp_eq_def
  short_response_def mac_response_def
  ATCA_SIG_SIZE_def ATCA_PUB_KEY_SIZE_def VERIFY_OTHER_DATA_SIZE_def SECUREBOOT_DIGEST_SIZE_def
  SECUREBOOT_SIGNATURE_SIZE_def SECUREBOOT_MAC_SIZE_def MAC_SIZE_def

theorem verification_mismatch_is_success_witness:
  "fst (calib_secureboot_mac default_config header_consts
          (stub_collaborators ATCA_CHECKMAC_VERIFY_FAILED (short_response 192))
          (Some device_608) 0x05 (Some (replicate 32 0xDD)) (Some (replicate 64 0xAA))
          (Some (replicate 20 0x77)) (Some (replicate 32 0x88)) (Some True) (replicate 32 0)
          initial_state) = (ATCA_SUCCESS, Some False)
   \<and> fst (calib_verify_extern_stored_mac default_config header_consts
          (stub_collaborators ATCA_CHECKMAC_VERIFY_FAILED (short_response 192))
          (Some device_608) 0x02 4 (Some (replicate 32 0xEE)) (Some (replicate 64 0xAA))
          (Some (replicate 64 0xBB)) (Some (replicate 32 0x77)) (Some (replicate 32 0x88))
          (Some True) (replicate 32 0) initial_state) = (ATCA_SUCCESS, Some False)
   \<and> fst (calib_verify_extern default_config header_consts
          (stub_collaborators ATCA_CHECKMAC_VERIFY_FAILED (short_response 192))
          (Some device_608) (Some (replicate 32 0xEE)) (Some (replicate 64 0xAA))
          (Some (replicate 64 0xBB)) (Some True) initial_state) = (ATCA_SUCCESS, Some False)
   \<and> fst (calib_verify_stored default_config header_consts
          (stub_collaborators ATCA_CHECKMAC_VERIFY_FAILED (short_response 192))
          (Some device_608) (Some (replicate 32 0xEE)) (Some (replicate 64 0xAA)) 9
          (Some True) initial_state) = (ATCA_SUCCESS, Some False)
   \<and> fst (calib_verify_stored_with_tempkey default_config header_consts
          (stub_collaborators ATCA_CHECKMAC_VERIFY_FAILED (short_response 192))
          (Some device_608) (Some (replicate 64 0xAA)) 9 (Some True) initial_state)
       = (ATCA_SUCCESS, Some False)
   \<and> fst (calib_verify_validate default_config header_consts
          (stub_collaborators ATCA_CHECKMAC_VERIFY_FAILED (short_response 192))
          (Some device_608) 9 (Some (replicate 64 0xAA)) (Some (replicate 19 0xCC)) (Some True)
          initial_state) = (ATCA_SUCCESS, Some False)
   \<and> fst (calib_verify_invalidate default_config header_consts
          (stub_collaborators ATCA_CHECKMAC_VERIFY_FAILED (short_response 192))
          (Some device_608) 9 (Some (replicate 64 0xAA)) (Some (replicate 19 0xCC)) (Some True)
          initial_state) = (ATCA_SUCCESS, Some False)
   \<and> fst (calib_verify_validate default_config header_consts
          (stub_collaborators (ATCA_STATUS_OTHER 7) (short_response 192))
          (Some device_608) 9 (Some (replicate 64 0xAA)) (Some (replicate 19 0xCC)) (Some True)
          initial_state) = (ATCA_STATUS_OTHER 7, Some False)"
proof -
  let ?E = "stub_collaborators ATCA_CHECKMAC_VERIFY_FAILED (short_response 192)"
  let ?F = "stub_collaborators (ATCA_STATUS_OTHER 7) (short_response 192)"
  let ?s0 = "log_event (Store_is_verified False) initial_state"
  let ?sa = "snd (do_nonce_base ?E (Some device_608) 0 0 (replicate 20 0x77) ?s0)"
  let ?np = "\<lparr>nonce_mode = 0, nonce_zero = 0, nonce_num_in = replicate 20 0x77,
             nonce_rand_out = replicate 32 0x11, nonce_temp_key = replicate 68 0\<rparr>"
  let ?sb = "snd (do_atcah_nonce ?E ?np ?sa)"
  let ?ep = "\<lparr>enc_io_key = replicate 32 0x88, enc_temp_key = replicate 68 0x22,
             enc_digest = replicate 32 0xDD\<rparr>"
  let ?sc = "snd (do_atcah_secureboot_enc ?E ?ep ?sb)"
  let ?ta = "snd (do_nonce_load ?E (Some device_608) 0x40
                    (replicate 32 0xEE @ replicate 32 0x77) 64 ?s0)"
  let ?vp = "\<lparr>vmac_mode = 0xA2, vmac_key_id = 4, vmac_signature = replicate 64 0xAA,
             vmac_msg_dig_buf = replicate 32 0xEE @ replicate 32 0x77,
             vmac_io_key = replicate 32 0x88, vmac_temp_key = None, vmac_sn = None\<rparr>"
  let ?tb = "snd (do_atcah_verify_mac ?E ?vp ?ta)"
  let ?ua = "snd (do_nonce_load ?E (Some device_608) 0x40 (replicate 32 0xEE) 32 ?s0)"
  have ns: "ATCA_CHECKMAC_VERIFY_FAILED \<noteq> ATCA_SUCCESS" "ATCA_STATUS_OTHER 7 \<noteq> ATCA_SUCCESS"
    by simp_all
  note t1 = verification_mismatch_is_success
    [where B = default_config and K = header_consts and E = ?E
        and device = "Some device_608"
        and is_verified = "Some True" and st = initial_state and mode = "0x05"
        and digest = "Some (replicate 32 0xDD)" and signature = "Some (replicate 64 0xAA)"
        and num_in = "Some (replicate 20 0x77)" and io_key = "Some (replicate 32 0x88)"
        and mac_uninit = "replicate 32 0" and rand_out = "replicate 32 0x11" and sa = ?sa
        and tempkey = "replicate 68 0x22" and sb = ?sb and key = "replicate 32 0x33"
        and digest_enc = "replicate 32 0x44" and sc = ?sc,
      OF ns(1), THEN conjunct1]
  note t2 = verification_mismatch_is_success
    [where B = default_config and K = header_consts and E = ?E
        and device = "Some device_608"
        and is_verified = "Some True" and st = initial_state and mode = "0x02" and key_id = 4
        and message = "Some (replicate 32 0xEE)" and signature = "Some (replicate 64 0xAA)"
        and public_key = "Some (replicate 64 0xBB)"
        and num_in = "Some (replicate 32 0x77)" and io_key = "Some (replicate 32 0x88)"
        and mac_uninit = "replicate 32 0" and ta = ?ta and host_mac = "replicate 32 0x55"
        and tb = ?tb,
      OF ns(1), THEN conjunct2, THEN conjunct1]
  note t3 = verification_mismatch_is_success
    [where B = default_config and K = header_consts and E = ?E
        and device = "Some device_608"
        and is_verified = "Some True" and st = initial_state and key_id = 9
        and message = "Some (replicate 32 0xEE)" and signature = "Some (replicate 64 0xAA)"
        and public_key = "Some (replicate 64 0xBB)" and other_data = "Some (replicate 19 0xCC)"
        and ua = ?ua,
      OF ns(1), THEN conjunct2, THEN conjunct2]
  note t4 = verification_mismatch_is_success
    [where B = default_config and K = header_consts and E = ?F
        and device = "Some device_608"
        and is_verified = "Some True" and st = initial_state and key_id = 9
        and signature = "Some (replicate 64 0xAA)" and other_data = "Some (replicate 19 0xCC)",
      OF ns(2), THEN conjunct2, THEN conjunct2, THEN conjunct2, THEN conjunct2, THEN conjunct2, THEN conjunct1]
  have c1: "fst (calib_secureboot_mac default_config header_consts ?E
          (Some device_608) 0x05 (Some (replicate 32 0xDD)) (Some (replicate 64 0xAA))
          (Some (replicate 20 0x77)) (Some (replicate 32 0x88)) (Some True) (replicate 32 0)
          initial_state) = (ATCA_SUCCESS, Some False)"
    using t1 by (simp add: eval_simps)
  have c2: "fst (calib_verify_extern_stored_mac default_config header_consts ?E
          (Some device_608) 0x02 4 (Some (replicate 32 0xEE)) (Some (replicate 64 0xAA))
          (Some (replicate 64 0xBB)) (Some (replicate 32 0x77)) (Some (replicate 32 0x88))
          (Some True) (replicate 32 0) initial_state) = (ATCA_SUCCESS, Some False)"
    using t2 by (simp add: eval_simps)
  have c3: "fst (calib_verify_extern default_config header_consts ?E
          (Some device_608) (Some (replicate 32 0xEE)) (Some (replicate 64 0xAA))
          (Some (replicate 64 0xBB)) (Some True) initial_state) = (ATCA_SUCCESS, Some False)"
    using t3 [THEN conjunct1] by (simp add: eval_simps)
  have c4: "fst (calib_verify_stored default_config header_consts ?E
          (Some device_608) (Some (replicate 32 0xEE)) (Some (replicate 64 0xAA)) 9
          (Some True) initial_state) = (ATCA_SUCCESS, Some False)"
    using t3 [THEN conjunct2, THEN conjunct1] by (simp add: eval_simps)
  have c5: "fst (calib_verify_stored_with_tempkey default_config header_consts ?E
          (Some device_608) (Some (replicate 64 0xAA)) 9 (Some True) initial_state)
       = (ATCA_SUCCESS, Some False)"
    using t3 [THEN conjunct2, THEN conjunct2, THEN conjunct1] by (simp add: eval_simps)
  have c6: "fst (calib_verify_validate default_config header_consts ?E
          (Some device_608) 9 (Some (replicate 64 0xAA)) (Some (replicate 19 0xCC)) (Some True)
          initial_state) = (ATCA_SUCCESS, Some False)"
    using t3 [THEN conjunct2, THEN conjunct2, THEN conjunct2, THEN conjunct1]
    by (simp add: eval_simps)
  have c7: "fst (calib_verify_invalidate default_config header_consts ?E
          (Some device_608) 9 (Some (replicate 64 0xAA)) (Some (replicate 19 0xCC)) (Some True)
          initial_state) = (ATCA_SUCCESS, Some False)"
    using t3 [THEN conjunct2, THEN conjunct2, THEN conjunct2, THEN conjunct2]
    by (simp add: eval_simps)
  have c8: "fst (calib_verify_validate default_config header_consts ?F
          (Some device_608) 9 (Some (replicate 64 0xAA)) (Some (replicate 19 0xCC)) (Some True)
          initial_state) = (ATCA_STATUS_OTHER 7, Some False)"
    using t4 by (simp add: eval_simps)
  from c1 c2 c3 c4 c5 c6 c7 c8 show ?thesis by blast
qed

subsection \<open>The history of a run, step by step\<close>


lemma do_atVerify_events:
  "do_atVerify E dt p st = (r, st') \<Longrightarrow> events st' = events st @ [Call_atVerify dt p]"
  using events_do_atVerify [of E dt p st] by simp



lemma do_nonce_load_events:
  "do_nonce_load E d t b n st = (r, st')
   \<Longrightarrow> events st' = events st @ [Call_calib_nonce_load t b n]"
  using events_do_nonce_load [of E d t b n st] by simp

lemma do_nonce_base_events:
  "do_nonce_base E d m z n st = (r, st')
   \<Longrightarrow> events st' = events st @ [Call_calib_nonce_base m z n]"
  using events_do_nonce_base [of E d m z n st] by simp

lemma do_read_bytes_zone_events:
  "do_read_bytes_zone E d z s off n st = (r, st')
   \<Longrightarrow> events st' = events st @ [Call_calib_read_bytes_zone z s off n]"
  using events_do_read_bytes_zone [of E d z s off n st] by simp

lemma do_atcah_nonce_events:
  "do_atcah_nonce E p st = (r, st') \<Longrightarrow> events st' = events st @ [Call_atcah_nonce p]"
  using events_do_atcah_nonce [of E p st] by simp

lemma do_atcah_secureboot_enc_events:
  "do_atcah_secureboot_enc E p st = (r, st')
   \<Longrightarrow> events st' = events st @ [Call_atcah_secureboot_enc p]"
  using events_do_atcah_secureboot_enc [of E p st] by simp

lemma do_atcah_secureboot_mac_events:
  "do_atcah_secureboot_mac E p st = (r, st')
   \<Longrightarrow> events st' = events st @ [Call_atcah_secureboot_mac p]"
  using events_do_atcah_secureboot_mac [of E p st] by simp

lemma do_atcah_verify_mac_events:
  "do_atcah_verify_mac E p st = (r, st')
   \<Longrightarrow> events st' = events st @ [Call_atcah_verify_mac p]"
  using events_do_atcah_verify_mac [of E p st] by simp

lemma calib_secureboot_prefix:
  "calib_secureboot B E device mode p2 digest signature mac st = (r, st')
   \<Longrightarrow> prefix (events st) (events st')"
  using prefix_events_calib_secureboot [of st B E device mode p2 digest signature mac] by simp

lemma calib_verify_prefix:
  "calib_verify B K E device mode key_id signature public_key other_data mac st = (r, st')
   \<Longrightarrow> prefix (events st) (events st')"
  using prefix_events_calib_verify [of st B K E device mode key_id signature public_key
      other_data mac] by simp

lemma new_events_append: "events st' = events st @ es \<Longrightarrow> new_events st st' = es"
  by (simp add: new_events_def)





text \<open>
  A response without a MAC is outside the statement above. There
  \<^verbatim>\<open>calib_secureboot\<close> leaves the local array \<^verbatim>\<open>mac\<close> as it found it (lines
  111-114), and the comparison of line 240 reads the indeterminate content the array had
  at entry: where that content happens to equal the host MAC, the call reports a
  verified boot although the device returned no MAC.
\<close>

lemma secureboot_mac_compares_unwritten_mac:
  "fst (calib_secureboot_mac default_config header_consts
        (stub_collaborators ATCA_SUCCESS (short_response 192)) (Some device_608) 0x05
        (Some (replicate 32 0xDD)) (Some (replicate 64 0xAA)) (Some (replicate 20 0x77))
        (Some (replicate 32 0x88)) (Some False) (replicate 32 0x55) initial_state)
     = (ATCA_SUCCESS, Some True)
   \<and> fst (calib_secureboot_mac default_config header_consts
        (stub_collaborators ATCA_SUCCESS (short_response 192)) (Some device_608) 0x05
        (Some (replicate 32 0xDD)) (Some (replicate 64 0xAA)) (Some (replicate 20 0x77))
        (Some (replicate 32 0x88)) (Some False) (replicate 32 0) initial_state)
     = (ATCA_SUCCESS, Some False)"
  by (simp add: calib_secureboot_mac_def Let_def eval_simps)

subsection \<open>The verification flag\<close>

lemma calib_secureboot_mac_flag:
  assumes n: "is_verified \<noteq> None" "digest \<noteq> None" "num_in \<noteq> None" "io_key \<noteq> None"
  shows "cleared_first st
           (calib_secureboot_mac B K E device mode digest signature num_in io_key is_verified
              mac_uninit st)
         \<and> verified_only_on_success
           (calib_secureboot_mac B K E device mode digest signature num_in io_key is_verified
              mac_uninit st)"
proof -
  obtain s1 rand_out sa where q1: "do_nonce_base E device (NONCE_MODE_SEED_UPDATE K) 0
      (the num_in) (log_event (Store_is_verified False) st) = ((s1, rand_out), sa)"
    by (cases "do_nonce_base E device (NONCE_MODE_SEED_UPDATE K) 0
      (the num_in) (log_event (Store_is_verified False) st)") auto
  obtain s2 tempkey sb where q2: "do_atcah_nonce E
      \<lparr>nonce_mode = NONCE_MODE_SEED_UPDATE K, nonce_zero = 0, nonce_num_in = the num_in,
       nonce_rand_out = rand_out, nonce_temp_key = replicate (sizeof_temp_key B) 0\<rparr> sa
      = ((s2, tempkey), sb)"
    by (cases "do_atcah_nonce E
      \<lparr>nonce_mode = NONCE_MODE_SEED_UPDATE K, nonce_zero = 0, nonce_num_in = the num_in,
       nonce_rand_out = rand_out, nonce_temp_key = replicate (sizeof_temp_key B) 0\<rparr> sa") auto
  obtain s3 key digest_enc sc where q3: "do_atcah_secureboot_enc E
      \<lparr>enc_io_key = the io_key, enc_temp_key = tempkey, enc_digest = the digest\<rparr> sb
      = ((s3, key, digest_enc), sc)"
    by (cases "do_atcah_secureboot_enc E
      \<lparr>enc_io_key = the io_key, enc_temp_key = tempkey, enc_digest = the digest\<rparr> sb") auto
  obtain s4 mac sd where q4: "calib_secureboot B E device
      (mode OR SECUREBOOT_MODE_ENC_MAC_FLAG K) 0 (Some digest_enc) signature (Some mac_uninit) sc
      = ((s4, mac), sd)"
    by (cases "calib_secureboot B E device
      (mode OR SECUREBOOT_MODE_ENC_MAC_FLAG K) 0 (Some digest_enc) signature (Some mac_uninit) sc")
      auto
  obtain s5 buf se where q5: "do_read_bytes_zone E device (ATCA_ZONE_CONFIG K) 0
      (SECUREBOOTCONFIG_OFFSET K) 2 sd = ((s5, buf), se)"
    by (cases "do_read_bytes_zone E device (ATCA_ZONE_CONFIG K) 0
      (SECUREBOOTCONFIG_OFFSET K) 2 sd") auto
  obtain s6 host_mac sf where q6: "do_atcah_secureboot_mac E
      \<lparr>sbmac_mode = mode OR SECUREBOOT_MODE_ENC_MAC_FLAG K, sbmac_param2 = 0,
       sbmac_secure_boot_config = ucast (buf ! 0) OR push_bit 8 (ucast (buf ! 1)),
       sbmac_hashed_key = key, sbmac_digest = the digest, sbmac_signature = signature\<rparr> se
      = ((s6, host_mac), sf)"
    by (cases "do_atcah_secureboot_mac E
      \<lparr>sbmac_mode = mode OR SECUREBOOT_MODE_ENC_MAC_FLAG K, sbmac_param2 = 0,
       sbmac_secure_boot_config = ucast (buf ! 0) OR push_bit 8 (ucast (buf ! 1)),
       sbmac_hashed_key = key, sbmac_digest = the digest, sbmac_signature = signature\<rparr> se")
      auto
  let ?X = "events st @ [Store_is_verified False]"
  have pa: "prefix ?X (events sa)"
    by (simp add: do_nonce_base_events [OF q1] events_log_event)
  have pb: "prefix ?X (events sb)"
    using pa by (simp add: do_atcah_nonce_events [OF q2] prefix_prefix)
  have pc: "prefix ?X (events sc)"
    using pb by (simp add: do_atcah_secureboot_enc_events [OF q3] prefix_prefix)
  have pd: "prefix ?X (events sd)"
    using pc calib_secureboot_prefix [OF q4] by (rule prefix_order.trans)
  have pe: "prefix ?X (events se)"
    using pd by (simp add: do_read_bytes_zone_events [OF q5] prefix_prefix)
  have pf: "prefix ?X (events sf)"
    using pe by (simp add: do_atcah_secureboot_mac_events [OF q6] prefix_prefix)
  show ?thesis
    unfolding calib_secureboot_mac_steps [OF n q1 q2 q3 q4 q5 q6]
      cleared_first_def verified_only_on_success_def
    using pa pb pc pd pe pf
    by (simp add: events_log_event prefix_prefix)
qed

lemma calib_verify_extern_stored_mac_flag:
  assumes n: "is_verified \<noteq> None" "signature \<noteq> None" "message \<noteq> None" "num_in \<noteq> None"
    "io_key \<noteq> None"
    "\<not> (mode AND VERIFY_MODE_MASK K = VERIFY_MODE_EXTERNAL K \<and> public_key = None)"
  shows "cleared_first st
           (calib_verify_extern_stored_mac B K E device mode key_id message signature
              public_key num_in io_key is_verified mac_uninit st)
         \<and> verified_only_on_success
           (calib_verify_extern_stored_mac B K E device mode key_id message signature
              public_key num_in io_key is_verified mac_uninit st)"
proof -
  obtain s1 sa where q1: "do_nonce_load E device (NONCE_MODE_TARGET_MSGDIGBUF K)
      (take 32 (the message) @ take 32 (the num_in)) 64
      (log_event (Store_is_verified False) st) = (s1, sa)"
    by (cases "do_nonce_load E device (NONCE_MODE_TARGET_MSGDIGBUF K)
      (take 32 (the message) @ take 32 (the num_in)) 64
      (log_event (Store_is_verified False) st)") auto
  obtain s2 host_mac sb where q2: "do_atcah_verify_mac E
      \<lparr>vmac_mode = mode OR VERIFY_MODE_SOURCE_MSGDIGBUF K OR VERIFY_MODE_MAC_FLAG K,
       vmac_key_id = key_id, vmac_signature = the signature,
       vmac_msg_dig_buf = take 32 (the message) @ take 32 (the num_in),
       vmac_io_key = the io_key, vmac_temp_key = None, vmac_sn = None\<rparr> sa
      = ((s2, host_mac), sb)"
    by (cases "do_atcah_verify_mac E
      \<lparr>vmac_mode = mode OR VERIFY_MODE_SOURCE_MSGDIGBUF K OR VERIFY_MODE_MAC_FLAG K,
       vmac_key_id = key_id, vmac_signature = the signature,
       vmac_msg_dig_buf = take 32 (the message) @ take 32 (the num_in),
       vmac_io_key = the io_key, vmac_temp_key = None, vmac_sn = None\<rparr> sa") auto
  obtain s3 mac sc where q3: "calib_verify B K E device
      (mode OR VERIFY_MODE_SOURCE_MSGDIGBUF K OR VERIFY_MODE_MAC_FLAG K) key_id
      signature public_key None (Some mac_uninit) sb = ((s3, mac), sc)"
    by (cases "calib_verify B K E device
      (mode OR VERIFY_MODE_SOURCE_MSGDIGBUF K OR VERIFY_MODE_MAC_FLAG K) key_id
      signature public_key None (Some mac_uninit) sb") auto
  let ?X = "events st @ [Store_is_verified False]"
  have pa: "prefix ?X (events sa)"
    by (simp add: do_nonce_load_events [OF q1] events_log_event)
  have pb: "prefix ?X (events sb)"
    using pa by (simp add: do_atcah_verify_mac_events [OF q2] prefix_prefix)
  have pc: "prefix ?X (events sc)"
    using pb calib_verify_prefix [OF q3] by (rule prefix_order.trans)
  show ?thesis
    unfolding calib_verify_extern_stored_mac_steps [OF n q1 q2 q3]
      cleared_first_def verified_only_on_success_def
    using pa pb pc
    by (simp add: events_log_event prefix_prefix)
qed

lemma verify_result_flag: "verified_only_on_success (verify_result s st)"
  by (simp add: verified_only_on_success_def verify_result_eq events_log_event)

lemma verify_result_cleared:
  "prefix (events st0 @ [Store_is_verified False]) (events st)
   \<Longrightarrow> cleared_first st0 (verify_result s st)"
  by (simp add: cleared_first_def prefix_events_after_verify_result)

lemma calib_verify_extern_flag:
  assumes n: "device \<noteq> None" "is_verified \<noteq> None" "signature \<noteq> None" "message \<noteq> None"
    "public_key \<noteq> None"
  shows "cleared_first st (calib_verify_extern B K E device message signature public_key is_verified st)
         \<and> verified_only_on_success (calib_verify_extern B K E device message signature public_key is_verified st)"
proof -
  obtain s1 sa where q: "do_nonce_load E device
      (if ATECC608 = devtype (the device) then NONCE_MODE_TARGET_MSGDIGBUF K
       else NONCE_MODE_TARGET_TEMPKEY K)
      (the message) 32 (snd (store_is_verified False st)) = (s1, sa)"
    by (cases "do_nonce_load E device
      (if ATECC608 = devtype (the device) then NONCE_MODE_TARGET_MSGDIGBUF K
       else NONCE_MODE_TARGET_TEMPKEY K)
      (the message) 32 (snd (store_is_verified False st))") auto
  have pa: "prefix (events st @ [Store_is_verified False]) (events sa)"
    by (simp add: do_nonce_load_events [OF q] events_simps)
  show ?thesis
  proof (cases "s1 = ATCA_SUCCESS")
    case False
    then show ?thesis
      using pa
      by (simp add: calib_verify_extern_accepted [OF n] q cleared_first_def
            verified_only_on_success_def)
  next
    case True
    then show ?thesis
      using pa
      by (simp add: calib_verify_extern_accepted [OF n] q verify_result_flag verify_result_cleared
            prefix_events_after_calib_verify)
  qed
qed

lemma calib_verify_stored_flag:
  assumes n: "device \<noteq> None" "is_verified \<noteq> None" "signature \<noteq> None" "message \<noteq> None"
  shows "cleared_first st (calib_verify_stored B K E device message signature key_id is_verified st)
         \<and> verified_only_on_success (calib_verify_stored B K E device message signature key_id is_verified st)"
proof -
  obtain s1 sa where q: "do_nonce_load E device
      (if ATECC608 = devtype (the device) then NONCE_MODE_TARGET_MSGDIGBUF K
       else NONCE_MODE_TARGET_TEMPKEY K)
      (the message) 32 (snd (store_is_verified False st)) = (s1, sa)"
    by (cases "do_nonce_load E device
      (if ATECC608 = devtype (the device) then NONCE_MODE_TARGET_MSGDIGBUF K
       else NONCE_MODE_TARGET_TEMPKEY K)
      (the message) 32 (snd (store_is_verified False st))") auto
  have pa: "prefix (events st @ [Store_is_verified False]) (events sa)"
    by (simp add: do_nonce_load_events [OF q] events_simps)
  show ?thesis
  proof (cases "s1 = ATCA_SUCCESS")
    case False
    then show ?thesis
      using pa
      by (simp add: calib_verify_stored_accepted [OF n] q cleared_first_def
            verified_only_on_success_def)
  next
    case True
    then show ?thesis
      using pa
      by (simp add: calib_verify_stored_accepted [OF n] q verify_result_flag verify_result_cleared
            prefix_events_after_calib_verify)
  qed
qed

lemma calib_verify_stored_with_tempkey_flag:
  assumes n: "device \<noteq> None" "is_verified \<noteq> None" "signature \<noteq> None"
  shows "cleared_first st
           (calib_verify_stored_with_tempkey B K E device signature key_id is_verified st)
         \<and> verified_only_on_success
           (calib_verify_stored_with_tempkey B K E device signature key_id is_verified st)"
  by (simp add: calib_verify_stored_with_tempkey_accepted [OF n] verify_result_flag
        verify_result_cleared prefix_events_after_calib_verify events_simps)

lemma stores_append: "stores (xs @ ys) = stores xs @ stores ys"
  by (induction xs rule: stores.induct) simp_all

lemma stores_calib_verify:
  assumes "calib_verify B K E device mode key_id signature public_key other_data mac st
           = (r, st')"
  shows "stores (events st') = stores (events st)"
proof -
  have "stores (events (snd (calib_verify B K E device mode key_id signature public_key
                               other_data mac st))) = stores (events st)"
  proof (cases "verify_args_ok K device mode signature public_key other_data")
    case False
    then show ?thesis by (simp add: calib_verify_rejected events_simps stores_append)
  next
    case True
    then show ?thesis
      by (simp add: calib_verify_accepted split_def events_simps stores_append)
  qed
  then show ?thesis by (simp add: assms)
qed

lemma stores_calib_secureboot:
  assumes "calib_secureboot B E device mode p2 digest signature mac st = (r, st')"
  shows "stores (events st') = stores (events st)"
proof -
  have "stores (events (snd (calib_secureboot B E device mode p2 digest signature mac st)))
        = stores (events st)"
  proof (cases "device = None \<or> digest = None")
    case True
    then show ?thesis by (simp add: calib_secureboot_rejected events_simps stores_append)
  next
    case False
    then show ?thesis
      by (simp add: calib_secureboot_accepted split_def events_simps stores_append)
  qed
  then show ?thesis by (simp add: assms)
qed

text \<open>
  A step that appends \<open>es\<close> to the history, and a command that stores nothing, seen from
  the state \<open>st\<close> at entry.
\<close>

lemma stores_step:
  assumes "prefix (events st) (events sx)" "events sy = events sx @ es"
  shows "prefix (events st) (events sy)
         \<and> stores (new_events st sy) = stores (new_events st sx) @ stores es"
  using assms by (auto simp: prefix_def new_events_def stores_append)

lemma stores_command:
  assumes "prefix (events st) (events sx)" "prefix (events sx) (events sy)"
    "stores (events sy) = stores (events sx)"
  shows "prefix (events st) (events sy)
         \<and> stores (new_events st sy) = stores (new_events st sx)"
  using assms by (auto simp: prefix_def new_events_def stores_append)

lemma stores_log_event:
  assumes "prefix (events st) (events sx)"
  shows "stores (new_events st (log_event (Store_is_verified b) sx))
         = stores (new_events st sx) @ [b]"
  using stores_step [OF assms events_log_event, THEN conjunct2] by simp

lemma stores_cleared:
  "prefix (events st) (events (log_event (Store_is_verified False) st))
   \<and> stores (new_events st (log_event (Store_is_verified False) st)) = [False]"
  by (simp add: events_log_event new_events_def)

lemma calib_secureboot_mac_history:
  assumes "is_verified \<noteq> None" "digest \<noteq> None" "num_in \<noteq> None" "io_key \<noteq> None"
    and "do_nonce_base E device (NONCE_MODE_SEED_UPDATE K) 0 (the num_in)
         (log_event (Store_is_verified False) st) = ((s1, rand_out), sa)"
    and "do_atcah_nonce E
           \<lparr>nonce_mode = NONCE_MODE_SEED_UPDATE K, nonce_zero = 0, nonce_num_in = the num_in,
            nonce_rand_out = rand_out, nonce_temp_key = replicate (sizeof_temp_key B) 0\<rparr> sa
         = ((s2, tempkey), sb)"
    and "do_atcah_secureboot_enc E
           \<lparr>enc_io_key = the io_key, enc_temp_key = tempkey, enc_digest = the digest\<rparr> sb
         = ((s3, key, digest_enc), sc)"
    and "calib_secureboot B E device (mode OR SECUREBOOT_MODE_ENC_MAC_FLAG K) 0
         (Some digest_enc) signature (Some mac_uninit) sc = ((s4, mac), sd)"
    and "do_read_bytes_zone E device (ATCA_ZONE_CONFIG K) 0 (SECUREBOOTCONFIG_OFFSET K) 2 sd
         = ((s5, buf), se)"
    and "do_atcah_secureboot_mac E
           \<lparr>sbmac_mode = mode OR SECUREBOOT_MODE_ENC_MAC_FLAG K, sbmac_param2 = 0,
            sbmac_secure_boot_config = ucast (buf ! 0) OR push_bit 8 (ucast (buf ! 1)),
            sbmac_hashed_key = key, sbmac_digest = the digest, sbmac_signature = signature\<rparr> se
         = ((s6, host_mac), sf)"
  shows "(let r = calib_secureboot_mac B K E device mode digest signature num_in io_key
                    is_verified mac_uninit st
          in r = (if ATCA_SUCCESS \<noteq> s1 then ((s1, Some False), sa)
                 else if ATCA_SUCCESS \<noteq> s2 then ((s2, Some False), sb)
                 else if ATCA_SUCCESS \<noteq> s3 then ((s3, Some False), sc)
                 else if ATCA_SUCCESS \<noteq> s4
                 then (if ATCA_CHECKMAC_VERIFY_FAILED = s4
                       then ((ATCA_SUCCESS, Some False), log_event (Store_is_verified False) sd)
                       else ((s4, Some False), sd))
                 else if ATCA_SUCCESS \<noteq> s5 then ((s5, Some False), se)
                 else if ATCA_SUCCESS \<noteq> s6 then ((s6, Some False), sf)
                 else ((ATCA_SUCCESS, Some (memcmp_eq host_mac (the mac) SECUREBOOT_MAC_SIZE)),
                       log_event
                         (Store_is_verified (memcmp_eq host_mac (the mac) SECUREBOOT_MAC_SIZE))
                         sf))
             \<and> stores (new_events st (snd r)) =
                   (if s1 = ATCA_SUCCESS \<and> s2 = ATCA_SUCCESS \<and> s3 = ATCA_SUCCESS
                      \<and> s4 = ATCA_SUCCESS \<and> s5 = ATCA_SUCCESS \<and> s6 = ATCA_SUCCESS
                   then [False, memcmp_eq host_mac (the mac) SECUREBOOT_MAC_SIZE]
                   else if s1 = ATCA_SUCCESS \<and> s2 = ATCA_SUCCESS \<and> s3 = ATCA_SUCCESS
                      \<and> s4 = ATCA_CHECKMAC_VERIFY_FAILED
                   then [False, False]
                   else [False])
             \<and> cleared_first st r
             \<and> verified_only_on_success r)"
proof -
  note n = assms(1-4)
  note q = assms(5-10)
  note h0 = stores_cleared [of st]
  have ha: "prefix (events st) (events sa) \<and> stores (new_events st sa) = [False]"
    using stores_step [OF h0 [THEN conjunct1] do_nonce_base_events [OF q(1)]] h0 by simp
  have hb: "prefix (events st) (events sb) \<and> stores (new_events st sb) = [False]"
    using stores_step [OF ha [THEN conjunct1] do_atcah_nonce_events [OF q(2)]] ha by simp
  have hc: "prefix (events st) (events sc) \<and> stores (new_events st sc) = [False]"
    using stores_step [OF hb [THEN conjunct1] do_atcah_secureboot_enc_events [OF q(3)]] hb
    by simp
  have hd: "prefix (events st) (events sd) \<and> stores (new_events st sd) = [False]"
    using stores_command [OF hc [THEN conjunct1] calib_secureboot_prefix [OF q(4)]
        stores_calib_secureboot [OF q(4)]] hc by simp
  have he: "prefix (events st) (events se) \<and> stores (new_events st se) = [False]"
    using stores_step [OF hd [THEN conjunct1] do_read_bytes_zone_events [OF q(5)]] hd by simp
  have hf: "prefix (events st) (events sf) \<and> stores (new_events st sf) = [False]"
    using stores_step [OF he [THEN conjunct1] do_atcah_secureboot_mac_events [OF q(6)]] he
    by simp
  note r = calib_secureboot_mac_steps [OF assms]
  have c: "stores (new_events st (snd (calib_secureboot_mac B K E device mode digest signature num_in io_key
                    is_verified mac_uninit st))) = (if s1 = ATCA_SUCCESS \<and> s2 = ATCA_SUCCESS \<and> s3 = ATCA_SUCCESS
                  \<and> s4 = ATCA_SUCCESS \<and> s5 = ATCA_SUCCESS \<and> s6 = ATCA_SUCCESS
               then [False, memcmp_eq host_mac (the mac) SECUREBOOT_MAC_SIZE]
               else if s1 = ATCA_SUCCESS \<and> s2 = ATCA_SUCCESS \<and> s3 = ATCA_SUCCESS
                  \<and> s4 = ATCA_CHECKMAC_VERIFY_FAILED
               then [False, False]
               else [False])"
    unfolding r using ha hb hc hd he hf by (auto simp: stores_log_event)
  note f = calib_secureboot_mac_flag [OF n, of st B K E device mode signature mac_uninit]
  show ?thesis
    unfolding Let_def by (intro conjI r c f [THEN conjunct1] f [THEN conjunct2])
qed

lemma calib_verify_extern_stored_mac_history:
  assumes "is_verified \<noteq> None" "signature \<noteq> None" "message \<noteq> None" "num_in \<noteq> None" "io_key \<noteq> None"
    and "\<not> (mode AND VERIFY_MODE_MASK K = VERIFY_MODE_EXTERNAL K \<and> public_key = None)"
    and "do_nonce_load E device (NONCE_MODE_TARGET_MSGDIGBUF K)
         (take 32 (the message) @ take 32 (the num_in)) 64
         (log_event (Store_is_verified False) st) = (s1, sa)"
    and "do_atcah_verify_mac E
           \<lparr>vmac_mode = mode OR VERIFY_MODE_SOURCE_MSGDIGBUF K OR VERIFY_MODE_MAC_FLAG K,
            vmac_key_id = key_id, vmac_signature = the signature,
            vmac_msg_dig_buf = take 32 (the message) @ take 32 (the num_in),
            vmac_io_key = the io_key, vmac_temp_key = None, vmac_sn = None\<rparr> sa
         = ((s2, host_mac), sb)"
    and "calib_verify B K E device
         (mode OR VERIFY_MODE_SOURCE_MSGDIGBUF K OR VERIFY_MODE_MAC_FLAG K) key_id
         signature public_key None (Some mac_uninit) sb = ((s3, mac), sc)"
  shows "(let r = calib_verify_extern_stored_mac B K E device mode key_id message signature
                    public_key num_in io_key is_verified mac_uninit st
          in r = (if s1 \<noteq> ATCA_SUCCESS then ((s1, Some False), sa)
                 else if ATCA_SUCCESS \<noteq> s2 then ((s2, Some False), sb)
                 else if ATCA_SUCCESS \<noteq> s3
                 then (if s3 = ATCA_CHECKMAC_VERIFY_FAILED then ((ATCA_SUCCESS, Some False), sc)
                       else ((s3, Some False), sc))
                 else ((ATCA_SUCCESS, Some (memcmp_eq host_mac (the mac) MAC_SIZE)),
                       log_event (Store_is_verified (memcmp_eq host_mac (the mac) MAC_SIZE)) sc))
             \<and> stores (new_events st (snd r)) =
                   (if s1 = ATCA_SUCCESS \<and> s2 = ATCA_SUCCESS \<and> s3 = ATCA_SUCCESS
                   then [False, memcmp_eq host_mac (the mac) MAC_SIZE]
                   else [False])
             \<and> cleared_first st r
             \<and> verified_only_on_success r)"
proof -
  note n = assms(1-6)
  note q = assms(7-9)
  note h0 = stores_cleared [of st]
  have ha: "prefix (events st) (events sa) \<and> stores (new_events st sa) = [False]"
    using stores_step [OF h0 [THEN conjunct1] do_nonce_load_events [OF q(1)]] h0 by simp
  have hb: "prefix (events st) (events sb) \<and> stores (new_events st sb) = [False]"
    using stores_step [OF ha [THEN conjunct1] do_atcah_verify_mac_events [OF q(2)]] ha by simp
  have hc: "prefix (events st) (events sc) \<and> stores (new_events st sc) = [False]"
    using stores_command [OF hb [THEN conjunct1] calib_verify_prefix [OF q(3)]
        stores_calib_verify [OF q(3)]] hb by simp
  note r = calib_verify_extern_stored_mac_steps [OF assms]
  have c: "stores (new_events st (snd (calib_verify_extern_stored_mac B K E device mode key_id message signature
                    public_key num_in io_key is_verified mac_uninit st))) = (if s1 = ATCA_SUCCESS \<and> s2 = ATCA_SUCCESS \<and> s3 = ATCA_SUCCESS
               then [False, memcmp_eq host_mac (the mac) MAC_SIZE]
               else [False])"
    unfolding r using ha hb hc by (auto simp: stores_log_event)
  note f = calib_verify_extern_stored_mac_flag [OF n, of st B E device key_id mac_uninit]
  show ?thesis
    unfolding Let_def by (intro conjI r c f [THEN conjunct1] f [THEN conjunct2])
qed

lemma calib_verify_extern_history:
  assumes "device \<noteq> None" "is_verified \<noteq> None" "signature \<noteq> None" "message \<noteq> None" "public_key \<noteq> None"
    and "do_nonce_load E device
         (if ATECC608 = devtype (the device) then NONCE_MODE_TARGET_MSGDIGBUF K
          else NONCE_MODE_TARGET_TEMPKEY K)
         (the message) 32 (log_event (Store_is_verified False) st) = (s1, sa)"
    and "calib_verify B K E device
         (VERIFY_MODE_EXTERNAL K OR
            (if ATECC608 = devtype (the device) then VERIFY_MODE_SOURCE_MSGDIGBUF K
             else VERIFY_MODE_SOURCE_TEMPKEY K))
         (VERIFY_KEY_P256 K) signature public_key None None sa = ((s2, m), sb)"
  shows "(let r = calib_verify_extern B K E device message signature public_key is_verified st
          in r = (if s1 \<noteq> ATCA_SUCCESS then ((s1, Some False), sa)
                 else ((if s2 = ATCA_CHECKMAC_VERIFY_FAILED then ATCA_SUCCESS else s2,
                     Some (s2 = ATCA_SUCCESS)),
                    log_event (Store_is_verified (s2 = ATCA_SUCCESS)) sb))
             \<and> stores (new_events st (snd r)) =
                   (if s1 = ATCA_SUCCESS then [False, s2 = ATCA_SUCCESS] else [False])
             \<and> cleared_first st r
             \<and> verified_only_on_success r)"
proof -
  note n = assms(1-5)
  note q = assms(6-7)
  note h0 = stores_cleared [of st]
  have ha: "prefix (events st) (events sa) \<and> stores (new_events st sa) = [False]"
    using stores_step [OF h0 [THEN conjunct1] do_nonce_load_events [OF q(1)]] h0 by simp
  have hb: "prefix (events st) (events sb) \<and> stores (new_events st sb) = [False]"
    using stores_command [OF ha [THEN conjunct1] calib_verify_prefix [OF q(2)]
        stores_calib_verify [OF q(2)]] ha by simp
  have r: "calib_verify_extern B K E device message signature public_key is_verified st = (if s1 \<noteq> ATCA_SUCCESS then ((s1, Some False), sa)
              else ((if s2 = ATCA_CHECKMAC_VERIFY_FAILED then ATCA_SUCCESS else s2,
                  Some (s2 = ATCA_SUCCESS)),
                 log_event (Store_is_verified (s2 = ATCA_SUCCESS)) sb))"
    by (simp add: calib_verify_extern_accepted [OF n] store_is_verified_def q verify_result_eq)
  have c: "stores (new_events st (snd (calib_verify_extern B K E device message signature public_key is_verified st))) = (if s1 = ATCA_SUCCESS then [False, s2 = ATCA_SUCCESS] else [False])"
    unfolding r using ha hb by (auto simp: stores_log_event)
  note f = calib_verify_extern_flag [OF n, of st B K E]
  show ?thesis
    unfolding Let_def by (intro conjI r c f [THEN conjunct1] f [THEN conjunct2])
qed

lemma calib_verify_stored_history:
  assumes "device \<noteq> None" "is_verified \<noteq> None" "signature \<noteq> None" "message \<noteq> None"
    and "do_nonce_load E device
         (if ATECC608 = devtype (the device) then NONCE_MODE_TARGET_MSGDIGBUF K
          else NONCE_MODE_TARGET_TEMPKEY K)
         (the message) 32 (log_event (Store_is_verified False) st) = (s1, sa)"
    and "calib_verify B K E device
         (VERIFY_MODE_STORED K OR
            (if ATECC608 = devtype (the device) then VERIFY_MODE_SOURCE_MSGDIGBUF K
             else VERIFY_MODE_SOURCE_TEMPKEY K))
         key_id signature None None None sa = ((s2, m), sb)"
  shows "(let r = calib_verify_stored B K E device message signature key_id is_verified st
          in r = (if s1 \<noteq> ATCA_SUCCESS then ((s1, Some False), sa)
                 else ((if s2 = ATCA_CHECKMAC_VERIFY_FAILED then ATCA_SUCCESS else s2,
                     Some (s2 = ATCA_SUCCESS)),
                    log_event (Store_is_verified (s2 = ATCA_SUCCESS)) sb))
             \<and> stores (new_events st (snd r)) =
                   (if s1 = ATCA_SUCCESS then [False, s2 = ATCA_SUCCESS] else [False])
             \<and> cleared_first st r
             \<and> verified_only_on_success r)"
proof -
  note n = assms(1-4)
  note q = assms(5-6)
  note h0 = stores_cleared [of st]
  have ha: "prefix (events st) (events sa) \<and> stores (new_events st sa) = [False]"
    using stores_step [OF h0 [THEN conjunct1] do_nonce_load_events [OF q(1)]] h0 by simp
  have hb: "prefix (events st) (events sb) \<and> stores (new_events st sb) = [False]"
    using stores_command [OF ha [THEN conjunct1] calib_verify_prefix [OF q(2)]
        stores_calib_verify [OF q(2)]] ha by simp
  have r: "calib_verify_stored B K E device message signature key_id is_verified st = (if s1 \<noteq> ATCA_SUCCESS then ((s1, Some False), sa)
              else ((if s2 = ATCA_CHECKMAC_VERIFY_FAILED then ATCA_SUCCESS else s2,
                  Some (s2 = ATCA_SUCCESS)),
                 log_event (Store_is_verified (s2 = ATCA_SUCCESS)) sb))"
    by (simp add: calib_verify_stored_accepted [OF n] store_is_verified_def q verify_result_eq)
  have c: "stores (new_events st (snd (calib_verify_stored B K E device message signature key_id is_verified st))) = (if s1 = ATCA_SUCCESS then [False, s2 = ATCA_SUCCESS] else [False])"
    unfolding r using ha hb by (auto simp: stores_log_event)
  note f = calib_verify_stored_flag [OF n, of st B K E key_id]
  show ?thesis
    unfolding Let_def by (intro conjI r c f [THEN conjunct1] f [THEN conjunct2])
qed

lemma calib_verify_stored_with_tempkey_history:
  assumes "device \<noteq> None" "is_verified \<noteq> None" "signature \<noteq> None"
    and "calib_verify B K E device
         (VERIFY_MODE_STORED K OR VERIFY_MODE_SOURCE_TEMPKEY K) key_id signature
         None None None (log_event (Store_is_verified False) st) = ((s2, m), sb)"
  shows "(let r = calib_verify_stored_with_tempkey B K E device signature key_id is_verified st
          in r = ((if s2 = ATCA_CHECKMAC_VERIFY_FAILED then ATCA_SUCCESS else s2,
                  Some (s2 = ATCA_SUCCESS)),
                 log_event (Store_is_verified (s2 = ATCA_SUCCESS)) sb)
             \<and> stores (new_events st (snd r)) =
                   [False, s2 = ATCA_SUCCESS]
             \<and> cleared_first st r
             \<and> verified_only_on_success r)"
proof -
  note n = assms(1-3)
  note q = assms(4)
  note h0 = stores_cleared [of st]
  have hb: "prefix (events st) (events sb) \<and> stores (new_events st sb) = [False]"
    using stores_command [OF h0 [THEN conjunct1] calib_verify_prefix [OF q]
        stores_calib_verify [OF q]] h0 by simp
  have r: "calib_verify_stored_with_tempkey B K E device signature key_id is_verified st = ((if s2 = ATCA_CHECKMAC_VERIFY_FAILED then ATCA_SUCCESS else s2,
                  Some (s2 = ATCA_SUCCESS)),
                 log_event (Store_is_verified (s2 = ATCA_SUCCESS)) sb)"
    by (simp add: calib_verify_stored_with_tempkey_accepted [OF n] store_is_verified_def q
          verify_result_eq)
  have c: "stores (new_events st (snd (calib_verify_stored_with_tempkey B K E device signature key_id is_verified st))) = [False, s2 = ATCA_SUCCESS]"
    unfolding r using hb by (auto simp: stores_log_event)
  note f = calib_verify_stored_with_tempkey_flag [OF n, of st B K E key_id]
  show ?thesis
    unfolding Let_def by (intro conjI r c f [THEN conjunct1] f [THEN conjunct2])
qed

lemma calib_verify_validate_history:
  assumes "device \<noteq> None" "signature \<noteq> None" "other_data \<noteq> None" "is_verified \<noteq> None"
    and "calib_verify B K E device (VERIFY_MODE_VALIDATE K) key_id signature None
         other_data None st = ((s2, m), sb)"
  shows "(let r = calib_verify_validate B K E device key_id signature other_data is_verified st
          in r = ((if s2 = ATCA_CHECKMAC_VERIFY_FAILED then ATCA_SUCCESS else s2,
                  Some (s2 = ATCA_SUCCESS)),
                 log_event (Store_is_verified (s2 = ATCA_SUCCESS)) sb)
             \<and> stores (new_events st (snd r)) =
                   [s2 = ATCA_SUCCESS]
             \<and> verified_only_on_success r)"
proof -
  note n = assms(1-4)
  note q = assms(5)
  have hb: "prefix (events st) (events sb) \<and> stores (new_events st sb) = []"
    using stores_command [OF prefix_order.refl calib_verify_prefix [OF q]
        stores_calib_verify [OF q]] by (simp add: new_events_def)
  have r: "calib_verify_validate B K E device key_id signature other_data is_verified st = ((if s2 = ATCA_CHECKMAC_VERIFY_FAILED then ATCA_SUCCESS else s2,
                  Some (s2 = ATCA_SUCCESS)),
                 log_event (Store_is_verified (s2 = ATCA_SUCCESS)) sb)"
    by (simp add: calib_verify_validate_accepted [OF n] q verify_result_eq)
  have c: "stores (new_events st (snd (calib_verify_validate B K E device key_id signature other_data is_verified st))) = [s2 = ATCA_SUCCESS]"
    unfolding r using hb by (auto simp: stores_log_event)
  have f: "verified_only_on_success (calib_verify_validate B K E device key_id signature other_data is_verified st)"
    by (simp add: calib_verify_validate_accepted [OF n] verify_result_flag)
  show ?thesis
    unfolding Let_def by (intro conjI r c f)
qed

lemma calib_verify_invalidate_history:
  assumes "device \<noteq> None" "signature \<noteq> None" "other_data \<noteq> None" "is_verified \<noteq> None"
    and "calib_verify B K E device (VERIFY_MODE_INVALIDATE K) key_id signature None
         other_data None st = ((s2, m), sb)"
  shows "(let r = calib_verify_invalidate B K E device key_id signature other_data is_verified st
          in r = ((if s2 = ATCA_CHECKMAC_VERIFY_FAILED then ATCA_SUCCESS else s2,
                  Some (s2 = ATCA_SUCCESS)),
                 log_event (Store_is_verified (s2 = ATCA_SUCCESS)) sb)
             \<and> stores (new_events st (snd r)) =
                   [s2 = ATCA_SUCCESS]
             \<and> verified_only_on_success r)"
proof -
  note n = assms(1-4)
  note q = assms(5)
  have hb: "prefix (events st) (events sb) \<and> stores (new_events st sb) = []"
    using stores_command [OF prefix_order.refl calib_verify_prefix [OF q]
        stores_calib_verify [OF q]] by (simp add: new_events_def)
  have r: "calib_verify_invalidate B K E device key_id signature other_data is_verified st = ((if s2 = ATCA_CHECKMAC_VERIFY_FAILED then ATCA_SUCCESS else s2,
                  Some (s2 = ATCA_SUCCESS)),
                 log_event (Store_is_verified (s2 = ATCA_SUCCESS)) sb)"
    by (simp add: calib_verify_invalidate_accepted [OF n] q verify_result_eq)
  have c: "stores (new_events st (snd (calib_verify_invalidate B K E device key_id signature other_data is_verified st))) = [s2 = ATCA_SUCCESS]"
    unfolding r using hb by (auto simp: stores_log_event)
  have f: "verified_only_on_success (calib_verify_invalidate B K E device key_id signature other_data is_verified st)"
    by (simp add: calib_verify_invalidate_accepted [OF n] verify_result_flag)
  show ?thesis
    unfolding Let_def by (intro conjI r c f)
qed

text \<open>
  C10. The claim: every verifying entry point that passes its null-pointer check assigns
  false to \<^verbatim>\<open>*is_verified\<close> before any fallible step. \<^verbatim>\<open>calib_verify_validate\<close>
  and \<^verbatim>\<open>calib_verify_invalidate\<close> have no such assignment: in a run where the
  command succeeds, the first thing they do is allocate the packet (inside
  \<^verbatim>\<open>calib_verify\<close>), and the only value ever stored through
  \<^verbatim>\<open>is_verified\<close> is true.
\<close>

theorem flag_counterexample:
  "stores (events (snd (calib_verify_validate default_config header_consts
      (stub_collaborators ATCA_SUCCESS (short_response 192)) (Some device_608) 9
      (Some (replicate 64 0xAA)) (Some (replicate 19 0xCC)) (Some False) initial_state)))
     = [True]
   \<and> hd (events (snd (calib_verify_validate default_config header_consts
      (stub_collaborators ATCA_SUCCESS (short_response 192)) (Some device_608) 9
      (Some (replicate 64 0xAA)) (Some (replicate 19 0xCC)) (Some False) initial_state)))
     = Call_calib_packet_alloc
   \<and> stores (events (snd (calib_verify_invalidate default_config header_consts
      (stub_collaborators ATCA_SUCCESS (short_response 192)) (Some device_608) 9
      (Some (replicate 64 0xAA)) (Some (replicate 19 0xCC)) (Some False) initial_state)))
     = [True]
   \<and> hd (events (snd (calib_verify_invalidate default_config header_consts
      (stub_collaborators ATCA_SUCCESS (short_response 192)) (Some device_608) 9
      (Some (replicate 64 0xAA)) (Some (replicate 19 0xCC)) (Some False) initial_state)))
     = Call_calib_packet_alloc"
  by (simp add: calib_verify_validate_accepted calib_verify_invalidate_accepted eval_simps)

text \<open>
  C10, as amended. Each entry point is taken past its null-pointer check, with the
  result of every step it can run named: \<open>s1\<close>, \<open>s2\<close>, ... are the statuses of the steps
  in the order of the code, and a step is run only when the steps before it returned
  \<^verbatim>\<open>ATCA_SUCCESS\<close>. The result \<open>r\<close> is the returned status, the content of
  \<^verbatim>\<open>*is_verified\<close> and the final state; \<open>stores\<close> lists the values assigned to
  \<^verbatim>\<open>*is_verified\<close> during the run, in order.

  \<^verbatim>\<open>calib_secureboot_mac\<close>, \<^verbatim>\<open>calib_verify_extern_stored_mac\<close>,
  \<^verbatim>\<open>calib_verify_extern\<close>, \<^verbatim>\<open>calib_verify_stored\<close> and
  \<^verbatim>\<open>calib_verify_stored_with_tempkey\<close> assign false to \<^verbatim>\<open>*is_verified\<close> before
  anything else. \<^verbatim>\<open>calib_verify_validate\<close> and \<^verbatim>\<open>calib_verify_invalidate\<close> assign
  \<^verbatim>\<open>*is_verified\<close> once, to \<^verbatim>\<open>(status == ATCA_SUCCESS)\<close>, after \<^verbatim>\<open>calib_verify\<close>
  has returned. In all seven the only assignment that can store true is the last one of the
  run. In \<^verbatim>\<open>calib_secureboot_mac\<close> and \<^verbatim>\<open>calib_verify_extern_stored_mac\<close> it is
  the final comparison of the MACs (\<^verbatim>\<open>memcmp\<close>), reached only when every step
  before it returned \<^verbatim>\<open>ATCA_SUCCESS\<close>. In the other five it is
  \<^verbatim>\<open>*is_verified = (status == ATCA_SUCCESS)\<close> on the status of \<^verbatim>\<open>calib_verify\<close>,
  reached only when the load of the message, where there is one, returned
  \<^verbatim>\<open>ATCA_SUCCESS\<close>. A step that fails before the last assignment returns its status
  with \<^verbatim>\<open>*is_verified\<close> false. Consequently a returned status other than
  \<^verbatim>\<open>ATCA_SUCCESS\<close> comes with \<^verbatim>\<open>*is_verified\<close> false, and \<^verbatim>\<open>*is_verified\<close>
  true comes with the status \<^verbatim>\<open>ATCA_SUCCESS\<close>.
\<close>

theorem flag_false_unless_success:
  "(is_verified \<noteq> None \<and> digest \<noteq> None \<and> num_in \<noteq> None \<and> io_key \<noteq> None
      \<and> do_nonce_base E device (NONCE_MODE_SEED_UPDATE K) 0 (the num_in)
         (log_event (Store_is_verified False) st) = ((s1, rand_out), sa)
      \<and> do_atcah_nonce E
           \<lparr>nonce_mode = NONCE_MODE_SEED_UPDATE K, nonce_zero = 0, nonce_num_in = the num_in,
            nonce_rand_out = rand_out, nonce_temp_key = replicate (sizeof_temp_key B) 0\<rparr> sa
         = ((s2, tempkey), sb)
      \<and> do_atcah_secureboot_enc E
           \<lparr>enc_io_key = the io_key, enc_temp_key = tempkey, enc_digest = the digest\<rparr> sb
         = ((s3, key, digest_enc), sc)
      \<and> calib_secureboot B E device (mode OR SECUREBOOT_MODE_ENC_MAC_FLAG K) 0
         (Some digest_enc) signature (Some mac_uninit) sc = ((s4, mac), sd)
      \<and> do_read_bytes_zone E device (ATCA_ZONE_CONFIG K) 0 (SECUREBOOTCONFIG_OFFSET K) 2 sd
         = ((s5, buf), se)
      \<and> do_atcah_secureboot_mac E
           \<lparr>sbmac_mode = mode OR SECUREBOOT_MODE_ENC_MAC_FLAG K, sbmac_param2 = 0,
            sbmac_secure_boot_config = ucast (buf ! 0) OR push_bit 8 (ucast (buf ! 1)),
            sbmac_hashed_key = key, sbmac_digest = the digest, sbmac_signature = signature\<rparr> se
         = ((s6, host_mac), sf)
     \<longrightarrow> (let r = calib_secureboot_mac B K E device mode digest signature num_in io_key
                   is_verified mac_uninit st
         in r = (if ATCA_SUCCESS \<noteq> s1 then ((s1, Some False), sa)
                else if ATCA_SUCCESS \<noteq> s2 then ((s2, Some False), sb)
                else if ATCA_SUCCESS \<noteq> s3 then ((s3, Some False), sc)
                else if ATCA_SUCCESS \<noteq> s4
                then (if ATCA_CHECKMAC_VERIFY_FAILED = s4
                      then ((ATCA_SUCCESS, Some False), log_event (Store_is_verified False) sd)
                      else ((s4, Some False), sd))
                else if ATCA_SUCCESS \<noteq> s5 then ((s5, Some False), se)
                else if ATCA_SUCCESS \<noteq> s6 then ((s6, Some False), sf)
                else ((ATCA_SUCCESS, Some (memcmp_eq host_mac (the mac) SECUREBOOT_MAC_SIZE)),
                      log_event
                        (Store_is_verified (memcmp_eq host_mac (the mac) SECUREBOOT_MAC_SIZE))
                        sf))
            \<and> stores (new_events st (snd r)) =
                  (if s1 = ATCA_SUCCESS \<and> s2 = ATCA_SUCCESS \<and> s3 = ATCA_SUCCESS
                     \<and> s4 = ATCA_SUCCESS \<and> s5 = ATCA_SUCCESS \<and> s6 = ATCA_SUCCESS
                  then [False, memcmp_eq host_mac (the mac) SECUREBOOT_MAC_SIZE]
                  else if s1 = ATCA_SUCCESS \<and> s2 = ATCA_SUCCESS \<and> s3 = ATCA_SUCCESS
                     \<and> s4 = ATCA_CHECKMAC_VERIFY_FAILED
                  then [False, False]
                  else [False])
            \<and> cleared_first st r
            \<and> verified_only_on_success r))
   \<and> (is_verified \<noteq> None \<and> signature \<noteq> None \<and> message \<noteq> None \<and> num_in \<noteq> None \<and> io_key \<noteq> None
      \<and> \<not> (mode AND VERIFY_MODE_MASK K = VERIFY_MODE_EXTERNAL K \<and> public_key = None)
      \<and> do_nonce_load E device (NONCE_MODE_TARGET_MSGDIGBUF K)
         (take 32 (the message) @ take 32 (the num_in)) 64
         (log_event (Store_is_verified False) st) = (s1, sa)
      \<and> do_atcah_verify_mac E
           \<lparr>vmac_mode = mode OR VERIFY_MODE_SOURCE_MSGDIGBUF K OR VERIFY_MODE_MAC_FLAG K,
            vmac_key_id = key_id, vmac_signature = the signature,
            vmac_msg_dig_buf = take 32 (the message) @ take 32 (the num_in),
            vmac_io_key = the io_key, vmac_temp_key = None, vmac_sn = None\<rparr> sa
         = ((s2, host_mac), sb)
      \<and> calib_verify B K E device
         (mode OR VERIFY_MODE_SOURCE_MSGDIGBUF K OR VERIFY_MODE_MAC_FLAG K) key_id
         signature public_key None (Some mac_uninit) sb = ((s3, mac), sc)
     \<longrightarrow> (let r = calib_verify_extern_stored_mac B K E device mode key_id message signature
                   public_key num_in io_key is_verified mac_uninit st
         in r = (if s1 \<noteq> ATCA_SUCCESS then ((s1, Some False), sa)
                else if ATCA_SUCCESS \<noteq> s2 then ((s2, Some False), sb)
                else if ATCA_SUCCESS \<noteq> s3
                then (if s3 = ATCA_CHECKMAC_VERIFY_FAILED then ((ATCA_SUCCESS, Some False), sc)
                      else ((s3, Some False), sc))
                else ((ATCA_SUCCESS, Some (memcmp_eq host_mac (the mac) MAC_SIZE)),
                      log_event (Store_is_verified (memcmp_eq host_mac (the mac) MAC_SIZE)) sc))
            \<and> stores (new_events st (snd r)) =
                  (if s1 = ATCA_SUCCESS \<and> s2 = ATCA_SUCCESS \<and> s3 = ATCA_SUCCESS
                  then [False, memcmp_eq host_mac (the mac) MAC_SIZE]
                  else [False])
            \<and> cleared_first st r
            \<and> verified_only_on_success r))
   \<and> (device \<noteq> None \<and> is_verified \<noteq> None \<and> signature \<noteq> None \<and> message \<noteq> None \<and> public_key \<noteq> None
      \<and> do_nonce_load E device
         (if ATECC608 = devtype (the device) then NONCE_MODE_TARGET_MSGDIGBUF K
          else NONCE_MODE_TARGET_TEMPKEY K)
         (the message) 32 (log_event (Store_is_verified False) st) = (s1, sa)
      \<and> calib_verify B K E device
         (VERIFY_MODE_EXTERNAL K OR
            (if ATECC608 = devtype (the device) then VERIFY_MODE_SOURCE_MSGDIGBUF K
             else VERIFY_MODE_SOURCE_TEMPKEY K))
         (VERIFY_KEY_P256 K) signature public_key None None sa = ((s2, m), sb)
     \<longrightarrow> (let r = calib_verify_extern B K E device message signature public_key is_verified st
         in r = (if s1 \<noteq> ATCA_SUCCESS then ((s1, Some False), sa)
                else ((if s2 = ATCA_CHECKMAC_VERIFY_FAILED then ATCA_SUCCESS else s2,
                    Some (s2 = ATCA_SUCCESS)),
                   log_event (Store_is_verified (s2 = ATCA_SUCCESS)) sb))
            \<and> stores (new_events st (snd r)) =
                  (if s1 = ATCA_SUCCESS then [False, s2 = ATCA_SUCCESS] else [False])
            \<and> cleared_first st r
            \<and> verified_only_on_success r))
   \<and> (device \<noteq> None \<and> is_verified \<noteq> None \<and> signature \<noteq> None \<and> message \<noteq> None
      \<and> do_nonce_load E device
         (if ATECC608 = devtype (the device) then NONCE_MODE_TARGET_MSGDIGBUF K
          else NONCE_MODE_TARGET_TEMPKEY K)
         (the message) 32 (log_event (Store_is_verified False) st) = (s1, sa)
      \<and> calib_verify B K E device
         (VERIFY_MODE_STORED K OR
            (if ATECC608 = devtype (the device) then VERIFY_MODE_SOURCE_MSGDIGBUF K
             else VERIFY_MODE_SOURCE_TEMPKEY K))
         key_id signature None None None sa = ((s2, m), sb)
     \<longrightarrow> (let r = calib_verify_stored B K E device message signature key_id is_verified st
         in r = (if s1 \<noteq> ATCA_SUCCESS then ((s1, Some False), sa)
                else ((if s2 = ATCA_CHECKMAC_VERIFY_FAILED then ATCA_SUCCESS else s2,
                    Some (s2 = ATCA_SUCCESS)),
                   log_event (Store_is_verified (s2 = ATCA_SUCCESS)) sb))
            \<and> stores (new_events st (snd r)) =
                  (if s1 = ATCA_SUCCESS then [False, s2 = ATCA_SUCCESS] else [False])
            \<and> cleared_first st r
            \<and> verified_only_on_success r))
   \<and> (device \<noteq> None \<and> is_verified \<noteq> None \<and> signature \<noteq> None
      \<and> calib_verify B K E device
         (VERIFY_MODE_STORED K OR VERIFY_MODE_SOURCE_TEMPKEY K) key_id signature
         None None None (log_event (Store_is_verified False) st) = ((s2, m), sb)
     \<longrightarrow> (let r = calib_verify_stored_with_tempkey B K E device signature key_id is_verified st
         in r = ((if s2 = ATCA_CHECKMAC_VERIFY_FAILED then ATCA_SUCCESS else s2,
                 Some (s2 = ATCA_SUCCESS)),
                log_event (Store_is_verified (s2 = ATCA_SUCCESS)) sb)
            \<and> stores (new_events st (snd r)) =
                  [False, s2 = ATCA_SUCCESS]
            \<and> cleared_first st r
            \<and> verified_only_on_success r))
   \<and> (device \<noteq> None \<and> signature \<noteq> None \<and> other_data \<noteq> None \<and> is_verified \<noteq> None
      \<and> calib_verify B K E device (VERIFY_MODE_VALIDATE K) key_id signature None
         other_data None st = ((s2, m), sb)
     \<longrightarrow> (let r = calib_verify_validate B K E device key_id signature other_data is_verified st
         in r = ((if s2 = ATCA_CHECKMAC_VERIFY_FAILED then ATCA_SUCCESS else s2,
                 Some (s2 = ATCA_SUCCESS)),
                log_event (Store_is_verified (s2 = ATCA_SUCCESS)) sb)
            \<and> stores (new_events st (snd r)) =
                  [s2 = ATCA_SUCCESS]
            \<and> verified_only_on_success r))
   \<and> (device \<noteq> None \<and> signature \<noteq> None \<and> other_data \<noteq> None \<and> is_verified \<noteq> None
      \<and> calib_verify B K E device (VERIFY_MODE_INVALIDATE K) key_id signature None
         other_data None st = ((s2, m), sb)
     \<longrightarrow> (let r = calib_verify_invalidate B K E device key_id signature other_data is_verified st
         in r = ((if s2 = ATCA_CHECKMAC_VERIFY_FAILED then ATCA_SUCCESS else s2,
                 Some (s2 = ATCA_SUCCESS)),
                log_event (Store_is_verified (s2 = ATCA_SUCCESS)) sb)
            \<and> stores (new_events st (snd r)) =
                  [s2 = ATCA_SUCCESS]
            \<and> verified_only_on_success r))"
  by (intro conjI impI; (elim conjE)?;
      (rule calib_secureboot_mac_history
        calib_verify_extern_stored_mac_history
        calib_verify_extern_history
        calib_verify_stored_history
        calib_verify_stored_with_tempkey_history
        calib_verify_validate_history
        calib_verify_invalidate_history;
       assumption))

theorem flag_false_unless_success_witness:
  "fst (calib_secureboot_mac default_config header_consts
        (stub_collaborators ATCA_SUCCESS mac_response) (Some device_608) 0x05
        (Some (replicate 32 0xDD)) (Some (replicate 64 0xAA)) (Some (replicate 20 0x77))
        (Some (replicate 32 0x88)) (Some True) (replicate 32 0) initial_state)
     = (ATCA_SUCCESS, Some True)
   \<and> stores (new_events initial_state
       (snd (calib_secureboot_mac default_config header_consts
        (stub_collaborators ATCA_SUCCESS mac_response) (Some device_608) 0x05
        (Some (replicate 32 0xDD)) (Some (replicate 64 0xAA)) (Some (replicate 20 0x77))
        (Some (replicate 32 0x88)) (Some True) (replicate 32 0) initial_state)))
     = [False, True]
   \<and> fst (calib_verify_extern_stored_mac default_config header_consts
        (stub_collaborators ATCA_SUCCESS mac_response) (Some device_608) 0x02 4
        (Some (replicate 32 0xEE)) (Some (replicate 64 0xAA)) (Some (replicate 64 0xBB))
        (Some (replicate 32 0x77)) (Some (replicate 32 0x88)) (Some True) (replicate 32 0) initial_state)
     = (ATCA_SUCCESS, Some True)
   \<and> stores (new_events initial_state
       (snd (calib_verify_extern_stored_mac default_config header_consts
        (stub_collaborators ATCA_SUCCESS mac_response) (Some device_608) 0x02 4
        (Some (replicate 32 0xEE)) (Some (replicate 64 0xAA)) (Some (replicate 64 0xBB))
        (Some (replicate 32 0x77)) (Some (replicate 32 0x88)) (Some True) (replicate 32 0) initial_state)))
     = [False, True]
   \<and> fst (calib_verify_extern default_config header_consts
        (stub_collaborators ATCA_SUCCESS mac_response) (Some device_608)
        (Some (replicate 32 0xEE)) (Some (replicate 64 0xAA)) (Some (replicate 64 0xBB)) (Some True) initial_state)
     = (ATCA_SUCCESS, Some True)
   \<and> stores (new_events initial_state
       (snd (calib_verify_extern default_config header_consts
        (stub_collaborators ATCA_SUCCESS mac_response) (Some device_608)
        (Some (replicate 32 0xEE)) (Some (replicate 64 0xAA)) (Some (replicate 64 0xBB)) (Some True) initial_state)))
     = [False, True]
   \<and> fst (calib_verify_stored default_config header_consts
        (stub_collaborators ATCA_SUCCESS mac_response) (Some device_608)
        (Some (replicate 32 0xEE)) (Some (replicate 64 0xAA)) 9 (Some True) initial_state)
     = (ATCA_SUCCESS, Some True)
   \<and> stores (new_events initial_state
       (snd (calib_verify_stored default_config header_consts
        (stub_collaborators ATCA_SUCCESS mac_response) (Some device_608)
        (Some (replicate 32 0xEE)) (Some (replicate 64 0xAA)) 9 (Some True) initial_state)))
     = [False, True]
   \<and> fst (calib_verify_stored_with_tempkey default_config header_consts
        (stub_collaborators ATCA_SUCCESS mac_response) (Some device_608)
        (Some (replicate 64 0xAA)) 9 (Some True) initial_state)
     = (ATCA_SUCCESS, Some True)
   \<and> stores (new_events initial_state
       (snd (calib_verify_stored_with_tempkey default_config header_consts
        (stub_collaborators ATCA_SUCCESS mac_response) (Some device_608)
        (Some (replicate 64 0xAA)) 9 (Some True) initial_state)))
     = [False, True]
   \<and> fst (calib_verify_validate default_config header_consts
        (stub_collaborators ATCA_SUCCESS mac_response) (Some device_608) 9
        (Some (replicate 64 0xAA)) (Some (replicate 19 0xCC)) (Some True) initial_state)
     = (ATCA_SUCCESS, Some True)
   \<and> stores (new_events initial_state
       (snd (calib_verify_validate default_config header_consts
        (stub_collaborators ATCA_SUCCESS mac_response) (Some device_608) 9
        (Some (replicate 64 0xAA)) (Some (replicate 19 0xCC)) (Some True) initial_state)))
     = [True]
   \<and> fst (calib_verify_invalidate default_config header_consts
        (stub_collaborators ATCA_SUCCESS mac_response) (Some device_608) 9
        (Some (replicate 64 0xAA)) (Some (replicate 19 0xCC)) (Some True) initial_state)
     = (ATCA_SUCCESS, Some True)
   \<and> stores (new_events initial_state
       (snd (calib_verify_invalidate default_config header_consts
        (stub_collaborators ATCA_SUCCESS mac_response) (Some device_608) 9
        (Some (replicate 64 0xAA)) (Some (replicate 19 0xCC)) (Some True) initial_state)))
     = [True]
   \<and> fst (calib_secureboot_mac default_config header_consts
        (stub_collaborators ATCA_CHECKMAC_VERIFY_FAILED (short_response 192)) (Some device_608) 0x05
        (Some (replicate 32 0xDD)) (Some (replicate 64 0xAA)) (Some (replicate 20 0x77))
        (Some (replicate 32 0x88)) (Some True) (replicate 32 0) initial_state)
     = (ATCA_SUCCESS, Some False)
   \<and> stores (new_events initial_state
       (snd (calib_secureboot_mac default_config header_consts
        (stub_collaborators ATCA_CHECKMAC_VERIFY_FAILED (short_response 192)) (Some device_608) 0x05
        (Some (replicate 32 0xDD)) (Some (replicate 64 0xAA)) (Some (replicate 20 0x77))
        (Some (replicate 32 0x88)) (Some True) (replicate 32 0) initial_state)))
     = [False, False]
   \<and> fst (calib_verify_extern default_config header_consts
        (stub_collaborators (ATCA_STATUS_OTHER 7) (short_response 192)) (Some device_608)
        (Some (replicate 32 0xEE)) (Some (replicate 64 0xAA)) (Some (replicate 64 0xBB)) (Some True) initial_state)
     = (ATCA_STATUS_OTHER 7, Some False)
   \<and> stores (new_events initial_state
       (snd (calib_verify_extern default_config header_consts
        (stub_collaborators (ATCA_STATUS_OTHER 7) (short_response 192)) (Some device_608)
        (Some (replicate 32 0xEE)) (Some (replicate 64 0xAA)) (Some (replicate 64 0xBB)) (Some True) initial_state)))
     = [False, False]
   \<and> fst (calib_verify_extern default_config header_consts
        ((stub_collaborators ATCA_SUCCESS mac_response)
           \<lparr>calib_nonce_load := \<lambda>device target buf n w. (ATCA_STATUS_OTHER 9, w)\<rparr>) (Some device_608)
        (Some (replicate 32 0xEE)) (Some (replicate 64 0xAA)) (Some (replicate 64 0xBB)) (Some True) initial_state)
     = (ATCA_STATUS_OTHER 9, Some False)
   \<and> stores (new_events initial_state
       (snd (calib_verify_extern default_config header_consts
        ((stub_collaborators ATCA_SUCCESS mac_response)
           \<lparr>calib_nonce_load := \<lambda>device target buf n w. (ATCA_STATUS_OTHER 9, w)\<rparr>) (Some device_608)
        (Some (replicate 32 0xEE)) (Some (replicate 64 0xAA)) (Some (replicate 64 0xBB)) (Some True) initial_state)))
     = [False]
   \<and> fst (calib_verify_validate default_config header_consts
        (stub_collaborators (ATCA_STATUS_OTHER 7) (short_response 192)) (Some device_608) 9
        (Some (replicate 64 0xAA)) (Some (replicate 19 0xCC)) (Some True) initial_state)
     = (ATCA_STATUS_OTHER 7, Some False)
   \<and> stores (new_events initial_state
       (snd (calib_verify_validate default_config header_consts
        (stub_collaborators (ATCA_STATUS_OTHER 7) (short_response 192)) (Some device_608) 9
        (Some (replicate 64 0xAA)) (Some (replicate 19 0xCC)) (Some True) initial_state)))
     = [False]"
proof -
  let ?E = "stub_collaborators ATCA_SUCCESS mac_response"
  let ?F = "stub_collaborators (ATCA_STATUS_OTHER 7) (short_response 192)"
  let ?M = "stub_collaborators ATCA_CHECKMAC_VERIFY_FAILED (short_response 192)"
  let ?L = "(stub_collaborators ATCA_SUCCESS mac_response)
             \<lparr>calib_nonce_load := \<lambda>device target buf n w. (ATCA_STATUS_OTHER 9, w)\<rparr>"
  let ?s0 = "log_event (Store_is_verified False) initial_state"
  let ?np = "\<lparr>nonce_mode = 0, nonce_zero = 0, nonce_num_in = replicate 20 0x77,
             nonce_rand_out = replicate 32 0x11, nonce_temp_key = replicate 68 0\<rparr>"
  let ?ep = "\<lparr>enc_io_key = replicate 32 0x88, enc_temp_key = replicate 68 0x22,
             enc_digest = replicate 32 0xDD\<rparr>"
  let ?mp = "\<lparr>sbmac_mode = 0x85, sbmac_param2 = 0, sbmac_secure_boot_config = 0x0101,
             sbmac_hashed_key = replicate 32 0x33, sbmac_digest = replicate 32 0xDD,
             sbmac_signature = Some (replicate 64 0xAA)\<rparr>"
  let ?vp = "\<lparr>vmac_mode = 0xA2, vmac_key_id = 4, vmac_signature = replicate 64 0xAA,
             vmac_msg_dig_buf = replicate 32 0xEE @ replicate 32 0x77,
             vmac_io_key = replicate 32 0x88, vmac_temp_key = None, vmac_sn = None\<rparr>"
  let ?saE = "snd (do_nonce_base ?E (Some device_608) 0 0 (replicate 20 0x77) ?s0)"
  let ?sbE = "snd (do_atcah_nonce ?E ?np ?saE)"
  let ?scE = "snd (do_atcah_secureboot_enc ?E ?ep ?sbE)"
  let ?sdE = "snd (calib_secureboot default_config ?E (Some device_608) 0x85 0
                   (Some (replicate 32 0x44)) (Some (replicate 64 0xAA)) (Some (replicate 32 0))
                   ?scE)"
  let ?seE = "snd (do_read_bytes_zone ?E (Some device_608) 0 0 70 2 ?sdE)"
  let ?sfE = "snd (do_atcah_secureboot_mac ?E ?mp ?seE)"
  let ?saM = "snd (do_nonce_base ?M (Some device_608) 0 0 (replicate 20 0x77) ?s0)"
  let ?sbM = "snd (do_atcah_nonce ?M ?np ?saM)"
  let ?scM = "snd (do_atcah_secureboot_enc ?M ?ep ?sbM)"
  let ?sdM = "snd (calib_secureboot default_config ?M (Some device_608) 0x85 0
                   (Some (replicate 32 0x44)) (Some (replicate 64 0xAA)) (Some (replicate 32 0))
                   ?scM)"
  let ?seM = "snd (do_read_bytes_zone ?M (Some device_608) 0 0 70 2 ?sdM)"
  let ?sfM = "snd (do_atcah_secureboot_mac ?M ?mp ?seM)"
  let ?ta = "snd (do_nonce_load ?E (Some device_608) 0x40
                    (replicate 32 0xEE @ replicate 32 0x77) 64 ?s0)"
  let ?tb = "snd (do_atcah_verify_mac ?E ?vp ?ta)"
  let ?tc = "snd (calib_verify default_config header_consts ?E (Some device_608) 0xA2 4
                    (Some (replicate 64 0xAA)) (Some (replicate 64 0xBB)) None
                    (Some (replicate 32 0)) ?tb)"
  let ?uaE = "snd (do_nonce_load ?E (Some device_608) 0x40 (replicate 32 0xEE) 32 ?s0)"
  let ?uaF = "snd (do_nonce_load ?F (Some device_608) 0x40 (replicate 32 0xEE) 32 ?s0)"
  let ?uaL = "snd (do_nonce_load ?L (Some device_608) 0x40 (replicate 32 0xEE) 32 ?s0)"
  note t1 = flag_false_unless_success
    [where B = default_config and K = header_consts and device = "Some device_608"
       and is_verified = "Some True" and st = initial_state
       and E = ?E and mode = "0x05"
       and digest = "Some (replicate 32 0xDD)" and signature = "Some (replicate 64 0xAA)"
       and num_in = "Some (replicate 20 0x77)" and io_key = "Some (replicate 32 0x88)"
       and mac_uninit = "replicate 32 0"
       and ?s1.0 = ATCA_SUCCESS and rand_out = "replicate 32 0x11" and sa = ?saE
       and ?s2.0 = ATCA_SUCCESS and tempkey = "replicate 68 0x22" and sb = ?sbE
       and ?s3.0 = ATCA_SUCCESS and key = "replicate 32 0x33"
       and digest_enc = "replicate 32 0x44" and sc = ?scE
       and ?s4.0 = ATCA_SUCCESS and mac = "Some (replicate 32 0x55)" and sd = ?sdE
       and ?s5.0 = ATCA_SUCCESS and buf = "replicate 2 0x01" and se = ?seE
       and ?s6.0 = ATCA_SUCCESS and host_mac = "replicate 32 0x55" and sf = ?sfE,
      THEN conjunct1]
  note t2 = flag_false_unless_success
    [where B = default_config and K = header_consts and device = "Some device_608"
       and is_verified = "Some True" and st = initial_state
       and E = ?E and mode = "0x02" and key_id = 4
       and message = "Some (replicate 32 0xEE)" and signature = "Some (replicate 64 0xAA)"
       and public_key = "Some (replicate 64 0xBB)"
       and num_in = "Some (replicate 32 0x77)" and io_key = "Some (replicate 32 0x88)"
       and mac_uninit = "replicate 32 0"
       and ?s1.0 = ATCA_SUCCESS and sa = ?ta
       and ?s2.0 = ATCA_SUCCESS and host_mac = "replicate 32 0x55" and sb = ?tb
       and ?s3.0 = ATCA_SUCCESS and mac = "Some (replicate 32 0x55)" and sc = ?tc,
      THEN conjunct2, THEN conjunct1]
  note t3 = flag_false_unless_success
    [where B = default_config and K = header_consts and device = "Some device_608"
       and is_verified = "Some True" and st = initial_state
       and E = ?E
       and message = "Some (replicate 32 0xEE)" and signature = "Some (replicate 64 0xAA)"
       and public_key = "Some (replicate 64 0xBB)"
       and ?s1.0 = "ATCA_SUCCESS" and sa = ?uaE
       and ?s2.0 = "ATCA_SUCCESS" and m = None
       and sb = "snd (calib_verify default_config header_consts ?E (Some device_608) 0x22 4
                    (Some (replicate 64 0xAA)) (Some (replicate 64 0xBB)) None None ?uaE)",
      THEN conjunct2, THEN conjunct2, THEN conjunct1]
  note t4 = flag_false_unless_success
    [where B = default_config and K = header_consts and device = "Some device_608"
       and is_verified = "Some True" and st = initial_state
       and E = ?E
       and message = "Some (replicate 32 0xEE)" and signature = "Some (replicate 64 0xAA)" and key_id = 9
       and ?s1.0 = "ATCA_SUCCESS" and sa = ?uaE
       and ?s2.0 = "ATCA_SUCCESS" and m = None
       and sb = "snd (calib_verify default_config header_consts ?E (Some device_608) 0x20 9
                    (Some (replicate 64 0xAA)) None None None ?uaE)",
      THEN conjunct2, THEN conjunct2, THEN conjunct2, THEN conjunct1]
  note t5 = flag_false_unless_success
    [where B = default_config and K = header_consts and device = "Some device_608"
       and is_verified = "Some True" and st = initial_state
       and E = ?E
       and signature = "Some (replicate 64 0xAA)" and key_id = 9
       and ?s2.0 = "ATCA_SUCCESS" and m = None
       and sb = "snd (calib_verify default_config header_consts ?E (Some device_608) 0 9
                    (Some (replicate 64 0xAA)) None None None ?s0)",
      THEN conjunct2, THEN conjunct2, THEN conjunct2, THEN conjunct2, THEN conjunct1]
  note t6 = flag_false_unless_success
    [where B = default_config and K = header_consts and device = "Some device_608"
       and is_verified = "Some True" and st = initial_state
       and E = ?E
       and signature = "Some (replicate 64 0xAA)" and key_id = 9
       and other_data = "Some (replicate 19 0xCC)"
       and ?s2.0 = "ATCA_SUCCESS" and m = None
       and sb = "snd (calib_verify default_config header_consts ?E (Some device_608) 0x03 9
                    (Some (replicate 64 0xAA)) None (Some (replicate 19 0xCC)) None initial_state)",
      THEN conjunct2, THEN conjunct2, THEN conjunct2, THEN conjunct2, THEN conjunct2, THEN conjunct1]
  note t7 = flag_false_unless_success
    [where B = default_config and K = header_consts and device = "Some device_608"
       and is_verified = "Some True" and st = initial_state
       and E = ?E
       and signature = "Some (replicate 64 0xAA)" and key_id = 9
       and other_data = "Some (replicate 19 0xCC)"
       and ?s2.0 = "ATCA_SUCCESS" and m = None
       and sb = "snd (calib_verify default_config header_consts ?E (Some device_608) 0x07 9
                    (Some (replicate 64 0xAA)) None (Some (replicate 19 0xCC)) None initial_state)",
      THEN conjunct2, THEN conjunct2, THEN conjunct2, THEN conjunct2, THEN conjunct2, THEN conjunct2]
  note t8 = flag_false_unless_success
    [where B = default_config and K = header_consts and device = "Some device_608"
       and is_verified = "Some True" and st = initial_state
       and E = ?M and mode = "0x05"
       and digest = "Some (replicate 32 0xDD)" and signature = "Some (replicate 64 0xAA)"
       and num_in = "Some (replicate 20 0x77)" and io_key = "Some (replicate 32 0x88)"
       and mac_uninit = "replicate 32 0"
       and ?s1.0 = ATCA_SUCCESS and rand_out = "replicate 32 0x11" and sa = ?saM
       and ?s2.0 = ATCA_SUCCESS and tempkey = "replicate 68 0x22" and sb = ?sbM
       and ?s3.0 = ATCA_SUCCESS and key = "replicate 32 0x33"
       and digest_enc = "replicate 32 0x44" and sc = ?scM
       and ?s4.0 = ATCA_CHECKMAC_VERIFY_FAILED and mac = "Some (replicate 32 0)" and sd = ?sdM
       and ?s5.0 = ATCA_SUCCESS and buf = "replicate 2 0x01" and se = ?seM
       and ?s6.0 = ATCA_SUCCESS and host_mac = "replicate 32 0x55" and sf = ?sfM,
      THEN conjunct1]
  note t9 = flag_false_unless_success
    [where B = default_config and K = header_consts and device = "Some device_608"
       and is_verified = "Some True" and st = initial_state
       and E = ?F
       and message = "Some (replicate 32 0xEE)" and signature = "Some (replicate 64 0xAA)"
       and public_key = "Some (replicate 64 0xBB)"
       and ?s1.0 = "ATCA_SUCCESS" and sa = ?uaF
       and ?s2.0 = "ATCA_STATUS_OTHER 7" and m = None
       and sb = "snd (calib_verify default_config header_consts ?F (Some device_608) 0x22 4
                    (Some (replicate 64 0xAA)) (Some (replicate 64 0xBB)) None None ?uaF)",
      THEN conjunct2, THEN conjunct2, THEN conjunct1]
  note t10 = flag_false_unless_success
    [where B = default_config and K = header_consts and device = "Some device_608"
       and is_verified = "Some True" and st = initial_state
       and E = ?L
       and message = "Some (replicate 32 0xEE)" and signature = "Some (replicate 64 0xAA)"
       and public_key = "Some (replicate 64 0xBB)"
       and ?s1.0 = "ATCA_STATUS_OTHER 9" and sa = ?uaL
       and ?s2.0 = "ATCA_SUCCESS" and m = None
       and sb = "snd (calib_verify default_config header_consts ?L (Some device_608) 0x22 4
                    (Some (replicate 64 0xAA)) (Some (replicate 64 0xBB)) None None ?uaL)",
      THEN conjunct2, THEN conjunct2, THEN conjunct1]
  note t11 = flag_false_unless_success
    [where B = default_config and K = header_consts and device = "Some device_608"
       and is_verified = "Some True" and st = initial_state
       and E = ?F
       and signature = "Some (replicate 64 0xAA)" and key_id = 9
       and other_data = "Some (replicate 19 0xCC)"
       and ?s2.0 = "ATCA_STATUS_OTHER 7" and m = None
       and sb = "snd (calib_verify default_config header_consts ?F (Some device_608) 0x03 9
                    (Some (replicate 64 0xAA)) None (Some (replicate 19 0xCC)) None initial_state)",
      THEN conjunct2, THEN conjunct2, THEN conjunct2, THEN conjunct2, THEN conjunct2, THEN conjunct1]
  have w1: "fst (calib_secureboot_mac default_config header_consts
            ?E (Some device_608) 0x05
            (Some (replicate 32 0xDD)) (Some (replicate 64 0xAA)) (Some (replicate 20 0x77))
            (Some (replicate 32 0x88)) (Some True) (replicate 32 0) initial_state)
         = (ATCA_SUCCESS, Some True)
       \<and> stores (new_events initial_state
           (snd (calib_secureboot_mac default_config header_consts
            ?E (Some device_608) 0x05
            (Some (replicate 32 0xDD)) (Some (replicate 64 0xAA)) (Some (replicate 20 0x77))
            (Some (replicate 32 0x88)) (Some True) (replicate 32 0) initial_state)))
         = [False, True]"
    using t1 by (simp add: eval_simps Let_def new_events_def)
  have w2: "fst (calib_verify_extern_stored_mac default_config header_consts
            ?E (Some device_608) 0x02 4
            (Some (replicate 32 0xEE)) (Some (replicate 64 0xAA)) (Some (replicate 64 0xBB))
            (Some (replicate 32 0x77)) (Some (replicate 32 0x88)) (Some True) (replicate 32 0) initial_state)
         = (ATCA_SUCCESS, Some True)
       \<and> stores (new_events initial_state
           (snd (calib_verify_extern_stored_mac default_config header_consts
            ?E (Some device_608) 0x02 4
            (Some (replicate 32 0xEE)) (Some (replicate 64 0xAA)) (Some (replicate 64 0xBB))
            (Some (replicate 32 0x77)) (Some (replicate 32 0x88)) (Some True) (replicate 32 0) initial_state)))
         = [False, True]"
    using t2 by (simp add: eval_simps Let_def new_events_def)
  have w3: "fst (calib_verify_extern default_config header_consts
            ?E (Some device_608)
            (Some (replicate 32 0xEE)) (Some (replicate 64 0xAA)) (Some (replicate 64 0xBB)) (Some True) initial_state)
         = (ATCA_SUCCESS, Some True)
       \<and> stores (new_events initial_state
           (snd (calib_verify_extern default_config header_consts
            ?E (Some device_608)
            (Some (replicate 32 0xEE)) (Some (replicate 64 0xAA)) (Some (replicate 64 0xBB)) (Some True) initial_state)))
         = [False, True]"
    using t3 by (simp add: eval_simps Let_def new_events_def)
  have w4: "fst (calib_verify_stored default_config header_consts
            ?E (Some device_608)
            (Some (replicate 32 0xEE)) (Some (replicate 64 0xAA)) 9 (Some True) initial_state)
         = (ATCA_SUCCESS, Some True)
       \<and> stores (new_events initial_state
           (snd (calib_verify_stored default_config header_consts
            ?E (Some device_608)
            (Some (replicate 32 0xEE)) (Some (replicate 64 0xAA)) 9 (Some True) initial_state)))
         = [False, True]"
    using t4 by (simp add: eval_simps Let_def new_events_def)
  have w5: "fst (calib_verify_stored_with_tempkey default_config header_consts
            ?E (Some device_608)
            (Some (replicate 64 0xAA)) 9 (Some True) initial_state)
         = (ATCA_SUCCESS, Some True)
       \<and> stores (new_events initial_state
           (snd (calib_verify_stored_with_tempkey default_config header_consts
            ?E (Some device_608)
            (Some (replicate 64 0xAA)) 9 (Some True) initial_state)))
         = [False, True]"
    using t5 by (simp add: eval_simps Let_def new_events_def)
  have w6: "fst (calib_verify_validate default_config header_consts
            ?E (Some device_608) 9
            (Some (replicate 64 0xAA)) (Some (replicate 19 0xCC)) (Some True) initial_state)
         = (ATCA_SUCCESS, Some True)
       \<and> stores (new_events initial_state
           (snd (calib_verify_validate default_config header_consts
            ?E (Some device_608) 9
            (Some (replicate 64 0xAA)) (Some (replicate 19 0xCC)) (Some True) initial_state)))
         = [True]"
    using t6 by (simp add: eval_simps Let_def new_events_def)
  have w7: "fst (calib_verify_invalidate default_config header_consts
            ?E (Some device_608) 9
            (Some (replicate 64 0xAA)) (Some (replicate 19 0xCC)) (Some True) initial_state)
         = (ATCA_SUCCESS, Some True)
       \<and> stores (new_events initial_state
           (snd (calib_verify_invalidate default_config header_consts
            ?E (Some device_608) 9
            (Some (replicate 64 0xAA)) (Some (replicate 19 0xCC)) (Some True) initial_state)))
         = [True]"
    using t7 by (simp add: eval_simps Let_def new_events_def)
  have w8: "fst (calib_secureboot_mac default_config header_consts
            ?M (Some device_608) 0x05
            (Some (replicate 32 0xDD)) (Some (replicate 64 0xAA)) (Some (replicate 20 0x77))
            (Some (replicate 32 0x88)) (Some True) (replicate 32 0) initial_state)
         = (ATCA_SUCCESS, Some False)
       \<and> stores (new_events initial_state
           (snd (calib_secureboot_mac default_config header_consts
            ?M (Some device_608) 0x05
            (Some (replicate 32 0xDD)) (Some (replicate 64 0xAA)) (Some (replicate 20 0x77))
            (Some (replicate 32 0x88)) (Some True) (replicate 32 0) initial_state)))
         = [False, False]"
    using t8 by (simp add: eval_simps Let_def new_events_def)
  have w9: "fst (calib_verify_extern default_config header_consts
            ?F (Some device_608)
            (Some (replicate 32 0xEE)) (Some (replicate 64 0xAA)) (Some (replicate 64 0xBB)) (Some True) initial_state)
         = (ATCA_STATUS_OTHER 7, Some False)
       \<and> stores (new_events initial_state
           (snd (calib_verify_extern default_config header_consts
            ?F (Some device_608)
            (Some (replicate 32 0xEE)) (Some (replicate 64 0xAA)) (Some (replicate 64 0xBB)) (Some True) initial_state)))
         = [False, False]"
    using t9 by (simp add: eval_simps Let_def new_events_def)
  have w10: "fst (calib_verify_extern default_config header_consts
            (?E
               \<lparr>calib_nonce_load := \<lambda>device target buf n w. (ATCA_STATUS_OTHER 9, w)\<rparr>) (Some device_608)
            (Some (replicate 32 0xEE)) (Some (replicate 64 0xAA)) (Some (replicate 64 0xBB)) (Some True) initial_state)
         = (ATCA_STATUS_OTHER 9, Some False)
       \<and> stores (new_events initial_state
           (snd (calib_verify_extern default_config header_consts
            (?E
               \<lparr>calib_nonce_load := \<lambda>device target buf n w. (ATCA_STATUS_OTHER 9, w)\<rparr>) (Some device_608)
            (Some (replicate 32 0xEE)) (Some (replicate 64 0xAA)) (Some (replicate 64 0xBB)) (Some True) initial_state)))
         = [False]"
    using t10 by (simp add: eval_simps Let_def new_events_def)
  have w11: "fst (calib_verify_validate default_config header_consts
            ?F (Some device_608) 9
            (Some (replicate 64 0xAA)) (Some (replicate 19 0xCC)) (Some True) initial_state)
         = (ATCA_STATUS_OTHER 7, Some False)
       \<and> stores (new_events initial_state
           (snd (calib_verify_validate default_config header_consts
            ?F (Some device_608) 9
            (Some (replicate 64 0xAA)) (Some (replicate 19 0xCC)) (Some True) initial_state)))
         = [False]"
    using t11 by (simp add: eval_simps Let_def new_events_def)
  from w1 w2 w3 w4 w5 w6 w7 w8 w9 w10 w11 show ?thesis by blast
qed

end
